theory Spec2Isabelle
  imports Complex_Main "HOL-Library.Multiset" "HOL-Library.Word"
begin

chapter \<open>Graph Cut (Gc) library: MATLAB drivers, marshalling, heap sort and metric weights\<close>

text \<open>
  A shallow embedding of the parts of the Gc repository that its specification makes
  claims about: the neighbourhood factory and the parameter checks of the MATLAB entry
  points, the image marshalling of \<^verbatim>\<open>GcMatlab.h\<close>, the label read-back of
  \<^verbatim>\<open>GcChanVeseLab.cpp\<close>, the MATLAB tools \<^verbatim>\<open>gc_normalize_image.m\<close>,
  \<^verbatim>\<open>gc_weighted_kmeans.m\<close> and \<^verbatim>\<open>gc_chan_vese_two_stage.m\<close>, the heap sort of
  \<^verbatim>\<open>Heap.h\<close> and the Riemannian edge weights of \<^verbatim>\<open>RiemannianDanek.cpp\<close>.

  Conventions. Floating point numbers (\<^verbatim>\<open>Float32\<close>, \<^verbatim>\<open>Float64\<close>, MATLAB doubles)
  are idealised as \<^typ>\<open>real\<close>; where the source can produce a NaN or an infinity (a
  mean of an empty selection, a quotient by zero) the value has a type that says so.
  \<^verbatim>\<open>gc_normalize_image\<close> is the exception: there rounding and overflow are kept,
  through a rounding function and an overflow bound of the image's format.
  \<^verbatim>\<open>mexErrMsgTxt\<close> leaves the MEX function at once: a run of a driver ends in
  \<open>Returns\<close> with its outputs, in \<open>mexErrMsgTxt\<close> with the message, or in \<open>Crash\<close>
  (a division by zero, a read through a null pointer). Types, constants and library
  functions of \<^verbatim>\<open>Gc\<close> that are not among the sources are parameters of the
  definitions that use them.
\<close>

section \<open>C library: \<^verbatim>\<open>atoi\<close>\<close>

definition isspace :: "char \<Rightarrow> bool" where
  "isspace c = (c \<in> set [CHR '' '', CHR 0x09, CHR 0x0A, CHR 0x0B, CHR 0x0C, CHR 0x0D])"

definition isdigit :: "char \<Rightarrow> bool" where
  "isdigit c = ((48::nat) \<le> of_char c \<and> (of_char c :: nat) \<le> 57)"

fun digits_value :: "nat \<Rightarrow> string \<Rightarrow> nat" where
  "digits_value acc [] = acc"
| "digits_value acc (c # cs) =
     (if isdigit c then digits_value (10 * acc + (of_char c - 48)) cs else acc)"

text \<open>
  \<^verbatim>\<open>atoi\<close>: leading white space, an optional sign, then the longest run of decimal
  digits; anything after it is ignored and no digits at all give 0. (The drivers read the
  symbol into a buffer of 10 bytes, so at most 8 digits reach \<^verbatim>\<open>atoi\<close> and the
  result fits an \<^verbatim>\<open>int\<close>.)
\<close>

definition atoi :: "string \<Rightarrow> int" where
  "atoi s =
     (case dropWhile isspace s of
        [] \<Rightarrow> 0
      | c # cs \<Rightarrow>
          if c = CHR ''-'' then - int (digits_value 0 cs)
          else if c = CHR ''+'' then int (digits_value 0 cs)
          else int (digits_value 0 (c # cs)))"

section \<open>\<^verbatim>\<open>GcMatlabTools.h\<close>: \<^verbatim>\<open>CreateNeighbourhood\<close>\<close>

text \<open>
  \<^verbatim>\<open>Gc::Size\<close> is declared in \<^verbatim>\<open>Gc/Type.h\<close>, which is not among the sources: the
  conversion \<^verbatim>\<open>(Gc::Size)i\<close> of an \<^verbatim>\<open>int\<close> is the parameter \<open>Size_of_int\<close>, and
  a \<^verbatim>\<open>Gc::Size\<close> is the integer it stands for.

  What is asked of the \<^verbatim>\<open>Neighbourhood\<close> object (its class is not among the sources):
  \<^verbatim>\<open>nb.Common(sz, with_center)\<close> or \<^verbatim>\<open>nb.Box(Vector(r), b1, b2)\<close>.
\<close>

datatype nb_request = Common int bool | Box int bool bool

definition unsupported_nb :: string where
  "unsupported_nb = ''Unsupported neighbourhood type for given image dimensionality.''"

definition CreateNeighbourhood :: "(int \<Rightarrow> int) \<Rightarrow> nat \<Rightarrow> string \<Rightarrow> string + nb_request" where
  "CreateNeighbourhood Size_of_int N str_nb =
     (if N = 2 \<and> (str_nb = ''N4'' \<or> str_nb = ''N8'' \<or> str_nb = ''N16'' \<or> str_nb = ''N32'')
      then Inr (Common (Size_of_int (atoi (tl str_nb))) False)
      else if N = 3 \<and> (str_nb = ''N6'' \<or> str_nb = ''N18'' \<or> str_nb = ''N26'')
      then Inr (Common (Size_of_int (atoi (tl str_nb))) False)
      else if N = 3 \<and> str_nb = ''N98''
      then Inr (Box 2 True False)
      else Inl unsupported_nb)"

text \<open>
  The drivers \<^verbatim>\<open>GcChanVeseLab\<close> (line 62), \<^verbatim>\<open>GcRoussonDeriche\<close> (line 38) and
  \<^verbatim>\<open>GcMumfordShah\<close> (line 40) do not call \<^verbatim>\<open>CreateNeighbourhood\<close>. They construct
  \<^verbatim>\<open>Neighbourhood<N,Int32> nb((Gc::Size)atoi(str_nb + 1), false)\<close>: the first
  character of the symbol is skipped unread. The constructor is a parameter \<open>ctor\<close>
  (it may accept or throw). For the empty symbol \<^verbatim>\<open>str_nb + 1\<close> points behind the
  terminator into the uninitialised buffer: \<open>None\<close>.
\<close>

definition Segment_Neighbourhood :: "(int \<Rightarrow> int) \<Rightarrow> (int \<Rightarrow> bool \<Rightarrow> 'r) \<Rightarrow> string \<Rightarrow> 'r option" where
  "Segment_Neighbourhood Size_of_int ctor str_nb =
     (case str_nb of
        [] \<Rightarrow> None
      | c # rest \<Rightarrow> Some (ctor (Size_of_int (atoi rest)) False))"

section \<open>\<^verbatim>\<open>Examples/Matlab/GcMatlab.h\<close>: \<^verbatim>\<open>GetImage\<close> and \<^verbatim>\<open>SetImage\<close>\<close>

text \<open>
  A MATLAB array is its dimension vector and its data in MATLAB's linear order (first
  axis fastest); a \<^verbatim>\<open>Gc::System::Collection::Array\<close> is its dimension vector and its
  storage (\<^verbatim>\<open>Begin()\<close>, X fastest). \<^verbatim>\<open>Elements()\<close> is the product of the dimensions.
\<close>

record 'a mxArray =
  mxDimensions :: "nat list"
  mxData :: "'a list"

record 'a Array =
  Dimensions :: "nat list"
  Elems :: "'a list"

definition Elements :: "'a Array \<Rightarrow> nat" where
  "Elements img = prod_list (Dimensions img)"

text \<open>
  The state of the copy loops: the offsets of the pointers \<^verbatim>\<open>din\<close> and \<^verbatim>\<open>dout\<close>
  from the start of their arrays, and the destination storage. Each \<^verbatim>\<open>for\<close> loop is
  a \<open>fold\<close> over its index range, innermost first: \<^verbatim>\<open>*dout = GC_DATA(*din); dout +=
  img_dim[0]; din++\<close>, then \<^verbatim>\<open>dout -= slice_sz - 1\<close> after the loop over \<open>y\<close> and
  \<^verbatim>\<open>dout += slice_sz - img_dim[0]\<close> after the loop over \<open>x\<close>. \<open>cast\<close> is the
  conversion \<^verbatim>\<open>GC_DATA(...)\<close> of one element (every driver converts a type to itself).
\<close>

type_synonym 'a copy_state = "nat \<times> nat \<times> 'a list"

definition GetImage_y :: "('m \<Rightarrow> 'g) \<Rightarrow> 'm list \<Rightarrow> nat list \<Rightarrow> 'g copy_state \<Rightarrow> 'g copy_state" where
  "GetImage_y cast src img_dim =
     fold (\<lambda>y (din, dout, dst). (din + 1, dout + img_dim ! 0, dst[dout := cast (src ! din)]))
       [0..<img_dim ! 1]"

definition GetImage_x ::
  "('m \<Rightarrow> 'g) \<Rightarrow> 'm list \<Rightarrow> nat list \<Rightarrow> nat \<Rightarrow> 'g copy_state \<Rightarrow> 'g copy_state" where
  "GetImage_x cast src img_dim slice_sz =
     fold (\<lambda>x s. case GetImage_y cast src img_dim s of
                   (din, dout, dst) \<Rightarrow> (din, dout - (slice_sz - 1), dst))
       [0..<img_dim ! 0]"

definition GetImage_i ::
  "('m \<Rightarrow> 'g) \<Rightarrow> 'm list \<Rightarrow> nat list \<Rightarrow> nat \<Rightarrow> nat \<Rightarrow> 'g copy_state \<Rightarrow> 'g copy_state" where
  "GetImage_i cast src img_dim slice_sz dim_wo_xy =
     fold (\<lambda>i s. case GetImage_x cast src img_dim slice_sz s of
                   (din, dout, dst) \<Rightarrow> (din, dout + (slice_sz - img_dim ! 0), dst))
       [0..<dim_wo_xy]"

text \<open>
  \<^verbatim>\<open>img.Resize(img_dim)\<close> leaves the content of the storage unspecified: cell \<open>i\<close>
  holds \<open>mem i\<close>, for a parameter \<open>mem\<close>. \<^verbatim>\<open>img.Elements() / slice_sz\<close> is an
  integer division; when the array has no row or no column \<^verbatim>\<open>slice_sz\<close> is 0 and the
  division is undefined (it traps): \<open>None\<close>. \<open>N\<close> is the template parameter, the number
  of dimensions the driver read from the array.
\<close>

definition GetImage :: "nat \<Rightarrow> ('m \<Rightarrow> 'g) \<Rightarrow> (nat \<Rightarrow> 'g) \<Rightarrow> 'm mxArray \<Rightarrow> 'g Array option" where
  "GetImage N cast mem mx_in =
     (let mx_dim = mxDimensions mx_in;
          img_dim = [mx_dim ! 1, mx_dim ! 0] @ map (\<lambda>i. mx_dim ! i) [2..<N];
          img = \<lparr>Dimensions = img_dim, Elems = map mem [0..<prod_list img_dim]\<rparr>;
          slice_sz = img_dim ! 0 * img_dim ! 1
      in if slice_sz = 0 then None
         else
           (let dim_wo_xy = Elements img div slice_sz;
                (din, dout, dst) =
                   GetImage_i cast (mxData mx_in) img_dim slice_sz dim_wo_xy (0, 0, Elems img)
            in Some (img\<lparr>Elems := dst\<rparr>)))"

text \<open>
  \<^verbatim>\<open>SetImage\<close> writes into the data of the MATLAB array \<^verbatim>\<open>mx_out\<close> that the caller
  created; its loops run over \<open>y\<close> outside and \<open>x\<close> inside, with the stride
  \<^verbatim>\<open>img.Dimensions()[1]\<close>.
\<close>

definition SetImage_x :: "('g \<Rightarrow> 'm) \<Rightarrow> 'g Array \<Rightarrow> 'm copy_state \<Rightarrow> 'm copy_state" where
  "SetImage_x cast img =
     fold (\<lambda>x (din, dout, dst). (din + 1, dout + Dimensions img ! 1, dst[dout := cast (Elems img ! din)]))
       [0..<Dimensions img ! 0]"

definition SetImage_y :: "('g \<Rightarrow> 'm) \<Rightarrow> 'g Array \<Rightarrow> nat \<Rightarrow> 'm copy_state \<Rightarrow> 'm copy_state" where
  "SetImage_y cast img slice_sz =
     fold (\<lambda>y s. case SetImage_x cast img s of
                   (din, dout, dst) \<Rightarrow> (din, dout - (slice_sz - 1), dst))
       [0..<Dimensions img ! 1]"

definition SetImage_i ::
  "('g \<Rightarrow> 'm) \<Rightarrow> 'g Array \<Rightarrow> nat \<Rightarrow> nat \<Rightarrow> 'm copy_state \<Rightarrow> 'm copy_state" where
  "SetImage_i cast img slice_sz dim_wo_xy =
     fold (\<lambda>i s. case SetImage_y cast img slice_sz s of
                   (din, dout, dst) \<Rightarrow> (din, dout + (slice_sz - Dimensions img ! 1), dst))
       [0..<dim_wo_xy]"

definition SetImage :: "('g \<Rightarrow> 'm) \<Rightarrow> 'g Array \<Rightarrow> 'm mxArray \<Rightarrow> 'm mxArray option" where
  "SetImage cast img mx_out =
     (let slice_sz = Dimensions img ! 0 * Dimensions img ! 1
      in if slice_sz = 0 then None
         else
           (let dim_wo_xy = Elements img div slice_sz;
                (din, dout, dst) = SetImage_i cast img slice_sz dim_wo_xy (0, 0, mxData mx_out)
            in Some (mx_out\<lparr>mxData := dst\<rparr>)))"

text \<open>
  For the proofs: both loop nests are this one, which runs \<open>K\<close> slices of \<open>P\<close> times
  \<open>Q\<close> cells and writes with stride \<open>P\<close> (\<^verbatim>\<open>GetImage\<close>: \<open>P\<close> columns and \<open>Q\<close>
  rows; \<^verbatim>\<open>SetImage\<close>: \<open>P\<close> rows and \<open>Q\<close> columns).
\<close>

definition nest_inner :: "('s \<Rightarrow> 'd) \<Rightarrow> 's list \<Rightarrow> nat \<Rightarrow> nat \<Rightarrow> 'd copy_state \<Rightarrow> 'd copy_state" where
  "nest_inner cast src P Q =
     fold (\<lambda>b (din, dout, dst). (din + 1, dout + P, dst[dout := cast (src ! din)])) [0..<Q]"

definition nest_mid :: "('s \<Rightarrow> 'd) \<Rightarrow> 's list \<Rightarrow> nat \<Rightarrow> nat \<Rightarrow> nat \<Rightarrow> 'd copy_state \<Rightarrow> 'd copy_state" where
  "nest_mid cast src P Q m =
     fold (\<lambda>a s. case nest_inner cast src P Q s of
                   (din, dout, dst) \<Rightarrow> (din, dout - (P * Q - 1), dst)) [0..<m]"

definition nest_outer :: "('s \<Rightarrow> 'd) \<Rightarrow> 's list \<Rightarrow> nat \<Rightarrow> nat \<Rightarrow> nat \<Rightarrow> 'd copy_state \<Rightarrow> 'd copy_state" where
  "nest_outer cast src P Q K =
     fold (\<lambda>i s. case nest_mid cast src P Q P s of
                   (din, dout, dst) \<Rightarrow> (din, dout + (P * Q - P), dst)) [0..<K]"

section \<open>The MATLAB drivers\<close>

subsection \<open>Outcome of a MEX call\<close>

text \<open>
  A MEX function returns its outputs, or is left through \<^verbatim>\<open>mexErrMsgTxt\<close> with a
  message, or crashes (undefined behaviour of the C++ code: an integer division by zero, a
  read through a null pointer). Statements in sequence are \<open>mex_bind\<close>.
\<close>

datatype 'a mex = Returns 'a | mexErrMsgTxt string | Crash

fun mex_bind :: "'a mex \<Rightarrow> ('a \<Rightarrow> 'b mex) \<Rightarrow> 'b mex" where
  "mex_bind (Returns x) f = f x"
| "mex_bind (mexErrMsgTxt m) f = mexErrMsgTxt m"
| "mex_bind Crash f = Crash"

subsection \<open>MATLAB values and the argument readers of \<^verbatim>\<open>GcMatlab.h\<close>\<close>

text \<open>
  The arguments \<^verbatim>\<open>prhs\<close>: arrays of the classes the drivers tell apart
  (\<^verbatim>\<open>mxIsDouble\<close>, \<^verbatim>\<open>mxIsSingle\<close>, \<^verbatim>\<open>mxIsUint8\<close>, \<^verbatim>\<open>mxIsLogical\<close>,
  \<^verbatim>\<open>mxIsChar\<close>); of any other class only the dimensions matter.
\<close>

datatype mxValue =
    mxDouble "real mxArray"
  | mxSingle "real mxArray"
  | mxUint8 "8 word mxArray"
  | mxLogical "bool mxArray"
  | mxChar string
  | mxOther "nat list"

fun mxGetNumberOfDimensions :: "mxValue \<Rightarrow> nat" where
  "mxGetNumberOfDimensions (mxDouble a) = length (mxDimensions a)"
| "mxGetNumberOfDimensions (mxSingle a) = length (mxDimensions a)"
| "mxGetNumberOfDimensions (mxUint8 a) = length (mxDimensions a)"
| "mxGetNumberOfDimensions (mxLogical a) = length (mxDimensions a)"
| "mxGetNumberOfDimensions (mxChar s) = 2"
| "mxGetNumberOfDimensions (mxOther d) = length d"

text \<open>
  \<^verbatim>\<open>GetString\<close>, \<^verbatim>\<open>GetNumber\<close>, \<^verbatim>\<open>GetLogical\<close> (lines 123-164): the class test with
  its message (\<^verbatim>\<open>sprintf\<close> of \<open>idx + 1\<close> in decimal), then the read.
  \<^verbatim>\<open>mxGetString\<close> copies at most \<open>strlen - 1\<close> characters; \<^verbatim>\<open>*mxGetPr\<close> of an empty
  array reads through a null pointer; \<^verbatim>\<open>mxIsLogicalScalar\<close> asks for a logical array of
  one element.
\<close>

fun decimal :: "nat \<Rightarrow> string" where
  "decimal n = (if n < 10 then [char_of (48 + n)] else decimal (n div 10) @ [char_of (48 + n mod 10)])"

definition GetString :: "mxValue list \<Rightarrow> nat \<Rightarrow> nat \<Rightarrow> string mex" where
  "GetString prhs idx strlen =
     (case prhs ! idx of
        mxChar s \<Rightarrow> Returns (take (strlen - 1) s)
      | _ \<Rightarrow> mexErrMsgTxt (''Parameter '' @ decimal (idx + 1) @ '' must be a text string.''))"

definition GetNumber :: "mxValue list \<Rightarrow> nat \<Rightarrow> real mex" where
  "GetNumber prhs idx =
     (case prhs ! idx of
        mxDouble a \<Rightarrow> (case mxData a of [] \<Rightarrow> Crash | x # xs \<Rightarrow> Returns x)
      | _ \<Rightarrow> mexErrMsgTxt (''Parameter '' @ decimal (idx + 1) @ '' must be of numeric type double.''))"

definition GetLogical :: "mxValue list \<Rightarrow> nat \<Rightarrow> bool mex" where
  "GetLogical prhs idx =
     (case prhs ! idx of
        mxLogical a \<Rightarrow>
          (case mxData a of
             [b] \<Rightarrow> Returns b
           | _ \<Rightarrow> mexErrMsgTxt (''Parameter '' @ decimal (idx + 1) @ '' must be a logical value.''))
      | _ \<Rightarrow> mexErrMsgTxt (''Parameter '' @ decimal (idx + 1) @ '' must be a logical value.''))"

text \<open>
  \<^verbatim>\<open>GetImage<N,T,T>\<close> and \<^verbatim>\<open>SetImage<N,T,T>\<close> as the drivers call them (no
  conversion of the elements); the division by a zero \<^verbatim>\<open>slice_sz\<close> is a crash.
  \<^verbatim>\<open>mxCreateNumericArray\<close> and \<^verbatim>\<open>mxCreateLogicalArray\<close> give an array of zeros.
  \<open>catch\<close> is the \<^verbatim>\<open>try\<close> block of \<^verbatim>\<open>mexFunction\<close>: an exception of the library
  becomes \<^verbatim>\<open>mexErrMsgTxt(e.Message())\<close>.
\<close>

definition GetImage_mex :: "nat \<Rightarrow> (nat \<Rightarrow> 'a) \<Rightarrow> 'a mxArray \<Rightarrow> 'a Array mex" where
  "GetImage_mex N mem mx_in =
     (case GetImage N (\<lambda>v. v) mem mx_in of None \<Rightarrow> Crash | Some img \<Rightarrow> Returns img)"

definition SetImage_mex :: "'a Array \<Rightarrow> 'a mxArray \<Rightarrow> 'a mxArray mex" where
  "SetImage_mex img mx_out =
     (case SetImage (\<lambda>v. v) img mx_out of None \<Rightarrow> Crash | Some out \<Rightarrow> Returns out)"

definition mxCreateArray :: "'a \<Rightarrow> nat list \<Rightarrow> 'a mxArray" where
  "mxCreateArray zero dims = \<lparr>mxDimensions = dims, mxData = replicate (prod_list dims) zero\<rparr>"

definition catch :: "string + 'a \<Rightarrow> 'a mex" where
  "catch r = (case r of Inl e \<Rightarrow> mexErrMsgTxt e | Inr v \<Rightarrow> Returns v)"

subsection \<open>\<^verbatim>\<open>GcChanVeseLab.cpp\<close>: \<^verbatim>\<open>Segment\<close>\<close>

text \<open>
  The segmentation routines (\<^verbatim>\<open>ChanVese::Compute\<close>, \<^verbatim>\<open>ComputeMasked\<close>,
  \<^verbatim>\<open>RoussonDeriche::Compute\<close>, \<^verbatim>\<open>MumfordShah::ComputePiecewiseConstant\<close>) are not
  among the sources; they are parameters of the drivers. A call returns the energy and
  writes through its reference arguments: \<^verbatim>\<open>max_iter\<close>, the parameters (\<^verbatim>\<open>c1, c2\<close>,
  or \<^verbatim>\<open>rdpar\<close>, or \<^verbatim>\<open>c\<close>) and the segmentation (for \<^verbatim>\<open>GcChanVeseLab\<close> what the
  driver reads afterwards, the labels \<^verbatim>\<open>mf.NodeLabel\<close> of the max-flow object). It may
  throw: \<open>Inl\<close>.
\<close>

record 'seg computed =
  energy :: real
  max_iter_out :: int
  params_out :: "real list"
  seg :: 'seg

text \<open>
  \<^verbatim>\<open>Gc::Algo::Segmentation::MaskUnknown\<close> is declared outside the sources; its value
  is the one \<^verbatim>\<open>gc_chan_vese_two_stage.m\<close> leaves in the mask where it fixes neither
  foreground (2) nor background (1). The statements below do not depend on the value.

  The two loops that fill \<^verbatim>\<open>labels\<close> (lines 80-84 and 97-111). In the masked variant
  \<open>j\<close> counts the unknown positions met so far.
\<close>

definition MaskUnknown :: "8 word" where
  "MaskUnknown = 3"

definition masked_labels ::
  "8 word list \<Rightarrow> 8 word list \<Rightarrow> (nat \<Rightarrow> 8 word) \<Rightarrow> 8 word list \<Rightarrow> 8 word list" where
  "masked_labels msk iface NodeLabel labels =
     snd (fold (\<lambda>i (j, labels).
                  if msk ! i = MaskUnknown
                  then (j + 1, labels[i := NodeLabel j])
                  else (j, labels[i := iface ! i]))
            [0..<length labels] (0, labels))"

definition unmasked_labels :: "(nat \<Rightarrow> 8 word) \<Rightarrow> 8 word list \<Rightarrow> 8 word list" where
  "unmasked_labels NodeLabel labels =
     fold (\<lambda>i labels. labels[i := NodeLabel i]) [0..<length labels] labels"

text \<open>
  The number of \<^verbatim>\<open>MaskUnknown\<close> positions before position \<open>i\<close>.
\<close>

definition unknown_before :: "8 word list \<Rightarrow> nat \<Rightarrow> nat" where
  "unknown_before msk i = length (filter (\<lambda>k. msk ! k = MaskUnknown) [0..<i])"

text \<open>
  The outputs: \<^verbatim>\<open>plhs[0]\<close> (the array), \<^verbatim>\<open>plhs[1]\<close> (energy), \<^verbatim>\<open>plhs[2]\<close>
  (\<^verbatim>\<open>(double)max_iter\<close>) and the remaining scalars in order.
\<close>

record 'a plhs =
  plhs0 :: "'a mxArray"
  plhs1 :: real
  plhs2 :: real
  plhs_rest :: "real list"

text \<open>
  \<^verbatim>\<open>Segment\<close> of \<^verbatim>\<open>GcChanVeseLab.cpp\<close> (lines 23-122). \<open>memT\<close> and \<open>memL\<close> are the
  contents of freshly allocated storage. The mask is converted by \<^verbatim>\<open>GetImage\<close> before
  its dimensions are compared with the image's.
\<close>

definition Segment_ChanVeseLab ::
  "nat \<Rightarrow> (int \<Rightarrow> int) \<Rightarrow> (int \<Rightarrow> bool \<Rightarrow> string + 'nb)
   \<Rightarrow> (real Array \<Rightarrow> 8 word Array option \<Rightarrow> 8 word Array \<Rightarrow> real \<Rightarrow> real \<Rightarrow> real \<Rightarrow> real \<Rightarrow> real
        \<Rightarrow> int \<Rightarrow> 'nb \<Rightarrow> string + (nat \<Rightarrow> 8 word) computed)
   \<Rightarrow> (nat \<Rightarrow> real) \<Rightarrow> (nat \<Rightarrow> 8 word)
   \<Rightarrow> real mxArray \<Rightarrow> 8 word mxArray \<Rightarrow> 8 word mxArray option
   \<Rightarrow> real \<Rightarrow> real \<Rightarrow> real \<Rightarrow> real \<Rightarrow> real \<Rightarrow> int \<Rightarrow> string \<Rightarrow> 8 word plhs mex" where
  "Segment_ChanVeseLab N Size_of_int Neighbourhood Compute memT memL
       mx_in mx_interface mx_mask l1 l2 c1 c2 conv max_iter str_nb =
     mex_bind (GetImage_mex N memT mx_in) (\<lambda>img.
     mex_bind (GetImage_mex N memL mx_interface) (\<lambda>iface.
     if Dimensions iface \<noteq> Dimensions img
     then mexErrMsgTxt ''Initial interface and image must have the same dimensions.''
     else
     mex_bind (case mx_mask of
                 None \<Rightarrow> Returns None
               | Some m \<Rightarrow>
                   mex_bind (GetImage_mex N memL m) (\<lambda>msk.
                   if Dimensions msk \<noteq> Dimensions img
                   then mexErrMsgTxt ''Mask and image must have the same dimensions.''
                   else Returns (Some msk))) (\<lambda>msk.
     mex_bind (case Segment_Neighbourhood Size_of_int Neighbourhood str_nb of
                 None \<Rightarrow> Crash
               | Some r \<Rightarrow> catch r) (\<lambda>nb.
     mex_bind (catch (Compute img msk iface l1 l2 c1 c2 conv max_iter nb)) (\<lambda>r.
     let labels0 = map memL [0..<prod_list (Dimensions img)];
         labels = (case msk of
                     None \<Rightarrow> unmasked_labels (seg r) labels0
                   | Some m \<Rightarrow> masked_labels (Elems m) (Elems iface) (seg r) labels0)
     in
     mex_bind (SetImage_mex \<lparr>Dimensions = Dimensions img, Elems = labels\<rparr>
                 (mxCreateArray 0 (take N (mxDimensions mx_in)))) (\<lambda>out.
     Returns \<lparr>plhs0 = out, plhs1 = energy r, plhs2 = real_of_int (max_iter_out r),
              plhs_rest = [params_out r ! 0, params_out r ! 1]\<rparr>))))))"

subsection \<open>\<^verbatim>\<open>GcChanVeseTp.cpp\<close>, \<^verbatim>\<open>GcRoussonDeriche.cpp\<close>, \<^verbatim>\<open>GcMumfordShah.cpp\<close>: \<^verbatim>\<open>Segment\<close>\<close>

text \<open>
  \<^verbatim>\<open>GcChanVeseTp\<close> builds its neighbourhood with \<^verbatim>\<open>CreateNeighbourhood\<close>; the other
  two construct it from \<^verbatim>\<open>atoi(str_nb + 1)\<close>. \<^verbatim>\<open>Neighbourhood\<close> stands for what the
  absent class does with the request.
\<close>

definition Segment_ChanVeseTp ::
  "nat \<Rightarrow> (int \<Rightarrow> int) \<Rightarrow> (nb_request \<Rightarrow> string + 'nb)
   \<Rightarrow> (real Array \<Rightarrow> 8 word Array option \<Rightarrow> bool Array \<Rightarrow> real \<Rightarrow> real \<Rightarrow> real \<Rightarrow> real \<Rightarrow> real
        \<Rightarrow> int \<Rightarrow> 'nb \<Rightarrow> string + (bool Array) computed)
   \<Rightarrow> (nat \<Rightarrow> real) \<Rightarrow> (nat \<Rightarrow> bool) \<Rightarrow> (nat \<Rightarrow> 8 word)
   \<Rightarrow> real mxArray \<Rightarrow> bool mxArray \<Rightarrow> 8 word mxArray option
   \<Rightarrow> real \<Rightarrow> real \<Rightarrow> real \<Rightarrow> real \<Rightarrow> real \<Rightarrow> int \<Rightarrow> string \<Rightarrow> bool plhs mex" where
  "Segment_ChanVeseTp N Size_of_int Neighbourhood Compute memT memB memM
       mx_in mx_interface mx_mask l1 l2 c1 c2 conv max_iter str_nb =
     mex_bind (GetImage_mex N memT mx_in) (\<lambda>img.
     mex_bind (GetImage_mex N memB mx_interface) (\<lambda>iface.
     if Dimensions iface \<noteq> Dimensions img
     then mexErrMsgTxt ''Initial interface and image must have the same dimensions.''
     else
     mex_bind (case mx_mask of
                 None \<Rightarrow> Returns None
               | Some m \<Rightarrow>
                   mex_bind (GetImage_mex N memM m) (\<lambda>msk.
                   if Dimensions msk \<noteq> Dimensions img
                   then mexErrMsgTxt ''Mask and image must have the same dimensions.''
                   else Returns (Some msk))) (\<lambda>msk.
     mex_bind (catch (CreateNeighbourhood Size_of_int N str_nb)) (\<lambda>req.
     mex_bind (catch (Neighbourhood req)) (\<lambda>nb.
     mex_bind (catch (Compute img msk iface l1 l2 c1 c2 conv max_iter nb)) (\<lambda>r.
     mex_bind (SetImage_mex (seg r) (mxCreateArray False (take N (mxDimensions mx_in)))) (\<lambda>out.
     Returns \<lparr>plhs0 = out, plhs1 = energy r, plhs2 = real_of_int (max_iter_out r),
              plhs_rest = [params_out r ! 0, params_out r ! 1]\<rparr>)))))))"

datatype grid_maxflow = Kohli bool | PushRelabel_Fifo bool | PushRelabel_HighestLevel bool

definition CreateGridMaxFlow :: "string \<Rightarrow> bool \<Rightarrow> grid_maxflow mex" where
  "CreateGridMaxFlow name msk =
     (if name = ''GRD-KO'' then Returns (Kohli msk)
      else if name = ''GRD-PRF'' then Returns (PushRelabel_Fifo msk)
      else if name = ''GRD-PRH'' then Returns (PushRelabel_HighestLevel msk)
      else mexErrMsgTxt ''Unknown grid max-flow algorithm.'')"

definition Segment_RoussonDeriche ::
  "nat \<Rightarrow> (int \<Rightarrow> int) \<Rightarrow> (int \<Rightarrow> bool \<Rightarrow> string + 'nb)
   \<Rightarrow> (real Array \<Rightarrow> nat \<Rightarrow> string + 'par)
   \<Rightarrow> (real Array \<Rightarrow> real \<Rightarrow> 'par \<Rightarrow> real \<Rightarrow> int \<Rightarrow> 'nb \<Rightarrow> grid_maxflow
        \<Rightarrow> string + (bool Array) computed)
   \<Rightarrow> (nat \<Rightarrow> real)
   \<Rightarrow> real mxArray \<Rightarrow> real \<Rightarrow> real \<Rightarrow> int \<Rightarrow> string \<Rightarrow> string \<Rightarrow> bool plhs mex" where
  "Segment_RoussonDeriche N Size_of_int Neighbourhood InitialEstimate Compute memT
       mx_in lambda conv max_iter str_nb str_mf =
     mex_bind (GetImage_mex N memT mx_in) (\<lambda>img.
     mex_bind (case Segment_Neighbourhood Size_of_int Neighbourhood str_nb of
                 None \<Rightarrow> Crash
               | Some r \<Rightarrow> catch r) (\<lambda>nb.
     mex_bind (catch (InitialEstimate img 50)) (\<lambda>rdpar.
     mex_bind (CreateGridMaxFlow str_mf False) (\<lambda>mf.
     mex_bind (catch (Compute img lambda rdpar conv max_iter nb mf)) (\<lambda>r.
     mex_bind (SetImage_mex (seg r) (mxCreateArray False (take N (mxDimensions mx_in)))) (\<lambda>out.
     Returns \<lparr>plhs0 = out, plhs1 = energy r, plhs2 = real_of_int (max_iter_out r),
              plhs_rest = [params_out r ! 0, params_out r ! 1, params_out r ! 2,
                           params_out r ! 3]\<rparr>))))))"

definition Segment_MumfordShah ::
  "nat \<Rightarrow> (int \<Rightarrow> int) \<Rightarrow> (int \<Rightarrow> bool \<Rightarrow> string + 'nb)
   \<Rightarrow> (real Array \<Rightarrow> int \<Rightarrow> real \<Rightarrow> real \<Rightarrow> nat \<Rightarrow> string + 'c)
   \<Rightarrow> (real Array \<Rightarrow> int \<Rightarrow> real \<Rightarrow> 'c \<Rightarrow> real \<Rightarrow> int \<Rightarrow> 'nb
        \<Rightarrow> string + (8 word Array) computed)
   \<Rightarrow> (nat \<Rightarrow> real)
   \<Rightarrow> real mxArray \<Rightarrow> int \<Rightarrow> real \<Rightarrow> real \<Rightarrow> int \<Rightarrow> string \<Rightarrow> 8 word plhs mex" where
  "Segment_MumfordShah N Size_of_int Neighbourhood Lloyd ComputePiecewiseConstant memT
       mx_in k lambda conv max_iter str_nb =
     mex_bind (GetImage_mex N memT mx_in) (\<lambda>img.
     mex_bind (case Segment_Neighbourhood Size_of_int Neighbourhood str_nb of
                 None \<Rightarrow> Crash
               | Some r \<Rightarrow> catch r) (\<lambda>nb.
     mex_bind (catch (Lloyd img k lambda conv 50)) (\<lambda>c.
     mex_bind (catch (ComputePiecewiseConstant img k lambda c conv max_iter nb)) (\<lambda>r.
     mex_bind (SetImage_mex (seg r) (mxCreateArray 0 (take N (mxDimensions mx_in)))) (\<lambda>out.
     Returns \<lparr>plhs0 = out, plhs1 = energy r, plhs2 = real_of_int (max_iter_out r),
              plhs_rest = map (\<lambda>i. params_out r ! i) [0..<nat k]\<rparr>)))))"

subsection \<open>The entry points \<^verbatim>\<open>mexFunction\<close>\<close>

text \<open>
  The checks of the four entry points in the order of the source. The conversion
  \<^verbatim>\<open>(Gc::Size)\<close> of a \<^verbatim>\<open>double\<close> is the parameter \<open>Size_of_double\<close>. \<open>Segment\<close> is
  the driver's \<^verbatim>\<open>Segment<N,T>\<close> with its absent collaborators already supplied.
\<close>

fun mxIsUint8 :: "mxValue \<Rightarrow> bool" where
  "mxIsUint8 (mxUint8 a) = True"
| "mxIsUint8 v = False"

fun mxIsLogical :: "mxValue \<Rightarrow> bool" where
  "mxIsLogical (mxLogical a) = True"
| "mxIsLogical v = False"

definition uint8_data :: "mxValue \<Rightarrow> 8 word mxArray" where
  "uint8_data v = (case v of mxUint8 a \<Rightarrow> a)"

definition logical_data :: "mxValue \<Rightarrow> bool mxArray" where
  "logical_data v = (case v of mxLogical a \<Rightarrow> a)"

definition unsupported_type :: string where
  "unsupported_type = ''Unsupported image/voxel type.''"

definition only_2D_3D :: string where
  "only_2D_3D = ''Only 2D and 3D images are supported.''"

definition conv_negative :: string where
  "conv_negative = ''Convergence criterion must be greater or equal to zero.''"

definition mexFunction_ChanVeseLab ::
  "(real \<Rightarrow> int) \<Rightarrow> (nat \<Rightarrow> real mxArray \<Rightarrow> 8 word mxArray \<Rightarrow> 8 word mxArray option
        \<Rightarrow> real \<Rightarrow> real \<Rightarrow> real \<Rightarrow> real \<Rightarrow> real \<Rightarrow> int \<Rightarrow> string \<Rightarrow> 8 word plhs mex)
   \<Rightarrow> nat \<Rightarrow> mxValue list \<Rightarrow> 8 word plhs mex" where
  "mexFunction_ChanVeseLab Size_of_double Segment nlhs prhs =
     (let usage_in = ''Usage: [seg energy iter c1 c2] = GcChanVeseLab(img, labels, lambda1, lambda2, c1, c2, convergence, max_iter, nb, log, [mask])'';
          usage_out = ''Usage: [seg energy iter c1 c2] = GcChanVeseLab(img, labels, lambda1, lambda2, c1, c2, convergence, max_iter, nb, log)''
      in
      if length prhs < 10 \<or> 11 < length prhs
      then mexErrMsgTxt (''Ten or eleven input arguments required.'' @ [CHR 0x0A] @ usage_in)
      else if nlhs \<noteq> 5
      then mexErrMsgTxt (''Five output argument required.'' @ [CHR 0x0A] @ usage_out)
      else
      mex_bind (GetNumber prhs 2) (\<lambda>l1.
      mex_bind (GetNumber prhs 3) (\<lambda>l2.
      mex_bind (GetNumber prhs 4) (\<lambda>c1.
      mex_bind (GetNumber prhs 5) (\<lambda>c2.
      mex_bind (GetNumber prhs 6) (\<lambda>conv.
      mex_bind (GetNumber prhs 7) (\<lambda>mi.
      mex_bind (GetString prhs 8 10) (\<lambda>nb.
      mex_bind (GetLogical prhs 9) (\<lambda>log.
      let max_iter = Size_of_double mi in
      if \<not> (l1 > 0 \<and> l2 > 0 \<and> max_iter > 0)
      then mexErrMsgTxt ''Parameters lambda1, lambda2 and max_iter must be greater than zero.''
      else if conv < 0 then mexErrMsgTxt conv_negative
      else if c1 \<ge> c2 then mexErrMsgTxt ''Condition c1 < c2 is not satisfied.''
      else
      let dim_num = mxGetNumberOfDimensions (prhs ! 0) in
      if dim_num \<noteq> mxGetNumberOfDimensions (prhs ! 1) \<or> \<not> mxIsUint8 (prhs ! 1)
      then mexErrMsgTxt
        ''Initial interface and image must have the same dimensions. Interface must be of uint8 type.''
      else if length prhs = 11
            \<and> (dim_num \<noteq> mxGetNumberOfDimensions (prhs ! 10) \<or> \<not> mxIsUint8 (prhs ! 10))
      then mexErrMsgTxt
        ''Mask and image must have the same dimensions. Mask data type must be uint8.''
      else if dim_num = 2 \<or> dim_num = 3
      then (case prhs ! 0 of
              mxSingle a \<Rightarrow>
                Segment dim_num a (uint8_data (prhs ! 1))
                  (if length prhs = 11 then Some (uint8_data (prhs ! 10)) else None)
                  l1 l2 c1 c2 conv max_iter nb
            | mxDouble a \<Rightarrow>
                Segment dim_num a (uint8_data (prhs ! 1))
                  (if length prhs = 11 then Some (uint8_data (prhs ! 10)) else None)
                  l1 l2 c1 c2 conv max_iter nb
            | _ \<Rightarrow> mexErrMsgTxt unsupported_type)
      else mexErrMsgTxt only_2D_3D)))))))))"

definition mexFunction_ChanVeseTp ::
  "(real \<Rightarrow> int) \<Rightarrow> (nat \<Rightarrow> real mxArray \<Rightarrow> bool mxArray \<Rightarrow> 8 word mxArray option
        \<Rightarrow> real \<Rightarrow> real \<Rightarrow> real \<Rightarrow> real \<Rightarrow> real \<Rightarrow> int \<Rightarrow> string \<Rightarrow> bool plhs mex)
   \<Rightarrow> nat \<Rightarrow> mxValue list \<Rightarrow> bool plhs mex" where
  "mexFunction_ChanVeseTp Size_of_double Segment nlhs prhs =
     (let usage_in = ''Usage: [seg energy iter c1 c2] = GcChanVeseTp(img, interface, lambda1, lambda2, c1, c2, convergence, max_iter, nb, log, [mask])'';
          usage_out = ''Usage: [seg energy iter c1 c2] = GcChanVeseTp(img, interface, lambda1, lambda2, c1, c2, convergence, max_iter, nb, log)''
      in
      if length prhs < 10 \<or> 11 < length prhs
      then mexErrMsgTxt (''Ten or eleven input arguments required.'' @ [CHR 0x0A] @ usage_in)
      else if nlhs \<noteq> 5
      then mexErrMsgTxt (''Five output argument required.'' @ [CHR 0x0A] @ usage_out)
      else
      mex_bind (GetNumber prhs 2) (\<lambda>l1.
      mex_bind (GetNumber prhs 3) (\<lambda>l2.
      mex_bind (GetNumber prhs 4) (\<lambda>c1.
      mex_bind (GetNumber prhs 5) (\<lambda>c2.
      mex_bind (GetNumber prhs 6) (\<lambda>conv.
      mex_bind (GetNumber prhs 7) (\<lambda>mi.
      mex_bind (GetString prhs 8 10) (\<lambda>nb.
      mex_bind (GetLogical prhs 9) (\<lambda>log.
      let max_iter = Size_of_double mi in
      if \<not> (l1 > 0 \<and> l2 > 0 \<and> max_iter > 0)
      then mexErrMsgTxt ''Parameters lambda1, lambda2 and max_iter must be greater than zero.''
      else if conv < 0 then mexErrMsgTxt conv_negative
      else if c1 \<ge> c2 then mexErrMsgTxt ''Condition c1 < c2 is not satisfied.''
      else
      let dim_num = mxGetNumberOfDimensions (prhs ! 0) in
      if dim_num \<noteq> mxGetNumberOfDimensions (prhs ! 1) \<or> \<not> mxIsLogical (prhs ! 1)
      then mexErrMsgTxt
        ''Initial interface and image must have the same dimensions. Interface must be of logical type.''
      else if length prhs = 11
            \<and> (dim_num \<noteq> mxGetNumberOfDimensions (prhs ! 10) \<or> \<not> mxIsUint8 (prhs ! 10))
      then mexErrMsgTxt
        ''Mask and image must have the same dimensions. Mask data type must be uint8.''
      else if dim_num = 2 \<or> dim_num = 3
      then (case prhs ! 0 of
              mxSingle a \<Rightarrow>
                Segment dim_num a (logical_data (prhs ! 1))
                  (if length prhs = 11 then Some (uint8_data (prhs ! 10)) else None)
                  l1 l2 c1 c2 conv max_iter nb
            | mxDouble a \<Rightarrow>
                Segment dim_num a (logical_data (prhs ! 1))
                  (if length prhs = 11 then Some (uint8_data (prhs ! 10)) else None)
                  l1 l2 c1 c2 conv max_iter nb
            | _ \<Rightarrow> mexErrMsgTxt unsupported_type)
      else mexErrMsgTxt only_2D_3D)))))))))"

definition mexFunction_RoussonDeriche ::
  "(real \<Rightarrow> int) \<Rightarrow> (nat \<Rightarrow> real mxArray \<Rightarrow> real \<Rightarrow> real \<Rightarrow> int \<Rightarrow> string \<Rightarrow> string \<Rightarrow> bool plhs mex)
   \<Rightarrow> nat \<Rightarrow> mxValue list \<Rightarrow> bool plhs mex" where
  "mexFunction_RoussonDeriche Size_of_double Segment nlhs prhs =
     (let usage = ''Usage: [seg energy iter c1 v1 c2 v2] = GcRoussonDeriche(img, lambda, convergence, max_iter, nb, max_flow, log)''
      in
      if length prhs \<noteq> 7
      then mexErrMsgTxt (''Seven input arguments required.'' @ [CHR 0x0A] @ usage)
      else if nlhs \<noteq> 7
      then mexErrMsgTxt (''Seven output arguments required.'' @ [CHR 0x0A] @ usage)
      else
      mex_bind (GetNumber prhs 1) (\<lambda>lambda.
      mex_bind (GetNumber prhs 2) (\<lambda>conv.
      mex_bind (GetNumber prhs 3) (\<lambda>mi.
      mex_bind (GetString prhs 4 10) (\<lambda>nb.
      mex_bind (GetString prhs 5 10) (\<lambda>mf.
      mex_bind (GetLogical prhs 6) (\<lambda>log.
      let max_iter = Size_of_double mi in
      if \<not> (lambda > 0 \<and> max_iter > 0)
      then mexErrMsgTxt ''Parameters lambda and max_iter must be greater than zero.''
      else if conv < 0 then mexErrMsgTxt conv_negative
      else
      let dim_num = mxGetNumberOfDimensions (prhs ! 0) in
      if dim_num = 2 \<or> dim_num = 3
      then (case prhs ! 0 of
              mxSingle a \<Rightarrow> Segment dim_num a lambda conv max_iter nb mf
            | mxDouble a \<Rightarrow> Segment dim_num a lambda conv max_iter nb mf
            | _ \<Rightarrow> mexErrMsgTxt unsupported_type)
      else mexErrMsgTxt only_2D_3D)))))))"

definition mexFunction_MumfordShah ::
  "(real \<Rightarrow> int) \<Rightarrow> (nat \<Rightarrow> real mxArray \<Rightarrow> int \<Rightarrow> real \<Rightarrow> real \<Rightarrow> int \<Rightarrow> string \<Rightarrow> 8 word plhs mex)
   \<Rightarrow> nat \<Rightarrow> mxValue list \<Rightarrow> 8 word plhs mex" where
  "mexFunction_MumfordShah Size_of_double Segment nlhs prhs =
     (let usage = ''Usage: [seg energy iter c] = GcMumfordShah(img, k, lambda, convergence, max_iter, nb, log)''
      in
      if length prhs \<noteq> 7
      then mexErrMsgTxt (''Seven input arguments required.'' @ [CHR 0x0A] @ usage)
      else if nlhs \<noteq> 4
      then mexErrMsgTxt (''Four output arguments required.'' @ [CHR 0x0A] @ usage)
      else
      mex_bind (GetNumber prhs 1) (\<lambda>kd.
      mex_bind (GetNumber prhs 2) (\<lambda>lambda.
      mex_bind (GetNumber prhs 3) (\<lambda>conv.
      mex_bind (GetNumber prhs 4) (\<lambda>mi.
      mex_bind (GetString prhs 5 10) (\<lambda>nb.
      mex_bind (GetLogical prhs 6) (\<lambda>log.
      let k = Size_of_double kd; max_iter = Size_of_double mi in
      if k < 2 \<or> k > 254
      then mexErrMsgTxt ''Condition 1 < k < 255 not satisfied.''
      else if \<not> (lambda > 0 \<and> max_iter > 0)
      then mexErrMsgTxt ''Parameters lambda and max_iter must be greater than zero.''
      else if conv < 0 then mexErrMsgTxt conv_negative
      else
      let dim_num = mxGetNumberOfDimensions (prhs ! 0) in
      if dim_num = 2 \<or> dim_num = 3
      then (case prhs ! 0 of
              mxSingle a \<Rightarrow> Segment dim_num a k lambda conv max_iter nb
            | mxDouble a \<Rightarrow> Segment dim_num a k lambda conv max_iter nb
            | _ \<Rightarrow> mexErrMsgTxt unsupported_type)
      else mexErrMsgTxt only_2D_3D)))))))"

text \<open>
  For the statements about the checks: the arguments are read without error (each has
  the class its reader asks for) and give these values; an array has \<open>N \<ge> 2\<close>
  dimensions, at least one row and one column, and as many elements as its dimensions
  say; the messages of the checks of the two Chan-Vese entry points.
\<close>

definition reads_ChanVese ::
  "mxValue list \<Rightarrow> real \<Rightarrow> real \<Rightarrow> real \<Rightarrow> real \<Rightarrow> real \<Rightarrow> real \<Rightarrow> string \<Rightarrow> bool \<Rightarrow> bool" where
  "reads_ChanVese prhs l1 l2 c1 c2 conv mi nb lg \<longleftrightarrow>
     GetNumber prhs 2 = Returns l1 \<and> GetNumber prhs 3 = Returns l2
     \<and> GetNumber prhs 4 = Returns c1 \<and> GetNumber prhs 5 = Returns c2
     \<and> GetNumber prhs 6 = Returns conv \<and> GetNumber prhs 7 = Returns mi
     \<and> GetString prhs 8 10 = Returns nb \<and> GetLogical prhs 9 = Returns lg"

definition reads_RoussonDeriche ::
  "mxValue list \<Rightarrow> real \<Rightarrow> real \<Rightarrow> real \<Rightarrow> string \<Rightarrow> string \<Rightarrow> bool \<Rightarrow> bool" where
  "reads_RoussonDeriche prhs lambda conv mi nb mf lg \<longleftrightarrow>
     GetNumber prhs 1 = Returns lambda \<and> GetNumber prhs 2 = Returns conv
     \<and> GetNumber prhs 3 = Returns mi \<and> GetString prhs 4 10 = Returns nb
     \<and> GetString prhs 5 10 = Returns mf \<and> GetLogical prhs 6 = Returns lg"

definition reads_MumfordShah ::
  "mxValue list \<Rightarrow> real \<Rightarrow> real \<Rightarrow> real \<Rightarrow> real \<Rightarrow> string \<Rightarrow> bool \<Rightarrow> bool" where
  "reads_MumfordShah prhs kd lambda conv mi nb lg \<longleftrightarrow>
     GetNumber prhs 1 = Returns kd \<and> GetNumber prhs 2 = Returns lambda
     \<and> GetNumber prhs 3 = Returns conv \<and> GetNumber prhs 4 = Returns mi
     \<and> GetString prhs 5 10 = Returns nb \<and> GetLogical prhs 6 = Returns lg"

definition well_formed :: "nat \<Rightarrow> 'a mxArray \<Rightarrow> bool" where
  "well_formed N mx \<longleftrightarrow>
     2 \<le> N \<and> length (mxDimensions mx) = N \<and> 0 < mxDimensions mx ! 0 \<and> 0 < mxDimensions mx ! 1
     \<and> length (mxData mx) = prod_list (mxDimensions mx)"

text \<open>
  An optional mask that \<^verbatim>\<open>Segment\<close> accepts: none, or an array of the image's
  dimensions.
\<close>

definition mask_ok :: "nat \<Rightarrow> 'a mxArray \<Rightarrow> 'b mxArray option \<Rightarrow> bool" where
  "mask_ok N mx_in mx_mask \<longleftrightarrow>
     (case mx_mask of None \<Rightarrow> True
      | Some m \<Rightarrow> well_formed N m \<and> mxDimensions m = mxDimensions mx_in)"

definition ChanVese_messages :: "string set" where
  "ChanVese_messages =
     {''Parameters lambda1, lambda2 and max_iter must be greater than zero.'',
      conv_negative, ''Condition c1 < c2 is not satisfied.'',
      ''Initial interface and image must have the same dimensions. Interface must be of uint8 type.'',
      ''Initial interface and image must have the same dimensions. Interface must be of logical type.'',
      ''Mask and image must have the same dimensions. Mask data type must be uint8.'',
      only_2D_3D}"

subsection \<open>The outer loop of the segmentation routines, from the specification\<close>

text \<open>
  Modelled from the spec: the bodies of \<^verbatim>\<open>ChanVese::Compute\<close>,
  \<^verbatim>\<open>ChanVese::ComputeMasked\<close>, \<^verbatim>\<open>RoussonDeriche::Compute\<close> and
  \<^verbatim>\<open>MumfordShah::ComputePiecewiseConstant\<close> are missing from the sources. The
  specification (4.3, and 4.4, 4.5 by reference to it) gives their outer loop:
  ``Repeat: build graph with current (c1,c2); run max-flow; read \<Omega>; recompute c1, c2;
  stop when |\<Delta>c1|+|\<Delta>c2| \<le> conv or iter \<ge> maxiter.'' One pass of the loop is the
  parameter \<open>body\<close>: from the current state it gives the next state and whether the change
  of the statistics met the threshold. \<open>iter\<close> counts the passes made; the result is that
  count and the final state.
\<close>

function outer_loop :: "('s \<Rightarrow> 's \<times> bool) \<Rightarrow> nat \<Rightarrow> nat \<Rightarrow> 's \<Rightarrow> nat \<times> 's" where
  "outer_loop body max_iter iter s =
     (let (s', converged) = body s; iter = iter + 1
      in if converged \<or> max_iter \<le> iter then (iter, s') else outer_loop body max_iter iter s')"
  by pat_completeness auto
termination
  by (relation "measure (\<lambda>(body, max_iter, iter, s). max_iter - iter)") auto

text \<open>
  Modelled from the spec: what a missing routine hands back after its loop. The
  specification: ``Return the final labelling, energy, iteration count, and final means.''
  \<open>result\<close> reads the energy, the means and the labelling off the final state. The
  specification does not say through which argument the iteration count travels; the
  drivers read it from \<^verbatim>\<open>max_iter\<close> after the call
  (\<^verbatim>\<open>plhs[2] = mxCreateDoubleScalar((double)max_iter)\<close>), so here the count is stored
  there (\<open>max_iter_out\<close>). This is an assumption on the missing routines' interface.
\<close>

definition spec_Compute ::
  "('s \<Rightarrow> 's \<times> bool) \<Rightarrow> ('s \<Rightarrow> real \<times> real list \<times> 'seg) \<Rightarrow> 's \<Rightarrow> int \<Rightarrow> 'seg computed" where
  "spec_Compute body result s0 max_iter =
     (let (iter, s) = outer_loop body (nat max_iter) 0 s0; (e, ps, sg) = result s
      in \<lparr>energy = e, max_iter_out = int iter, params_out = ps, seg = sg\<rparr>)"

text \<open>
  Modelled from the spec: a missing routine as a function of the arguments its driver
  passes. \<open>setup\<close> stands for what the routine makes of its arguments before the loop:
  the loop body, the reading of the result and the initial state. The routine of the
  specification has no failure of its own (``the max-flow algorithm itself cannot fail
  once the graph is well-formed''): it returns, \<open>Inr\<close>.
\<close>

definition spec_routine ::
  "('a \<Rightarrow> ('s \<Rightarrow> 's \<times> bool) \<times> ('s \<Rightarrow> real \<times> real list \<times> 'seg) \<times> 's) \<Rightarrow> 'a \<Rightarrow> int
     \<Rightarrow> string + 'seg computed" where
  "spec_routine setup args max_iter =
     (case setup args of (body, result, s0) \<Rightarrow> Inr (spec_Compute body result s0 max_iter))"

text \<open>
  Modelled from the spec: the number of outer iterations the missing routine performs on
  a set-up loop (``iteration count'').
\<close>

definition iterations :: "('s \<Rightarrow> 's \<times> bool) \<times> 'r \<times> 's \<Rightarrow> int \<Rightarrow> nat" where
  "iterations loop max_iter =
     (case loop of (body, result, s0) \<Rightarrow> fst (outer_loop body (nat max_iter) 0 s0))"

text \<open>
  Modelled from the spec: the labelling the missing routine returns on a set-up loop
  (``the final labelling'').
\<close>

definition seg_of ::
  "('s \<Rightarrow> 's \<times> bool) \<times> ('s \<Rightarrow> real \<times> real list \<times> 'seg) \<times> 's \<Rightarrow> int \<Rightarrow> 'seg" where
  "seg_of loop max_iter =
     seg (case loop of (body, result, s0) \<Rightarrow> spec_Compute body result s0 max_iter)"

text \<open>
  Modelled from the spec: the state of the missing routines' loop after \<open>n\<close> outer
  iterations.
\<close>

fun iterate_body :: "('s \<Rightarrow> 's \<times> bool) \<Rightarrow> nat \<Rightarrow> 's \<Rightarrow> 's" where
  "iterate_body body 0 s = s"
| "iterate_body body (Suc n) s = fst (body (iterate_body body n s))"

text \<open>
  Modelled from the spec: whether the \<open>k\<close>-th outer iteration (\<open>k \<ge> 1\<close>) of the
  missing routines' loop met the convergence threshold.
\<close>

definition converged_at :: "('s \<Rightarrow> 's \<times> bool) \<Rightarrow> 's \<Rightarrow> nat \<Rightarrow> bool" where
  "converged_at body s0 k = snd (body (iterate_body body (k - 1) s0))"

section \<open>The MATLAB tools\<close>

subsection \<open>MATLAB numbers\<close>

text \<open>
  An image is the list of its intensities (\<^verbatim>\<open>img(:)\<close>); the functions below work
  element by element, so the shape plays no role. In \<^verbatim>\<open>gc_weighted_kmeans\<close> and
  \<^verbatim>\<open>gc_chan_vese_two_stage\<close> the intensities are finite numbers.
  The quotient of two finite numbers is finite when the divisor is not zero; otherwise it
  is \<^verbatim>\<open>Inf\<close>, \<^verbatim>\<open>-Inf\<close> or, for \<open>0/0\<close>, \<^verbatim>\<open>NaN\<close>.
\<close>

datatype mfloat = Fin real | PosInf | NegInf | NaN

definition rdivide :: "real \<Rightarrow> real \<Rightarrow> mfloat" where
  "rdivide x y =
     (if y \<noteq> 0 then Fin (x / y)
      else if 0 < x then PosInf else if x < 0 then NegInf else NaN)"

definition minimum :: "real list \<Rightarrow> real" where
  "minimum xs = fold min (tl xs) (hd xs)"

definition maximum :: "real list \<Rightarrow> real" where
  "maximum xs = fold max (tl xs) (hd xs)"

subsection \<open>\<^verbatim>\<open>gc_normalize_image.m\<close>\<close>

text \<open>
  Here the intensities are the values of the image's floating point class
  (\<^verbatim>\<open>single\<close> or \<^verbatim>\<open>double\<close>): a finite number of the format, \<^verbatim>\<open>Inf\<close>,
  \<^verbatim>\<open>-Inf\<close> or \<^verbatim>\<open>NaN\<close>. The format is given by two parameters: \<open>rnd\<close> rounds a
  real number to the format, and \<open>T\<close> is the bound from which on a result overflows
  (for \<^verbatim>\<open>double\<close> and rounding to nearest, \<open>2 ^ 1024 - 2 ^ 970\<close>). \<open>fl\<close> is the
  value stored for an exact result. The sign of a zero is not kept.
\<close>

definition fl :: "(real \<Rightarrow> real) \<Rightarrow> real \<Rightarrow> real \<Rightarrow> mfloat" where
  "fl rnd T x = (if T \<le> x then PosInf else if x \<le> - T then NegInf else Fin (rnd x))"

text \<open>
  \<^verbatim>\<open>x - y\<close> and \<^verbatim>\<open>x / y\<close> on these values: \<^verbatim>\<open>NaN\<close> propagates,
  \<^verbatim>\<open>Inf - Inf\<close>, \<^verbatim>\<open>Inf / Inf\<close> and \<^verbatim>\<open>0 / 0\<close> are \<^verbatim>\<open>NaN\<close>, a finite number
  divided by an infinity is 0.
\<close>

fun fminus :: "(real \<Rightarrow> real) \<Rightarrow> real \<Rightarrow> mfloat \<Rightarrow> mfloat \<Rightarrow> mfloat" where
  "fminus rnd T (Fin x) (Fin y) = fl rnd T (x - y)"
| "fminus rnd T NaN y = NaN"
| "fminus rnd T x NaN = NaN"
| "fminus rnd T PosInf PosInf = NaN"
| "fminus rnd T NegInf NegInf = NaN"
| "fminus rnd T PosInf y = PosInf"
| "fminus rnd T NegInf y = NegInf"
| "fminus rnd T (Fin x) PosInf = NegInf"
| "fminus rnd T (Fin x) NegInf = PosInf"

fun fdivide :: "(real \<Rightarrow> real) \<Rightarrow> real \<Rightarrow> mfloat \<Rightarrow> mfloat \<Rightarrow> mfloat" where
  "fdivide rnd T (Fin x) (Fin y) =
     (if y \<noteq> 0 then fl rnd T (x / y)
      else if 0 < x then PosInf else if x < 0 then NegInf else NaN)"
| "fdivide rnd T NaN y = NaN"
| "fdivide rnd T x NaN = NaN"
| "fdivide rnd T (Fin x) PosInf = Fin 0"
| "fdivide rnd T (Fin x) NegInf = Fin 0"
| "fdivide rnd T PosInf (Fin y) = (if 0 \<le> y then PosInf else NegInf)"
| "fdivide rnd T NegInf (Fin y) = (if 0 \<le> y then NegInf else PosInf)"
| "fdivide rnd T x y = NaN"

text \<open>
  \<^verbatim>\<open>min\<close> and \<^verbatim>\<open>max\<close> of a column: a \<^verbatim>\<open>NaN\<close> is skipped unless every element
  is one.
\<close>

fun fless :: "mfloat \<Rightarrow> mfloat \<Rightarrow> bool" where
  "fless (Fin x) (Fin y) = (x < y)"
| "fless NegInf (Fin y) = True"
| "fless NegInf PosInf = True"
| "fless (Fin x) PosInf = True"
| "fless x y = False"

definition min2 :: "mfloat \<Rightarrow> mfloat \<Rightarrow> mfloat" where
  "min2 x y = (if x = NaN then y else if y = NaN then x else if fless y x then y else x)"

definition max2 :: "mfloat \<Rightarrow> mfloat \<Rightarrow> mfloat" where
  "max2 x y = (if x = NaN then y else if y = NaN then x else if fless x y then y else x)"

definition matlab_min :: "mfloat list \<Rightarrow> mfloat" where
  "matlab_min xs = fold min2 (tl xs) (hd xs)"

definition matlab_max :: "mfloat list \<Rightarrow> mfloat" where
  "matlab_max xs = fold max2 (tl xs) (hd xs)"

text \<open>
  \<^verbatim>\<open>if (isfloat(img) == false) error(...)\<close>, then \<^verbatim>\<open>a = min(img(:)); b = max(img(:));
  nimg = (img - a) / (b - a)\<close>. An image without elements gives an image without elements.
\<close>

definition only_float :: string where
  "only_float = ''Use only with SINGLE[] or DOUBLE[] images.''"

definition gc_normalize_image ::
  "(real \<Rightarrow> real) \<Rightarrow> real \<Rightarrow> bool \<Rightarrow> mfloat list \<Rightarrow> string + mfloat list" where
  "gc_normalize_image rnd T isfloat img =
     (if isfloat = False then Inl only_float
      else if img = [] then Inr []
      else
        (let a = matlab_min img;
             b = matlab_max img
         in Inr (map (\<lambda>v. fdivide rnd T (fminus rnd T v a) (fminus rnd T b a)) img)))"

subsection \<open>\<^verbatim>\<open>gc_weighted_kmeans.m\<close>\<close>

text \<open>
  \<^verbatim>\<open>mean\<close> of an empty selection is \<^verbatim>\<open>NaN\<close>: \<open>None\<close>. The state of the loop is
  \<^verbatim>\<open>(c1, c2, old_c1, old_c2, iter)\<close>. A comparison with a \<^verbatim>\<open>NaN\<close> is false, so the
  loop condition \<^verbatim>\<open>(abs(c1-old_c1) + abs(c2-old_c2) > conv) && (iter < maxiter)\<close> fails as
  soon as a mean is \<^verbatim>\<open>NaN\<close>, and the body only runs on two numbers. \<^verbatim>\<open>maxiter\<close> is a
  double. The loop ends because \<^verbatim>\<open>iter\<close> grows up to \<^verbatim>\<open>maxiter\<close>. \<^verbatim>\<open>conv\<close> and
  \<^verbatim>\<open>maxiter\<close> default to 0.001 and 30 when they are not passed (\<^verbatim>\<open>nargin\<close>).
\<close>

definition mean :: "real list \<Rightarrow> real option" where
  "mean xs = (if xs = [] then None else Some (sum_list xs / real (length xs)))"

type_synonym kmeans_state = "real option \<times> real option \<times> real \<times> real \<times> nat"

definition kmeans_init :: "real list \<Rightarrow> kmeans_state" where
  "kmeans_init img =
     (let avg = sum_list img / real (length img);
          c1 = avg - (avg - minimum img) / 2;
          c2 = avg + (maximum img - avg) / 2
      in (Some c1, Some c2, - 1, - 1, 0))"

definition kmeans_continue :: "real \<Rightarrow> real \<Rightarrow> kmeans_state \<Rightarrow> bool" where
  "kmeans_continue conv maxiter s =
     (case s of
        (Some c1, Some c2, old_c1, old_c2, iter) \<Rightarrow>
          \<bar>c1 - old_c1\<bar> + \<bar>c2 - old_c2\<bar> > conv \<and> real iter < maxiter
      | _ \<Rightarrow> False)"

definition kmeans_step :: "real list \<Rightarrow> real \<Rightarrow> real \<Rightarrow> kmeans_state \<Rightarrow> kmeans_state" where
  "kmeans_step img lambda1 lambda2 s =
     (case s of
        (Some c1, Some c2, old_c1, old_c2, iter) \<Rightarrow>
          (let R = (\<lambda>v. - lambda1 * (v - c1)\<^sup>2 + lambda2 * (v - c2)\<^sup>2)
           in (mean (filter (\<lambda>v. R v \<ge> 0) img), mean (filter (\<lambda>v. R v < 0) img),
               c1, c2, iter + 1))
      | _ \<Rightarrow> s)"

function kmeans_while :: "real list \<Rightarrow> real \<Rightarrow> real \<Rightarrow> real \<Rightarrow> real \<Rightarrow> kmeans_state \<Rightarrow> kmeans_state" where
  "kmeans_while img lambda1 lambda2 conv maxiter s =
     (if kmeans_continue conv maxiter s
      then kmeans_while img lambda1 lambda2 conv maxiter (kmeans_step img lambda1 lambda2 s)
      else s)"
  by pat_completeness auto
termination
proof (relation "measure (\<lambda>(img, lambda1, lambda2, conv, maxiter, (c1, c2, o1, o2, iter)).
                            nat \<lceil>maxiter\<rceil> - iter)")
  show "wf (measure (\<lambda>(img, lambda1, lambda2, conv, maxiter, (c1, c2, o1, o2, iter)).
                            nat \<lceil>maxiter\<rceil> - iter))" by simp
next
  fix img :: "real list" and lambda1 lambda2 conv maxiter :: real and s :: kmeans_state
  assume c: "kmeans_continue conv maxiter s"
  obtain c1 c2 o1 o2 iter where s: "s = (c1, c2, o1, o2, iter)" by (cases s)
  from c s obtain a b where ab: "c1 = Some a" "c2 = Some b" and lt: "real iter < maxiter"
    by (auto simp: kmeans_continue_def split: option.splits)
  have "iter < nat \<lceil>maxiter\<rceil>" using lt by linarith
  then show "((img, lambda1, lambda2, conv, maxiter, kmeans_step img lambda1 lambda2 s),
              (img, lambda1, lambda2, conv, maxiter, s))
             \<in> measure (\<lambda>(img, lambda1, lambda2, conv, maxiter, (c1, c2, o1, o2, iter)).
                            nat \<lceil>maxiter\<rceil> - iter)"
    by (simp add: s ab kmeans_step_def Let_def)
qed

definition gc_weighted_kmeans ::
  "bool \<Rightarrow> real list \<Rightarrow> real \<Rightarrow> real \<Rightarrow> real option \<Rightarrow> real option
     \<Rightarrow> string + (real option \<times> real option \<times> nat)" where
  "gc_weighted_kmeans isfloat img lambda1 lambda2 conv maxiter =
     (if isfloat = False then Inl only_float
      else if img = [] then Inl ''Operands to the || and && operators must be convertible to logical scalar values.''
      else
        (let conv = (case conv of None \<Rightarrow> 0.001 | Some c \<Rightarrow> c);
             maxiter = (case maxiter of None \<Rightarrow> 30 | Some m \<Rightarrow> m);
             (c1, c2, old_c1, old_c2, iter) =
                kmeans_while img lambda1 lambda2 conv maxiter (kmeans_init img)
         in Inr (c1, c2, iter)))"

subsection \<open>\<^verbatim>\<open>gc_chan_vese_two_stage.m\<close>\<close>

text \<open>
  The means are doubles that may be \<^verbatim>\<open>NaN\<close> (\<^verbatim>\<open>gc_weighted_kmeans\<close> can return one).
\<close>

definition mfloat_of :: "real option \<Rightarrow> mfloat" where
  "mfloat_of c = (case c of None \<Rightarrow> NaN | Some x \<Rightarrow> Fin x)"

text \<open>
  \<^verbatim>\<open>mask(L) = v\<close> for a logical array \<open>L\<close> of the size of \<^verbatim>\<open>mask\<close>. The band mask
  (lines 181-188): \<^verbatim>\<open>mask = uint8(3) * ones(size(seg), 'uint8')\<close>, then
  \<^verbatim>\<open>dt = GcDistTransform(seg, false, 'cityblock'); mask(dt > bandradius) = uint8(2)\<close>,
  then \<^verbatim>\<open>dt = GcDistTransform(seg, true, 'cityblock'); mask(dt > bandradius) = uint8(1)\<close>.
  \<^verbatim>\<open>GcDistTransform\<close> calls \<^verbatim>\<open>DistanceTransform::CityBlock\<close>, which is not among
  the sources: it is a parameter.
\<close>

definition assign_where :: "bool list \<Rightarrow> 'a \<Rightarrow> 'a list \<Rightarrow> 'a list" where
  "assign_where L v msk = map (\<lambda>i. if L ! i then v else msk ! i) [0..<length msk]"

definition band_mask :: "(bool list \<Rightarrow> bool \<Rightarrow> string \<Rightarrow> nat list) \<Rightarrow> bool list \<Rightarrow> real \<Rightarrow> 8 word list" where
  "band_mask GcDistTransform sg bandradius =
     (let msk = replicate (length sg) 3;
          dt = GcDistTransform sg False ''cityblock'';
          msk = assign_where (map (\<lambda>d. real d > bandradius) dt) 2 msk;
          dt = GcDistTransform sg True ''cityblock'';
          msk = assign_where (map (\<lambda>d. real d > bandradius) dt) 1 msk
      in msk)"

text \<open>
  The function itself. An \<^verbatim>\<open>error\<close> (of the function or of a function it calls)
  ends it: \<open>Inl\<close>. \<^verbatim>\<open>nargin\<close> is the number of arguments passed; the arguments after
  the \<^verbatim>\<open>nargin\<close>-th are replaced by their defaults. \<^verbatim>\<open>GcChanVese\<close> (the MEX
  function behind both stages, not among the sources) is a parameter; its last argument
  is the optional mask.
\<close>

definition error_bind :: "string + 'a \<Rightarrow> ('a \<Rightarrow> string + 'b) \<Rightarrow> string + 'b" where
  "error_bind r f = (case r of Inl e \<Rightarrow> Inl e | Inr v \<Rightarrow> f v)"

type_synonym chan_vese_out = "bool list \<times> real \<times> real \<times> mfloat \<times> mfloat"

definition gc_chan_vese_two_stage ::
  "(real list \<Rightarrow> mfloat \<Rightarrow> mfloat \<Rightarrow> mfloat \<Rightarrow> mfloat \<Rightarrow> real \<Rightarrow> real \<Rightarrow> string \<Rightarrow> string \<Rightarrow> bool
       \<Rightarrow> 8 word list option \<Rightarrow> string + chan_vese_out)
   \<Rightarrow> (bool list \<Rightarrow> bool \<Rightarrow> string \<Rightarrow> nat list)
   \<Rightarrow> nat \<Rightarrow> bool \<Rightarrow> nat \<Rightarrow> real list \<Rightarrow> real \<Rightarrow> real \<Rightarrow> real \<Rightarrow> real \<Rightarrow> string \<Rightarrow> string \<Rightarrow> string \<Rightarrow> string
   \<Rightarrow> bool \<Rightarrow> real \<Rightarrow> real \<Rightarrow> real \<Rightarrow> real \<Rightarrow> mfloat \<Rightarrow> mfloat
   \<Rightarrow> string + (bool list \<times> real \<times> real \<times> real \<times> mfloat \<times> mfloat)" where
  "gc_chan_vese_two_stage GcChanVese GcDistTransform nargin isfloat ndims img mu lambda1 lambda2
       bandradius nb1 nb2 flow1 flow2 lg conv1 conv2 maxiter1 maxiter2 c1 c2 =
     (if isfloat = False then Inl only_float
      else if nargin < 4 then Inl ''At least 4 parameters required.''
      else if nargin = 15 then Inl ''c1 and c2 have to be specified either both or none.''
      else
        (let bandradius = (if nargin < 5 then (if ndims = 2 then 8 else 4) else bandradius);
             nb1 = (if nargin < 6 then (if ndims = 2 then ''N4'' else ''N6'') else nb1);
             nb2 = (if nargin < 7 then (if ndims = 2 then ''N16'' else ''N98'') else nb2);
             flow1 = (if nargin < 8 then ''GRD-KO'' else flow1);
             flow2 = (if nargin < 9 then ''GRD-PRH'' else flow2);
             lg = (if nargin < 10 then False else lg);
             conv1 = (if nargin < 11 then 0.001 else conv1);
             conv2 = (if nargin < 12 then 0.001 else conv2);
             maxiter1 = (if nargin < 13 then 30 else maxiter1);
             maxiter2 = (if nargin < 14 then 10 else maxiter2)
         in
         error_bind (if nargin < 16
                     then error_bind (gc_weighted_kmeans isfloat img lambda1 lambda2 (Some 0.001) (Some 30))
                            (\<lambda>(k1, k2, iter). Inr (mfloat_of k1, mfloat_of k2))
                     else Inr (c1, c2)) (\<lambda>(c1, c2).
         error_bind (GcChanVese img (rdivide lambda1 mu) (rdivide lambda2 mu) c1 c2 conv1 maxiter1
                       nb1 flow1 lg None) (\<lambda>(sg, en, iter1, c1, c2).
         let msk = band_mask GcDistTransform sg bandradius in
         error_bind (GcChanVese img (rdivide lambda1 mu) (rdivide lambda2 mu) c1 c2 conv2 maxiter2
                       nb2 flow2 lg (Some msk)) (\<lambda>(sg, en, iter2, fc1, fc2).
         Inr (sg, en, iter1, iter2, fc1, fc2))))))"

section \<open>\<^verbatim>\<open>Gc/System/Algo/Sort/Heap.h\<close>: heap sort\<close>

text \<open>
  The range \<^verbatim>\<open>[begin, end)\<close> is a list \<open>d\<close>, \<open>n = end - begin\<close> its length, and an
  assignment \<^verbatim>\<open>begin[i] = v\<close> the update \<open>d[i := v]\<close>. The element type is any linear
  order (\<^verbatim>\<open>operator>\<close>). \<open>sift_down\<close> is the inner \<^verbatim>\<open>while (child < n)\<close> loop together
  with the final \<^verbatim>\<open>begin[index] = temp\<close>; its \<^verbatim>\<open>break\<close> is the branch that stops the
  recursion. \<open>Heap_loop\<close> is the outer \<^verbatim>\<open>while (n > 1)\<close> loop: while \<open>parent\<close> is not
  zero it is decremented and the element there sifted down (building the heap), after
  that \<open>n\<close> is decremented, the root moved to \<open>d[n]\<close> and the element that was there
  sifted down from the root.
\<close>

function sift_down :: "'a::linorder list \<Rightarrow> nat \<Rightarrow> 'a \<Rightarrow> nat \<Rightarrow> 'a list" where
  "sift_down d n temp index =
     (let child = index * 2 + 1 in
      if child < n then
        (let child = (if child + 1 < n \<and> d ! (child + 1) > d ! child then child + 1 else child) in
         if d ! child > temp
         then sift_down (d[index := d ! child]) n temp child
         else d[index := temp])
      else d[index := temp])"
  by pat_completeness auto
termination
  by (relation "measure (\<lambda>(d, n, temp, index). n - index)") (auto split: if_splits)

function Heap_loop :: "'a::linorder list \<Rightarrow> nat \<Rightarrow> nat \<Rightarrow> 'a list" where
  "Heap_loop d n parent =
     (if n > 1 then
        (if parent \<noteq> 0
         then (let parent = parent - 1; temp = d ! parent
               in Heap_loop (sift_down d n temp parent) n parent)
         else (let n = n - 1; temp = d ! n; d = d[n := d ! 0]
               in Heap_loop (sift_down d n temp parent) n parent))
      else d)"
  by pat_completeness auto
termination
  by (relation "measure (\<lambda>(d, n, parent). n + parent)") auto

definition Heap :: "'a::linorder list \<Rightarrow> 'a list" where
  "Heap d = Heap_loop d (length d) (length d div 2)"

text \<open>
  \<^verbatim>\<open>HeapSimultaneous\<close>: the same loops on two ranges; every comparison reads the first
  range only, every move is made in both.
\<close>

function sift_down2 ::
  "'a::linorder list \<Rightarrow> 'b list \<Rightarrow> nat \<Rightarrow> 'a \<Rightarrow> 'b \<Rightarrow> nat \<Rightarrow> 'a list \<times> 'b list" where
  "sift_down2 d1 d2 n temp1 temp2 index =
     (let child = index * 2 + 1 in
      if child < n then
        (let child = (if child + 1 < n \<and> d1 ! (child + 1) > d1 ! child then child + 1 else child) in
         if d1 ! child > temp1
         then sift_down2 (d1[index := d1 ! child]) (d2[index := d2 ! child]) n temp1 temp2 child
         else (d1[index := temp1], d2[index := temp2]))
      else (d1[index := temp1], d2[index := temp2]))"
  by pat_completeness auto
termination
  by (relation "measure (\<lambda>(d1, d2, n, temp1, temp2, index). n - index)") (auto split: if_splits)

function HeapSimultaneous_loop ::
  "'a::linorder list \<Rightarrow> 'b list \<Rightarrow> nat \<Rightarrow> nat \<Rightarrow> 'a list \<times> 'b list" where
  "HeapSimultaneous_loop d1 d2 n parent =
     (if n > 1 then
        (if parent \<noteq> 0
         then (let parent = parent - 1; temp1 = d1 ! parent; temp2 = d2 ! parent;
                   (d1, d2) = sift_down2 d1 d2 n temp1 temp2 parent
               in HeapSimultaneous_loop d1 d2 n parent)
         else (let n = n - 1; temp1 = d1 ! n; temp2 = d2 ! n;
                   d1 = d1[n := d1 ! 0]; d2 = d2[n := d2 ! 0];
                   (d1, d2) = sift_down2 d1 d2 n temp1 temp2 parent
               in HeapSimultaneous_loop d1 d2 n parent))
      else (d1, d2))"
  by pat_completeness auto
termination
  by (relation "measure (\<lambda>(d1, d2, n, parent). n + parent)") auto

definition HeapSimultaneous :: "'a::linorder list \<Rightarrow> 'b list \<Rightarrow> 'a list \<times> 'b list" where
  "HeapSimultaneous d1 d2 = HeapSimultaneous_loop d1 d2 (length d1) (length d1 div 2)"

text \<open>
  For the proofs: the same two loops on one list of records, comparing the records by a
  key \<open>k\<close>. \<^verbatim>\<open>Heap\<close> is the instance with the identity as key, and
  \<^verbatim>\<open>HeapSimultaneous\<close> runs as the instance on the list of pairs \<open>zip d1 d2\<close> with the
  first component as key (both proved below).
\<close>

function sift_key :: "('c \<Rightarrow> 'a::linorder) \<Rightarrow> 'c list \<Rightarrow> nat \<Rightarrow> 'c \<Rightarrow> nat \<Rightarrow> 'c list" where
  "sift_key k d n temp index =
     (let child = index * 2 + 1 in
      if child < n then
        (let child = (if child + 1 < n \<and> k (d ! (child + 1)) > k (d ! child) then child + 1 else child) in
         if k (d ! child) > k temp
         then sift_key k (d[index := d ! child]) n temp child
         else d[index := temp])
      else d[index := temp])"
  by pat_completeness auto
termination
  by (relation "measure (\<lambda>(k, d, n, temp, index). n - index)") (auto split: if_splits)

function loop_key :: "('c \<Rightarrow> 'a::linorder) \<Rightarrow> 'c list \<Rightarrow> nat \<Rightarrow> nat \<Rightarrow> 'c list" where
  "loop_key k d n parent =
     (if n > 1 then
        (if parent \<noteq> 0
         then loop_key k (sift_key k d n (d ! (parent - 1)) (parent - 1)) n (parent - 1)
         else loop_key k (sift_key k (d[n - 1 := d ! 0]) (n - 1) (d ! (n - 1)) 0) (n - 1) 0)
      else d)"
  by pat_completeness auto
termination
  by (relation "measure (\<lambda>(k, d, n, parent). n + parent)") auto

text \<open>
  The heap as it lies in the array: the parent of position \<open>c > 0\<close> is \<open>(c - 1) div 2\<close>.
  \<open>is_heap k d lo n\<close>: within the first \<open>n\<close> positions every element whose parent is
  at \<open>lo\<close> or later is at most its parent. \<open>hole_inv\<close> is the invariant of the sift
  loop, whose position \<open>h\<close> is a hole waiting for \<open>t\<close>: the order holds everywhere
  except below the hole, and both \<open>t\<close> and the children of the hole fit under the
  parent of the hole. \<open>max_child\<close> is the child the loop compares with \<open>temp\<close>.
  \<open>sorted_from k d n\<close>: the positions from \<open>n\<close> on are sorted and hold the largest
  elements.
\<close>

definition hparent :: "nat \<Rightarrow> nat" where
  "hparent c = (c - 1) div 2"

definition is_heap :: "('c \<Rightarrow> 'a::linorder) \<Rightarrow> 'c list \<Rightarrow> nat \<Rightarrow> nat \<Rightarrow> bool" where
  "is_heap k d lo n =
     (\<forall>c. 0 < c \<and> c < n \<and> lo \<le> hparent c \<longrightarrow> k (d ! c) \<le> k (d ! hparent c))"

definition hole_inv :: "('c \<Rightarrow> 'a::linorder) \<Rightarrow> 'c list \<Rightarrow> nat \<Rightarrow> nat \<Rightarrow> 'c \<Rightarrow> nat \<Rightarrow> bool" where
  "hole_inv k d lo n t h =
     ((\<forall>c. 0 < c \<and> c < n \<and> lo \<le> hparent c \<and> hparent c \<noteq> h \<longrightarrow> k (d ! c) \<le> k (d ! hparent c))
      \<and> (0 < h \<and> lo \<le> hparent h \<longrightarrow> k t \<le> k (d ! hparent h))
      \<and> (\<forall>c. 0 < c \<and> c < n \<and> hparent c = h \<and> 0 < h \<and> lo \<le> hparent h
            \<longrightarrow> k (d ! c) \<le> k (d ! hparent h)))"

definition max_child :: "('c \<Rightarrow> 'a::linorder) \<Rightarrow> 'c list \<Rightarrow> nat \<Rightarrow> nat \<Rightarrow> nat" where
  "max_child k d n index =
     (if index * 2 + 1 + 1 < n \<and> k (d ! (index * 2 + 1 + 1)) > k (d ! (index * 2 + 1))
      then index * 2 + 1 + 1 else index * 2 + 1)"

definition sorted_from :: "('c \<Rightarrow> 'a::linorder) \<Rightarrow> 'c list \<Rightarrow> nat \<Rightarrow> bool" where
  "sorted_from k d n =
     (sorted (map k (drop n d)) \<and> (\<forall>i j. i < n \<and> n \<le> j \<and> j < length d \<longrightarrow> k (d ! i) \<le> k (d ! j)))"

section \<open>\<^verbatim>\<open>Gc/Energy/Potential/Metric/RiemannianDanek.cpp\<close>\<close>

text \<open>
  The object holds the neighbourhood \<^verbatim>\<open>m_nb\<close> (the directions) and the weights
  \<^verbatim>\<open>m_rw\<close>, one per direction. The vector and matrix classes and the Voronoi diagram
  (\<^verbatim>\<open>Math/Algebra\<close>, \<^verbatim>\<open>Math/Geometry/Voronoi.h\<close>) are not among the sources:
  \<^verbatim>\<open>Mul\<close>, \<^verbatim>\<open>Normalized\<close>, \<^verbatim>\<open>Length\<close>, \<^verbatim>\<open>Determinant\<close> and
  \<^verbatim>\<open>HypersphereVoronoiDiagram\<close> are parameters, over any types \<open>'v\<close> of vectors and
  \<open>'m\<close> of matrices. \<^verbatim>\<open>CauchyCroftonCoef\<close> is specialised for \<open>N = 2\<close> and \<open>N = 3\<close>
  only (lines 45-66). The two loops of \<^verbatim>\<open>SetTransformationMatrix\<close> (lines 70-96) are
  folds over the indices; \<open>mem\<close> is the content of the fresh array \<^verbatim>\<open>nv\<close>.
\<close>

record 'v RiemannianDanek =
  m_nb :: "'v list"
  m_rw :: "real list"

definition CauchyCroftonCoef :: "nat \<Rightarrow> real option" where
  "CauchyCroftonCoef N = (if N = 2 then Some 2 else if N = 3 then Some pi else None)"

definition SetTransformationMatrix ::
  "nat \<Rightarrow> ('m \<Rightarrow> 'v \<Rightarrow> 'v) \<Rightarrow> ('v \<Rightarrow> 'v) \<Rightarrow> ('v \<Rightarrow> real) \<Rightarrow> ('m \<Rightarrow> real) \<Rightarrow> ('v list \<Rightarrow> real list)
   \<Rightarrow> (nat \<Rightarrow> 'v) \<Rightarrow> 'm \<Rightarrow> 'v RiemannianDanek \<Rightarrow> 'v RiemannianDanek option" where
  "SetTransformationMatrix N Mul Normalized Length Determinant HypersphereVoronoiDiagram mem mt this =
     (let n = length (m_nb this);
          nv = fold (\<lambda>i nv. nv[i := Normalized (Mul mt (m_nb this ! i))]) [0..<n] (map mem [0..<n]);
          dphi = HypersphereVoronoiDiagram nv
      in case CauchyCroftonCoef N of
           None \<Rightarrow> None
         | Some coef \<Rightarrow>
             (let cell_area = Determinant mt;
                  rw = fold (\<lambda>i rw.
                               let drho = cell_area / Length (Mul mt (m_nb this ! i))
                               in rw[i := (dphi ! i * drho) / coef])
                         [0..<n] (m_rw this)
              in Some (this\<lparr>m_rw := rw\<rparr>)))"

chapter \<open>Properties\<close>

section \<open>The Riemannian edge weights\<close>

lemma fold_update_upt:
  "n \<le> length xs \<Longrightarrow> fold (\<lambda>i xs. xs[i := f i]) [0..<n] xs = map f [0..<n] @ drop n xs"
proof (induction n)
  case 0 then show ?case by simp
next
  case (Suc n)
  then have n: "n < length xs" by simp
  have "fold (\<lambda>i xs. xs[i := f i]) [0..<Suc n] xs = (map f [0..<n] @ drop n xs)[n := f n]"
    using Suc by simp
  also have "\<dots> = map f [0..<n] @ (drop n xs)[0 := f n]"
    by (simp add: list_update_append)
  also have "(drop n xs)[0 := f n] = f n # drop (Suc n) xs"
    using n by (simp add: Cons_nth_drop_Suc[symmetric])
  finally show ?case by simp
qed

lemma fold_update_all:
  "length xs = n \<Longrightarrow> fold (\<lambda>i xs. xs[i := f i]) [0..<n] xs = map f [0..<n]"
  using fold_update_upt[of n xs f] by simp

lemma nv_map:
  "fold (\<lambda>i nv. nv[i := g (ds ! i)]) [0..<length ds] (map mem [0..<length ds]) = map g ds"
proof -
  have "fold (\<lambda>i nv. nv[i := g (ds ! i)]) [0..<length ds] (map mem [0..<length ds])
        = map (\<lambda>i. g (ds ! i)) [0..<length ds]"
    by (rule fold_update_all) simp
  also have "\<dots> = map g (map ((!) ds) [0..<length ds])" by simp
  also have "\<dots> = map g ds" by (simp only: map_nth)
  finally show ?thesis .
qed

text \<open>
  Claim C1. For \<open>N = 2\<close> or \<open>N = 3\<close>, an object with one weight per direction and a
  direction \<open>i\<close> whose transformed vector has a non-zero length (as it has for every
  non-zero direction when the matrix is positive definite; with a zero length the
  floating point quotient is not a number of the model): \<^verbatim>\<open>SetTransformationMatrix\<close>
  leaves the neighbourhood alone and sets the weight of direction \<open>i\<close> to
  \<open>(\<phi>\<^sub>i * (det M / |M d\<^sub>i|)) / K\<^sub>N\<close>, where \<open>\<phi>\<close> is the result of the hypersphere Voronoi
  diagram on the normalized transformed directions of the whole neighbourhood, and
  \<open>K\<^sub>2 = 2\<close>, \<open>K\<^sub>3 = \<pi>\<close>.
\<close>

theorem C1_riemannian_weights:
  assumes N: "N = 2 \<or> N = 3"
    and len: "length (m_rw this) = length (m_nb this)"
    and i: "i < length (m_nb this)"
    and nz: "Length (Mul mt (m_nb this ! i)) \<noteq> 0"
  shows "\<exists>this'. SetTransformationMatrix N Mul Normalized Length Determinant
                    HypersphereVoronoiDiagram mem mt this = Some this'
     \<and> m_nb this' = m_nb this
     \<and> length (m_rw this') = length (m_nb this)
     \<and> m_rw this' ! i =
         (HypersphereVoronoiDiagram (map (\<lambda>d. Normalized (Mul mt d)) (m_nb this)) ! i
            * (Determinant mt / Length (Mul mt (m_nb this ! i))))
         / (if N = 2 then 2 else pi)"
proof -
  let ?n = "length (m_nb this)"
  let ?dphi = "HypersphereVoronoiDiagram (map (\<lambda>d. Normalized (Mul mt d)) (m_nb this))"
  let ?coef = "if N = 2 then 2 else pi"
  let ?w = "\<lambda>i. (?dphi ! i * (Determinant mt / Length (Mul mt (m_nb this ! i)))) / ?coef"
  have c: "CauchyCroftonCoef N = Some ?coef" using N by (auto simp: CauchyCroftonCoef_def)
  have nv: "fold (\<lambda>i nv. nv[i := Normalized (Mul mt (m_nb this ! i))]) [0..<?n] (map mem [0..<?n])
            = map (\<lambda>d. Normalized (Mul mt d)) (m_nb this)"
    by (rule nv_map)
  have rw: "fold (\<lambda>i rw. rw[i := ?w i]) [0..<?n] (m_rw this) = map ?w [0..<?n]"
    by (rule fold_update_all) (rule len)
  have r: "SetTransformationMatrix N Mul Normalized Length Determinant
             HypersphereVoronoiDiagram mem mt this = Some (this\<lparr>m_rw := map ?w [0..<?n]\<rparr>)"
    unfolding SetTransformationMatrix_def Let_def nv c by (simp only: option.case rw)
  show ?thesis
    using r i by (intro exI[of _ "this\<lparr>m_rw := map ?w [0..<?n]\<rparr>"]) simp
qed

theorem C1_riemannian_witness:
  "\<exists>this'. SetTransformationMatrix 2
        (\<lambda>(a, b, c, d) (x, y). (a * x + b * y, c * x + d * y))
        (\<lambda>(x, y). (x / sqrt (x * x + y * y), y / sqrt (x * x + y * y)))
        (\<lambda>(x, y). sqrt (x * x + y * y))
        (\<lambda>(a, b, c, d). a * d - b * c)
        (\<lambda>nv. replicate (length nv) (pi / 2))
        (\<lambda>_. (0, 0))
        (1, 0, 0, 1)
        \<lparr>m_nb = [(1, 0), (0, 1), (- 1, 0), (0, - 1)], m_rw = [0, 0, 0, 0]\<rparr> = Some this'
     \<and> m_nb this' = [(1, 0), (0, 1), (- 1, 0), (0, - 1)]
     \<and> m_rw this' ! 0 = pi / 4"
proof -
  let ?Mul = "\<lambda>(a::real, b::real, c::real, d::real) (x::real, y::real). (a * x + b * y, c * x + d * y)"
  let ?Len = "\<lambda>(x::real, y::real). sqrt (x * x + y * y)"
  let ?this = "\<lparr>m_nb = [(1, 0), (0, 1), (- 1, 0), (0, - 1 :: real)], m_rw = [0, 0, 0, 0 :: real]\<rparr>"
  have h: "(2::nat) = 2 \<or> (2::nat) = 3" "length (m_rw ?this) = length (m_nb ?this)"
    "0 < length (m_nb ?this)" "?Len (?Mul (1, 0, 0, 1) (m_nb ?this ! 0)) \<noteq> 0"
    by simp_all
  from C1_riemannian_weights[where Mul = ?Mul and Length = ?Len, OF h,
      of "\<lambda>(x, y). (x / sqrt (x * x + y * y), y / sqrt (x * x + y * y))"
         "\<lambda>(a, b, c, d). a * d - b * c" "\<lambda>nv. replicate (length nv) (pi / 2)" "\<lambda>_. (0, 0)"]
  show ?thesis by simp blast
qed

section \<open>Neighbourhood symbols\<close>

lemma atoi_digits:
  "atoi ''4'' = 4" "atoi ''8'' = 8" "atoi ''16'' = 16" "atoi ''32'' = 32"
  "atoi ''6'' = 6" "atoi ''18'' = 18" "atoi ''26'' = 26"
  by (simp_all add: atoi_def isspace_def isdigit_def)

lemma CreateNeighbourhood_accepts:
  "(\<exists>r. CreateNeighbourhood S N s = Inr r) \<longleftrightarrow>
     (N = 2 \<and> s \<in> {''N4'', ''N8'', ''N16'', ''N32''}) \<or>
     (N = 3 \<and> s \<in> {''N6'', ''N18'', ''N26'', ''N98''})"
  by (auto simp: CreateNeighbourhood_def)

lemma CreateNeighbourhood_rejects:
  "CreateNeighbourhood S N s = Inl e \<Longrightarrow> e = unsupported_nb"
  by (auto simp: CreateNeighbourhood_def split: if_splits)

lemma CreateNeighbourhood_N98:
  "CreateNeighbourhood S 3 ''N98'' = Inr (Box 2 True False)"
  by (simp add: CreateNeighbourhood_def)

text \<open>
  Claim C3. Only the eight symbols are accepted and every other symbol is refused as an
  unsupported neighbourhood before segmentation starts. \<^verbatim>\<open>CreateNeighbourhood\<close> does
  this (the lemmas above), but the three drivers that bypass it do not look at the first
  character nor at what follows the digits: for the symbols \<open>X4\<close> and \<open>N4z\<close> they
  build exactly the neighbourhood they build for \<open>N4\<close>, whatever the constructor does,
  while \<^verbatim>\<open>CreateNeighbourhood\<close> refuses both.
\<close>

theorem C3_drivers_skip_symbol_check:
  "Segment_Neighbourhood S ctor ''X4'' = Segment_Neighbourhood S ctor ''N4''
   \<and> Segment_Neighbourhood S ctor ''N4z'' = Segment_Neighbourhood S ctor ''N4''
   \<and> Segment_Neighbourhood S ctor ''N4'' = Some (ctor (S 4) False)
   \<and> CreateNeighbourhood S 2 ''X4'' = Inl unsupported_nb
   \<and> CreateNeighbourhood S 2 ''N4z'' = Inl unsupported_nb
   \<and> CreateNeighbourhood S 2 ''N4'' = Inr (Common (S 4) False)"
  by (simp add: Segment_Neighbourhood_def CreateNeighbourhood_def atoi_def isspace_def isdigit_def)

section \<open>Image marshalling: \<^verbatim>\<open>SetImage\<close> after \<^verbatim>\<open>GetImage\<close>\<close>

lemma nest_inner_Suc:
  "nest_inner cast src P (Suc Q) s =
     (case nest_inner cast src P Q s of
        (din, dout, dst) \<Rightarrow> (din + 1, dout + P, dst[dout := cast (src ! din)]))"
  by (simp add: nest_inner_def)

lemma nest_inner_spec:
  assumes "0 < P" "\<forall>b<Q. dout + b * P < length dst"
  shows "\<exists>dst'. nest_inner cast src P Q (din, dout, dst) = (din + Q, dout + Q * P, dst')
           \<and> length dst' = length dst
           \<and> (\<forall>b<Q. dst' ! (dout + b * P) = cast (src ! (din + b)))
           \<and> (\<forall>j. (\<forall>b<Q. j \<noteq> dout + b * P) \<longrightarrow> dst' ! j = dst ! j)"
  using assms(2)
proof (induction Q)
  case 0
  then show ?case by (simp add: nest_inner_def)
next
  case (Suc Q)
  then obtain dst' where d: "nest_inner cast src P Q (din, dout, dst) = (din + Q, dout + Q * P, dst')"
      "length dst' = length dst"
      "\<forall>b<Q. dst' ! (dout + b * P) = cast (src ! (din + b))"
      "\<forall>j. (\<forall>b<Q. j \<noteq> dout + b * P) \<longrightarrow> dst' ! j = dst ! j"
    by fastforce
  let ?w = "dout + Q * P"
  let ?d = "dst'[?w := cast (src ! (din + Q))]"
  have inr: "?w < length dst'" using Suc.prems d(2) by simp
  have ne: "dout + b * P \<noteq> ?w" if "b < Q" for b
    using that assms(1) by simp
  have "nest_inner cast src P (Suc Q) (din, dout, dst) = (din + Suc Q, dout + Suc Q * P, ?d)"
    by (simp add: nest_inner_Suc d(1) add.commute)
  moreover have "length ?d = length dst" using d(2) by simp
  moreover have "\<forall>b<Suc Q. ?d ! (dout + b * P) = cast (src ! (din + b))"
  proof (intro allI impI)
    fix b assume "b < Suc Q"
    then consider "b < Q" | "b = Q" by linarith
    then show "?d ! (dout + b * P) = cast (src ! (din + b))"
    proof cases
      case 1
      then show ?thesis using d(3) ne[of b] by (simp add: nth_list_update)
    next
      case 2
      then show ?thesis using inr by simp
    qed
  qed
  moreover have "\<forall>j. (\<forall>b<Suc Q. j \<noteq> dout + b * P) \<longrightarrow> ?d ! j = dst ! j"
  proof (intro allI impI)
    fix j assume j: "\<forall>b<Suc Q. j \<noteq> dout + b * P"
    then have "j \<noteq> ?w" by auto
    moreover have "dst' ! j = dst ! j" using d(4) j by auto
    ultimately show "?d ! j = dst ! j" by (simp add: nth_list_update)
  qed
  ultimately show ?case by blast
qed

lemma cell_less: "a < P \<Longrightarrow> b < Q \<Longrightarrow> a + b * P < P * (Q::nat)"
proof -
  assume a: "a < P" and b: "b < Q"
  have "a + b * P < P + b * P" using a by simp
  also have "\<dots> = Suc b * P" by simp
  also have "\<dots> \<le> Q * P" using b by (intro mult_le_mono1) simp
  finally show ?thesis by (simp add: mult.commute)
qed

lemma cell_inj: "a < P \<Longrightarrow> a' < P \<Longrightarrow> a + b * P = a' + b' * (P::nat) \<Longrightarrow> a = a' \<and> b = b'"
proof -
  assume a: "a < P" "a' < P" and e: "a + b * P = a' + b' * P"
  have "(a + b * P) mod P = (a' + b' * P) mod P" using e by simp
  then have aa: "a = a'" using a by simp
  then have "b * P = b' * P" using e by simp
  then show ?thesis using aa a by simp
qed

lemma nest_mid_Suc:
  "nest_mid cast src P Q (Suc m) s =
     (case nest_inner cast src P Q (nest_mid cast src P Q m s) of
        (din, dout, dst) \<Rightarrow> (din, dout - (P * Q - 1), dst))"
  by (simp add: nest_mid_def)

lemma nest_mid_spec:
  assumes "0 < P" "0 < Q" "dout + P * Q \<le> length dst"
  shows "m \<le> P \<Longrightarrow>
         \<exists>dst'. nest_mid cast src P Q m (din, dout, dst) = (din + m * Q, dout + m, dst')
           \<and> length dst' = length dst
           \<and> (\<forall>a<m. \<forall>b<Q. dst' ! (dout + a + b * P) = cast (src ! (din + a * Q + b)))
           \<and> (\<forall>j. (\<forall>a<m. \<forall>b<Q. j \<noteq> dout + a + b * P) \<longrightarrow> dst' ! j = dst ! j)"
proof (induction m)
  case 0
  then show ?case by (simp add: nest_mid_def)
next
  case (Suc m)
  then have mP: "m < P" by simp
  from Suc obtain dst' where d:
      "nest_mid cast src P Q m (din, dout, dst) = (din + m * Q, dout + m, dst')"
      "length dst' = length dst"
      "\<forall>a<m. \<forall>b<Q. dst' ! (dout + a + b * P) = cast (src ! (din + a * Q + b))"
      "\<forall>j. (\<forall>a<m. \<forall>b<Q. j \<noteq> dout + a + b * P) \<longrightarrow> dst' ! j = dst ! j"
    by fastforce
  have inr: "\<forall>b<Q. dout + m + b * P < length dst'"
  proof (intro allI impI)
    fix b assume "b < Q"
    then have "m + b * P < P * Q" using mP by (rule cell_less[rotated])
    then show "dout + m + b * P < length dst'" using assms(3) d(2) by simp
  qed
  obtain dst'' where e:
      "nest_inner cast src P Q (din + m * Q, dout + m, dst') = (din + m * Q + Q, dout + m + Q * P, dst'')"
      "length dst'' = length dst'"
      "\<forall>b<Q. dst'' ! (dout + m + b * P) = cast (src ! (din + m * Q + b))"
      "\<forall>j. (\<forall>b<Q. j \<noteq> dout + m + b * P) \<longrightarrow> dst'' ! j = dst' ! j"
    using nest_inner_spec[OF assms(1) inr, of cast src "din + m * Q"] by blast
  have pq: "0 < P * Q" using assms by simp
  have "nest_mid cast src P Q (Suc m) (din, dout, dst)
      = (din + m * Q + Q, dout + m + Q * P - (P * Q - 1), dst'')"
    by (simp only: nest_mid_Suc d(1) e(1) split)
  also have "dout + m + Q * P - (P * Q - 1) = dout + Suc m"
    using pq by (simp add: mult.commute)
  also have "din + m * Q + Q = din + Suc m * Q" by simp
  finally have "nest_mid cast src P Q (Suc m) (din, dout, dst) = (din + Suc m * Q, dout + Suc m, dst'')" .
  moreover have "length dst'' = length dst" using d(2) e(2) by simp
  moreover have "\<forall>a<Suc m. \<forall>b<Q. dst'' ! (dout + a + b * P) = cast (src ! (din + a * Q + b))"
  proof (intro allI impI)
    fix a b assume ab: "a < Suc m" "b < Q"
    then consider "a < m" | "a = m" by linarith
    then show "dst'' ! (dout + a + b * P) = cast (src ! (din + a * Q + b))"
    proof cases
      case 1
      have "\<forall>b'<Q. dout + a + b * P \<noteq> dout + m + b' * P"
      proof (intro allI impI notI)
        fix b' assume "b' < Q" "dout + a + b * P = dout + m + b' * P"
        then have "a + b * P = m + b' * P" by simp
        then have "a = m" using cell_inj[of a P m b b'] 1 mP by simp
        then show False using 1 by simp
      qed
      then have "dst'' ! (dout + a + b * P) = dst' ! (dout + a + b * P)" using e(4) by blast
      then show ?thesis using d(3) 1 ab by simp
    next
      case 2
      then show ?thesis using e(3) ab by simp
    qed
  qed
  moreover have "\<forall>j. (\<forall>a<Suc m. \<forall>b<Q. j \<noteq> dout + a + b * P) \<longrightarrow> dst'' ! j = dst ! j"
  proof (intro allI impI)
    fix j assume j: "\<forall>a<Suc m. \<forall>b<Q. j \<noteq> dout + a + b * P"
    then have "dst'' ! j = dst' ! j" using e(4) by auto
    moreover have "dst' ! j = dst ! j" using d(4) j by auto
    ultimately show "dst'' ! j = dst ! j" by simp
  qed
  ultimately show ?case by blast
qed

lemma nest_outer_Suc:
  "nest_outer cast src P Q (Suc K) s =
     (case nest_mid cast src P Q P (nest_outer cast src P Q K s) of
        (din, dout, dst) \<Rightarrow> (din, dout + (P * Q - P), dst))"
  by (simp add: nest_outer_def)

lemma nest_outer_spec:
  assumes "0 < P" "0 < Q"
  shows "dout + K * (P * Q) \<le> length dst \<Longrightarrow>
         \<exists>dst'. nest_outer cast src P Q K (din, dout, dst) = (din + K * (P * Q), dout + K * (P * Q), dst')
           \<and> length dst' = length dst
           \<and> (\<forall>s<K. \<forall>a<P. \<forall>b<Q.
                 dst' ! (dout + s * (P * Q) + a + b * P) = cast (src ! (din + s * (P * Q) + a * Q + b)))
           \<and> (\<forall>j. j < dout \<or> dout + K * (P * Q) \<le> j \<longrightarrow> dst' ! j = dst ! j)"
proof (induction K)
  case 0
  then show ?case by (simp add: nest_outer_def)
next
  case (Suc K)
  let ?o = "dout + K * (P * Q)"
  let ?i = "din + K * (P * Q)"
  from Suc obtain dst' where d:
      "nest_outer cast src P Q K (din, dout, dst) = (?i, ?o, dst')"
      "length dst' = length dst"
      "\<forall>s<K. \<forall>a<P. \<forall>b<Q.
         dst' ! (dout + s * (P * Q) + a + b * P) = cast (src ! (din + s * (P * Q) + a * Q + b))"
      "\<forall>j. j < dout \<or> ?o \<le> j \<longrightarrow> dst' ! j = dst ! j"
    by fastforce
  have inr: "?o + P * Q \<le> length dst'" using Suc.prems d(2) by simp
  obtain dst'' where e:
      "nest_mid cast src P Q P (?i, ?o, dst') = (?i + P * Q, ?o + P, dst'')"
      "length dst'' = length dst'"
      "\<forall>a<P. \<forall>b<Q. dst'' ! (?o + a + b * P) = cast (src ! (?i + a * Q + b))"
      "\<forall>j. (\<forall>a<P. \<forall>b<Q. j \<noteq> ?o + a + b * P) \<longrightarrow> dst'' ! j = dst' ! j"
    using nest_mid_spec[OF assms inr, of P cast src ?i] by auto
  have pq: "P \<le> P * Q" using assms by simp
  have "nest_outer cast src P Q (Suc K) (din, dout, dst)
      = (din + Suc K * (P * Q), dout + Suc K * (P * Q), dst'')"
    using pq by (simp add: nest_outer_Suc d(1) e(1))
  moreover have "length dst'' = length dst" using d(2) e(2) by simp
  moreover have "\<forall>s<Suc K. \<forall>a<P. \<forall>b<Q.
      dst'' ! (dout + s * (P * Q) + a + b * P) = cast (src ! (din + s * (P * Q) + a * Q + b))"
  proof (intro allI impI)
    fix s a b assume sab: "s < Suc K" "a < P" "b < Q"
    then consider "s < K" | "s = K" by linarith
    then show "dst'' ! (dout + s * (P * Q) + a + b * P) = cast (src ! (din + s * (P * Q) + a * Q + b))"
    proof cases
      case 1
      have lt: "a + b * P < P * Q" using sab by (intro cell_less)
      have "Suc s * (P * Q) \<le> K * (P * Q)" using 1 by (intro mult_le_mono1) simp
      then have "dout + s * (P * Q) + a + b * P < ?o" using lt by simp
      then have "\<forall>a'<P. \<forall>b'<Q. dout + s * (P * Q) + a + b * P \<noteq> ?o + a' + b' * P" by auto
      then have "dst'' ! (dout + s * (P * Q) + a + b * P) = dst' ! (dout + s * (P * Q) + a + b * P)"
        using e(4) by blast
      then show ?thesis using d(3) 1 sab by simp
    next
      case 2
      then show ?thesis using e(3) sab by simp
    qed
  qed
  moreover have "\<forall>j. j < dout \<or> dout + Suc K * (P * Q) \<le> j \<longrightarrow> dst'' ! j = dst ! j"
  proof (intro allI impI)
    fix j assume j: "j < dout \<or> dout + Suc K * (P * Q) \<le> j"
    have "\<forall>a<P. \<forall>b<Q. j \<noteq> ?o + a + b * P"
    proof (intro allI impI notI)
      fix a b assume ab: "a < P" "b < Q" "j = ?o + a + b * P"
      then have "a + b * P < P * Q" by (intro cell_less)
      then show False using j ab(3) by auto
    qed
    then have "dst'' ! j = dst' ! j" using e(4) by blast
    moreover have "dst' ! j = dst ! j" using d(4) j by auto
    ultimately show "dst'' ! j = dst ! j" by simp
  qed
  ultimately show ?case by blast
qed

lemma GetImage_i_nest:
  "GetImage_i cast src img_dim (img_dim ! 0 * img_dim ! 1) K
     = nest_outer cast src (img_dim ! 0) (img_dim ! 1) K"
  by (simp add: GetImage_i_def GetImage_x_def GetImage_y_def nest_outer_def nest_mid_def nest_inner_def)

lemma SetImage_i_nest:
  "SetImage_i cast img (Dimensions img ! 0 * Dimensions img ! 1) K
     = nest_outer cast (Elems img) (Dimensions img ! 1) (Dimensions img ! 0) K"
  by (simp add: SetImage_i_def SetImage_y_def SetImage_x_def nest_outer_def nest_mid_def nest_inner_def
        mult.commute)

lemma map_nth_tail: "map (\<lambda>i. (a # b # rest) ! i) [2..<Suc (Suc (length rest))] = rest"
proof -
  have "[2..<Suc (Suc (length rest))] = map (\<lambda>i. i + 2) [0..<length rest]"
    using map_add_upt[of 2 "length rest"] by simp
  then have "map (\<lambda>i. (a # b # rest) ! i) [2..<Suc (Suc (length rest))]
      = map (\<lambda>i. rest ! i) [0..<length rest]"
    by (simp add: comp_def)
  then show ?thesis by (simp add: map_nth)
qed

lemma GetImage_spec:
  assumes "0 < r" "0 < c" "length data = r * c * prod_list rest" "N = Suc (Suc (length rest))"
  shows "\<exists>img. GetImage N cast mem \<lparr>mxDimensions = r # c # rest, mxData = data\<rparr> = Some img
           \<and> Dimensions img = c # r # rest
           \<and> length (Elems img) = r * c * prod_list rest
           \<and> (\<forall>s<prod_list rest. \<forall>x<c. \<forall>y<r.
                 Elems img ! (s * (c * r) + x + y * c) = cast (data ! (s * (c * r) + x * r + y)))"
proof -
  let ?K = "prod_list rest"
  let ?dim = "c # r # rest"
  let ?img0 = "map mem [0..<prod_list ?dim]"
  have cr: "0 < c * r" using assms by simp
  have len0: "0 + ?K * (c * r) \<le> length ?img0" by (simp add: mult_ac)
  obtain dst where d:
      "nest_outer cast data c r ?K (0, 0, ?img0) = (0 + ?K * (c * r), 0 + ?K * (c * r), dst)"
      "length dst = length ?img0"
      "\<forall>s<?K. \<forall>a<c. \<forall>b<r.
         dst ! (0 + s * (c * r) + a + b * c) = cast (data ! (0 + s * (c * r) + a * r + b))"
    using nest_outer_spec[OF assms(2) assms(1) len0, of cast data 0] by blast
  have dims: "[(r # c # rest) ! 1, (r # c # rest) ! 0] @ map (\<lambda>i. (r # c # rest) ! i) [2..<N] = ?dim"
    using assms(4) map_nth_tail[of r c rest] by simp
  have dv: "prod_list ?dim div (c * r) = ?K" using cr by simp
  have "GetImage N cast mem \<lparr>mxDimensions = r # c # rest, mxData = data\<rparr>
      = Some \<lparr>Dimensions = ?dim, Elems = dst\<rparr>"
    unfolding GetImage_def Let_def mxArray.simps dims Elements_def Array.simps
    using cr GetImage_i_nest[of cast data ?dim "?K"] d(1) dv
    by (simp del: prod_list.Cons)
  moreover have "length dst = r * c * ?K" using d(2) by (simp add: mult_ac)
  ultimately show ?thesis using d(3) by simp
qed

lemma SetImage_spec:
  assumes "0 < r" "0 < c" "Dimensions img = c # r # rest"
    "length (Elems img) = r * c * prod_list rest" "length (mxData mx_out) = r * c * prod_list rest"
  shows "\<exists>dst. SetImage cast img mx_out = Some (mx_out\<lparr>mxData := dst\<rparr>)
           \<and> length dst = r * c * prod_list rest
           \<and> (\<forall>s<prod_list rest. \<forall>y<r. \<forall>x<c.
                 dst ! (s * (r * c) + y + x * r) = cast (Elems img ! (s * (r * c) + y * c + x)))"
proof -
  let ?K = "prod_list rest"
  have cr: "0 < c * r" using assms by simp
  have len0: "0 + ?K * (r * c) \<le> length (mxData mx_out)" using assms(5) by (simp add: mult_ac)
  obtain dst where d:
      "nest_outer cast (Elems img) r c ?K (0, 0, mxData mx_out) = (0 + ?K * (r * c), 0 + ?K * (r * c), dst)"
      "length dst = length (mxData mx_out)"
      "\<forall>s<?K. \<forall>a<r. \<forall>b<c.
         dst ! (0 + s * (r * c) + a + b * r) = cast (Elems img ! (0 + s * (r * c) + a * c + b))"
    using nest_outer_spec[OF assms(1) assms(2) len0, of cast "Elems img" 0] by blast
  have dv: "Elements img div (c * r) = ?K" using cr assms(3) by (simp add: Elements_def)
  have "SetImage cast img mx_out = Some (mx_out\<lparr>mxData := dst\<rparr>)"
    unfolding SetImage_def Let_def
    using cr SetImage_i_nest[of cast img "?K"] d(1) dv assms(3)
    by simp
  moreover have "length dst = r * c * ?K" using d(2) assms(5) by simp
  ultimately show ?thesis using d(3) by (intro exI[of _ dst]) simp
qed

lemma cell_decompose:
  assumes "0 < r" "0 < c" "j < K * (r * c)"
  shows "\<exists>s<K. \<exists>x<c. \<exists>y<r. j = s * (r * c) + y + x * (r::nat)"
proof -
  let ?s = "j div (r * c)" and ?t = "j mod (r * c)"
  have s: "?s < K" using assms by (simp add: less_mult_imp_div_less)
  have t: "?t < r * c" using assms by simp
  have x: "?t div r < c" using t assms by (simp add: less_mult_imp_div_less mult.commute)
  have y: "?t mod r < r" using assms by simp
  have e1: "?s * (r * c) + ?t = j" by (rule div_mult_mod_eq)
  have e2: "?t mod r + (?t div r) * r = ?t" by (rule mod_div_mult_eq)
  have "j = ?s * (r * c) + ?t mod r + (?t div r) * r" using e1 e2 by linarith
  then show ?thesis using s x y by blast
qed

lemma GetImage_example:
  "GetImage 2 (\<lambda>v. v) (\<lambda>_. 0) \<lparr>mxDimensions = [2, 3], mxData = [1, 2, 3, 4, 5, 6 :: nat]\<rparr>
     = Some \<lparr>Dimensions = [3, 2], Elems = [1, 3, 5, 2, 4, 6]\<rparr>"
  by (simp add: GetImage_def GetImage_i_def GetImage_x_def GetImage_y_def Elements_def upt_rec[of _ "numeral _"])
text \<open>
  Claim C8, as amended. For every array with at least one row and one column (of any
  number \<open>N \<ge> 2\<close> of dimensions, so for the 2-D and 3-D arrays of the drivers), whose data
  has as many elements as its dimensions say: \<^verbatim>\<open>GetImage\<close> returns an image with the
  first two dimensions exchanged, in which the element of column \<open>x\<close>, row \<open>y\<close> and
  slice \<open>s\<close> lies at \<open>x + y * c + s * c * r\<close> (X fastest) while MATLAB holds it at
  \<open>y + x * r + s * r * c\<close> (rows fastest); and \<^verbatim>\<open>SetImage\<close> of that image into an
  array of the same dimensions gives back the original data, element for element.
\<close>

theorem C8_GetImage_SetImage_roundtrip:
  assumes "0 < r" "0 < c" "length data = r * c * prod_list rest" "N = Suc (Suc (length rest))"
    "mxDimensions mx_out = r # c # rest" "length (mxData mx_out) = r * c * prod_list rest"
  shows "\<exists>img. GetImage N (\<lambda>v. v) mem \<lparr>mxDimensions = r # c # rest, mxData = data\<rparr> = Some img
           \<and> Dimensions img = c # r # rest
           \<and> (\<forall>s<prod_list rest. \<forall>x<c. \<forall>y<r.
                 Elems img ! (s * (c * r) + x + y * c) = data ! (s * (r * c) + y + x * r))
           \<and> SetImage (\<lambda>v. v) img mx_out = Some \<lparr>mxDimensions = r # c # rest, mxData = data\<rparr>"
proof -
  let ?K = "prod_list rest"
  obtain img where g:
      "GetImage N (\<lambda>v. v) mem \<lparr>mxDimensions = r # c # rest, mxData = data\<rparr> = Some img"
      "Dimensions img = c # r # rest"
      "length (Elems img) = r * c * ?K"
      "\<forall>s<?K. \<forall>x<c. \<forall>y<r. Elems img ! (s * (c * r) + x + y * c) = data ! (s * (c * r) + x * r + y)"
    using GetImage_spec[OF assms(1-4), of "\<lambda>v. v" mem] by blast
  obtain dst where t:
      "SetImage (\<lambda>v. v) img mx_out = Some (mx_out\<lparr>mxData := dst\<rparr>)"
      "length dst = r * c * ?K"
      "\<forall>s<?K. \<forall>y<r. \<forall>x<c. dst ! (s * (r * c) + y + x * r) = Elems img ! (s * (r * c) + y * c + x)"
    using SetImage_spec[OF assms(1,2) g(2,3) assms(6), of "\<lambda>v. v"] by blast
  have tr: "\<forall>s<?K. \<forall>x<c. \<forall>y<r.
      Elems img ! (s * (c * r) + x + y * c) = data ! (s * (r * c) + y + x * r)"
  proof (intro allI impI)
    fix s x y assume "s < ?K" "x < c" "y < r"
    then have "Elems img ! (s * (c * r) + x + y * c) = data ! (s * (c * r) + x * r + y)"
      using g(4) by blast
    moreover have "s * (c * r) + x * r + y = s * (r * c) + y + x * r" by (simp add: mult.commute)
    ultimately show "Elems img ! (s * (c * r) + x + y * c) = data ! (s * (r * c) + y + x * r)"
      by simp
  qed
  have "dst = data"
  proof (rule nth_equalityI)
    show "length dst = length data" using t(2) assms(3) by simp
    fix j assume "j < length dst"
    then have "j < ?K * (r * c)" using t(2) by (simp add: mult.commute)
    then obtain s x y where sxy: "s < ?K" "x < c" "y < r" "j = s * (r * c) + y + x * r"
      using cell_decompose[OF assms(1,2)] by blast
    have "dst ! j = Elems img ! (s * (r * c) + y * c + x)" using t(3) sxy by blast
    also have "s * (r * c) + y * c + x = s * (c * r) + x + y * c" by (simp add: mult.commute)
    also have "Elems img ! \<dots> = data ! (s * (r * c) + y + x * r)" using tr sxy by blast
    finally show "dst ! j = data ! j" using sxy(4) by simp
  qed
  then have "SetImage (\<lambda>v. v) img mx_out = Some \<lparr>mxDimensions = r # c # rest, mxData = data\<rparr>"
    using t(1) assms(5) by (cases mx_out) simp
  then show ?thesis using g(1,2) tr by blast
qed

theorem C8_roundtrip_witness:
  "\<exists>img. GetImage 3 (\<lambda>v. v) (\<lambda>_. 0) \<lparr>mxDimensions = [2, 3, 2],
                mxData = [1, 2, 3, 4, 5, 6, 7, 8, 9, 10, 11, 12 :: nat]\<rparr> = Some img
      \<and> Dimensions img = [3, 2, 2]
      \<and> SetImage (\<lambda>v. v) img \<lparr>mxDimensions = [2, 3, 2], mxData = replicate 12 0\<rparr>
          = Some \<lparr>mxDimensions = [2, 3, 2], mxData = [1, 2, 3, 4, 5, 6, 7, 8, 9, 10, 11, 12]\<rparr>"
proof -
  have h: "(0::nat) < 2" "(0::nat) < 3"
    "length [1, 2, 3, 4, 5, 6, 7, 8, 9, 10, 11, 12 :: nat] = 2 * 3 * prod_list [2]"
    "(3::nat) = Suc (Suc (length [2::nat]))"
    "mxDimensions \<lparr>mxDimensions = [2, 3, 2], mxData = replicate 12 (0::nat)\<rparr> = [2, 3, 2]"
    "length (mxData \<lparr>mxDimensions = [2, 3, 2], mxData = replicate 12 (0::nat)\<rparr>) = 2 * 3 * prod_list [2]"
    by simp_all
  from C8_GetImage_SetImage_roundtrip[OF h, of "\<lambda>_. 0"] show ?thesis by blast
qed

text \<open>
  The claim as stated, for every 2-D array, fails on an array without rows: for a
  \<open>0 \<times> 3\<close> array \<^verbatim>\<open>slice_sz\<close> is 0 and \<^verbatim>\<open>GetImage\<close> divides by it, so the
  composition yields nothing.
\<close>

theorem C8_empty_array_counterexample:
  "\<not> (\<exists>img out. GetImage 2 (\<lambda>v. v) (\<lambda>_. 0)
                      \<lparr>mxDimensions = [0, 3], mxData = ([] :: nat list)\<rparr> = Some img
                  \<and> SetImage (\<lambda>v. v) img \<lparr>mxDimensions = [0, 3], mxData = ([] :: nat list)\<rparr> = Some out)"
  by (simp add: GetImage_def)

section \<open>\<^verbatim>\<open>gc_weighted_kmeans\<close>\<close>

declare kmeans_while.simps [simp del]



lemma kmeans_continue_Some:
  "kmeans_continue conv maxiter (Some a, Some b, o1, o2, k)
     \<longleftrightarrow> conv < \<bar>a - o1\<bar> + \<bar>b - o2\<bar> \<and> real k < maxiter"
  by (simp add: kmeans_continue_def)










section \<open>The band mask of \<^verbatim>\<open>gc_chan_vese_two_stage\<close>\<close>

lemma length_assign_where: "length (assign_where L v msk) = length msk"
  by (simp add: assign_where_def)

lemma nth_assign_where:
  "p < length msk \<Longrightarrow> assign_where L v msk ! p = (if L ! p then v else msk ! p)"
  by (simp add: assign_where_def)

lemma length_band_mask: "length (band_mask dt sg r) = length sg"
  by (simp add: band_mask_def Let_def length_assign_where)

lemma nth_band_mask:
  assumes "p < length sg" "length (dt sg False ''cityblock'') = length sg"
    "length (dt sg True ''cityblock'') = length sg"
  shows "band_mask dt sg r ! p =
     (if r < real (dt sg True ''cityblock'' ! p) then 1
      else if r < real (dt sg False ''cityblock'' ! p) then 2 else 3)"
  using assms by (simp add: band_mask_def Let_def length_assign_where nth_assign_where)

lemma error_bind_Inr: "error_bind r f = Inr y \<longleftrightarrow> (\<exists>v. r = Inr v \<and> f v = Inr y)"
  by (cases r) (simp_all add: error_bind_def)

lemma band_mask_exact:
  assumes r: "0 \<le> r" and p: "p < length sg"
    and len: "\<forall>sg z. length (dt sg z ''cityblock'') = length sg"
    and zero: "\<forall>sg z p. p < length sg \<and> sg ! p = z \<longrightarrow> dt sg z ''cityblock'' ! p = 0"
  shows "(band_mask dt sg r ! p = 2 \<longleftrightarrow> r < real (dt sg False ''cityblock'' ! p))
       \<and> (band_mask dt sg r ! p = 1 \<longleftrightarrow> r < real (dt sg True ''cityblock'' ! p))
       \<and> (band_mask dt sg r ! p = 3 \<longleftrightarrow>
            \<not> r < real (dt sg False ''cityblock'' ! p) \<and> \<not> r < real (dt sg True ''cityblock'' ! p))"
proof -
  have n: "band_mask dt sg r ! p =
     (if r < real (dt sg True ''cityblock'' ! p) then 1
      else if r < real (dt sg False ''cityblock'' ! p) then 2 else 3)"
    using nth_band_mask[OF p] len by simp
  have z: "dt sg (sg ! p) ''cityblock'' ! p = 0" using zero p by blast
  have excl: "\<not> (r < real (dt sg True ''cityblock'' ! p) \<and> r < real (dt sg False ''cityblock'' ! p))"
  proof (cases "sg ! p")
    case True
    then have "dt sg True ''cityblock'' ! p = 0" using z by simp
    then show ?thesis using r by simp
  next
    case False
    then have "dt sg False ''cityblock'' ! p = 0" using z by simp
    then show ?thesis using r by simp
  qed
  show ?thesis unfolding n using excl by auto
qed

text \<open>
  Claim C6, as amended. When \<^verbatim>\<open>gc_chan_vese_two_stage\<close> returns, and the band radius
  (if passed) is not negative: the first stage returned a segmentation \<open>seg1\<close>; the mask
  built from it has the size of \<open>seg1\<close> and holds 2 exactly where the cityblock distance
  to the nearest background pixel of \<open>seg1\<close> exceeds the band radius, 1 exactly where
  the distance to the nearest foreground pixel exceeds it, and 3 exactly at the remaining
  positions; and the outputs are those of the second stage, called on this mask with the
  neighbourhood \<^verbatim>\<open>nb2\<close> and the means of the first stage. Of the distance transform
  it is assumed that its result has the size of its argument and is 0 at the pixels that
  have the value \<^verbatim>\<open>zero_val\<close>.
\<close>

theorem C6_two_stage_mask:
  assumes ret: "gc_chan_vese_two_stage GcChanVese GcDistTransform nargin isfloat ndims img mu
                  lambda1 lambda2 bandradius nb1 nb2 flow1 flow2 lg conv1 conv2 maxiter1 maxiter2 c1 c2
                = Inr out"
    and rad: "5 \<le> nargin \<longrightarrow> 0 \<le> bandradius"
    and len: "\<forall>sg z. length (GcDistTransform sg z ''cityblock'') = length sg"
    and zero: "\<forall>sg z p. p < length sg \<and> sg ! p = z \<longrightarrow> GcDistTransform sg z ''cityblock'' ! p = 0"
  shows "\<exists>ca cb seg1 energy1 iter1 c1' c2' msk seg2 energy2 iter2 fc1 fc2.
      GcChanVese img (rdivide lambda1 mu) (rdivide lambda2 mu) ca cb
          (if nargin < 11 then 0.001 else conv1) (if nargin < 13 then 30 else maxiter1)
          (if nargin < 6 then (if ndims = 2 then ''N4'' else ''N6'') else nb1)
          (if nargin < 8 then ''GRD-KO'' else flow1) (if nargin < 10 then False else lg) None
        = Inr (seg1, energy1, iter1, c1', c2')
      \<and> msk = band_mask GcDistTransform seg1
                 (if nargin < 5 then (if ndims = 2 then 8 else 4) else bandradius)
      \<and> length msk = length seg1
      \<and> (\<forall>p<length seg1.
            (msk ! p = 2 \<longleftrightarrow> (if nargin < 5 then (if ndims = 2 then 8 else 4) else bandradius)
                                < real (GcDistTransform seg1 False ''cityblock'' ! p))
          \<and> (msk ! p = 1 \<longleftrightarrow> (if nargin < 5 then (if ndims = 2 then 8 else 4) else bandradius)
                                < real (GcDistTransform seg1 True ''cityblock'' ! p))
          \<and> (msk ! p = 3 \<longleftrightarrow>
                \<not> (if nargin < 5 then (if ndims = 2 then 8 else 4) else bandradius)
                                < real (GcDistTransform seg1 False ''cityblock'' ! p)
              \<and> \<not> (if nargin < 5 then (if ndims = 2 then 8 else 4) else bandradius)
                                < real (GcDistTransform seg1 True ''cityblock'' ! p)))
      \<and> GcChanVese img (rdivide lambda1 mu) (rdivide lambda2 mu) c1' c2'
          (if nargin < 12 then 0.001 else conv2) (if nargin < 14 then 10 else maxiter2)
          (if nargin < 7 then (if ndims = 2 then ''N16'' else ''N98'') else nb2)
          (if nargin < 9 then ''GRD-PRH'' else flow2) (if nargin < 10 then False else lg) (Some msk)
        = Inr (seg2, energy2, iter2, fc1, fc2)
      \<and> out = (seg2, energy2, iter1, iter2, fc1, fc2)"
proof -
  let ?r = "if nargin < 5 then (if ndims = 2 then 8 else 4) else bandradius"
  have r0: "0 \<le> ?r" using rad by auto
  from ret obtain ca cb seg1 energy1 iter1 c1' c2' seg2 energy2 iter2 fc1 fc2 where
    a: "GcChanVese img (rdivide lambda1 mu) (rdivide lambda2 mu) ca cb
          (if nargin < 11 then 0.001 else conv1) (if nargin < 13 then 30 else maxiter1)
          (if nargin < 6 then (if ndims = 2 then ''N4'' else ''N6'') else nb1)
          (if nargin < 8 then ''GRD-KO'' else flow1) (if nargin < 10 then False else lg) None
        = Inr (seg1, energy1, iter1, c1', c2')"
    and b: "GcChanVese img (rdivide lambda1 mu) (rdivide lambda2 mu) c1' c2'
          (if nargin < 12 then 0.001 else conv2) (if nargin < 14 then 10 else maxiter2)
          (if nargin < 7 then (if ndims = 2 then ''N16'' else ''N98'') else nb2)
          (if nargin < 9 then ''GRD-PRH'' else flow2) (if nargin < 10 then False else lg)
          (Some (band_mask GcDistTransform seg1 ?r))
        = Inr (seg2, energy2, iter2, fc1, fc2)"
    and c: "out = (seg2, energy2, iter1, iter2, fc1, fc2)"
    unfolding gc_chan_vese_two_stage_def Let_def
    by (simp only: error_bind_Inr split: if_splits) (auto simp: error_bind_Inr split: if_splits)
  have d: "\<forall>p<length seg1.
            (band_mask GcDistTransform seg1 ?r ! p = 2 \<longleftrightarrow> ?r < real (GcDistTransform seg1 False ''cityblock'' ! p))
          \<and> (band_mask GcDistTransform seg1 ?r ! p = 1 \<longleftrightarrow> ?r < real (GcDistTransform seg1 True ''cityblock'' ! p))
          \<and> (band_mask GcDistTransform seg1 ?r ! p = 3 \<longleftrightarrow>
                \<not> ?r < real (GcDistTransform seg1 False ''cityblock'' ! p)
              \<and> \<not> ?r < real (GcDistTransform seg1 True ''cityblock'' ! p))"
  proof (intro allI impI)
    fix p assume p: "p < length seg1"
    show "(band_mask GcDistTransform seg1 ?r ! p = 2 \<longleftrightarrow> ?r < real (GcDistTransform seg1 False ''cityblock'' ! p))
          \<and> (band_mask GcDistTransform seg1 ?r ! p = 1 \<longleftrightarrow> ?r < real (GcDistTransform seg1 True ''cityblock'' ! p))
          \<and> (band_mask GcDistTransform seg1 ?r ! p = 3 \<longleftrightarrow>
                \<not> ?r < real (GcDistTransform seg1 False ''cityblock'' ! p)
              \<and> \<not> ?r < real (GcDistTransform seg1 True ''cityblock'' ! p))"
      by (rule band_mask_exact[where dt = GcDistTransform, OF r0 p len zero])
  qed
  show ?thesis
    apply (rule exI[of _ ca], rule exI[of _ cb], rule exI[of _ seg1], rule exI[of _ energy1])
    apply (rule exI[of _ iter1], rule exI[of _ c1'], rule exI[of _ c2'])
    apply (rule exI[of _ "band_mask GcDistTransform seg1 ?r"])
    apply (rule exI[of _ seg2], rule exI[of _ energy2], rule exI[of _ iter2], rule exI[of _ fc1], rule exI[of _ fc2])
    apply (rule conjI, rule a)
    apply (rule conjI, rule refl)
    apply (rule conjI, rule length_band_mask)
    apply (rule conjI, rule d)
    apply (rule conjI, rule b)
    apply (rule c)
    done
qed

lemma C6_run:
  "gc_chan_vese_two_stage
       (\<lambda>img l1 l2 c1 c2 conv mi nb flow lg m.
          case m of None \<Rightarrow> Inr ([True, False], 0, 1, c1, c2)
                  | Some m \<Rightarrow> Inr (map (\<lambda>v. v = 2) m, 0, 1, c1, c2))
       (\<lambda>sg z metric. map (\<lambda>p. if sg ! p = z then 0 else 1) [0..<length sg])
       16 True 2 [0, 1] 1 1 1 0 ''N4'' ''N8'' ''GRD-KO'' ''GRD-PRH'' False 0.001 0.001 30 10 (Fin 0) (Fin 1)
     = Inr ([True, False], 0, 1, 1, Fin 0, Fin 1)"
  by (simp add: gc_chan_vese_two_stage_def error_bind_def band_mask_def assign_where_def rdivide_def
      upt_rec[of _ "numeral _"] numeral_2_eq_2)

theorem C6_two_stage_witness:
  "gc_chan_vese_two_stage
       (\<lambda>img l1 l2 c1 c2 conv mi nb flow lg m.
          case m of None \<Rightarrow> Inr ([True, False], 0, 1, c1, c2)
                  | Some m \<Rightarrow> Inr (map (\<lambda>v. v = 2) m, 0, 1, c1, c2))
       (\<lambda>sg z metric. map (\<lambda>p. if sg ! p = z then 0 else 1) [0..<length sg])
       16 True 2 [0, 1] 1 1 1 0 ''N4'' ''N8'' ''GRD-KO'' ''GRD-PRH'' False 0.001 0.001 30 10 (Fin 0) (Fin 1)
     = Inr ([True, False], 0, 1, 1, Fin 0, Fin 1)
   \<and> (\<exists>seg1 msk. msk = band_mask (\<lambda>sg z metric. map (\<lambda>p. if sg ! p = z then 0 else 1) [0..<length sg]) seg1 0
         \<and> length msk = length seg1
         \<and> (\<forall>p<length seg1. (msk ! p = 2 \<longleftrightarrow> 0 < real ((\<lambda>sg z metric. map (\<lambda>p. if sg ! p = z then 0 else 1) [0..<length sg]) seg1 False ''cityblock'' ! p))))"
proof -
  let ?G = "(\<lambda>img l1 l2 c1 c2 conv mi nb flow lg m.
          case m of None \<Rightarrow> Inr ([True, False], 0, 1, c1, c2)
                  | Some m \<Rightarrow> Inr (map (\<lambda>v. v = 2) m, 0, 1, c1, c2)) :: real list \<Rightarrow> mfloat \<Rightarrow> mfloat \<Rightarrow> mfloat \<Rightarrow> mfloat \<Rightarrow> real \<Rightarrow> real \<Rightarrow> string \<Rightarrow> string \<Rightarrow> bool
       \<Rightarrow> 8 word list option \<Rightarrow> string + chan_vese_out"
  let ?D = "(\<lambda>sg z metric. map (\<lambda>p. if sg ! p = z then 0 else 1) [0..<length sg]) :: bool list \<Rightarrow> bool \<Rightarrow> string \<Rightarrow> nat list"
  have rad: "(5::nat) \<le> 16 \<longrightarrow> (0::real) \<le> 0" by simp
  have len: "\<forall>sg z. length (?D sg z ''cityblock'') = length sg" by simp
  have zero: "\<forall>sg z p. p < length sg \<and> sg ! p = z \<longrightarrow> ?D sg z ''cityblock'' ! p = 0" by simp
  from C6_two_stage_mask[OF C6_run rad len zero]
  obtain seg1 msk where
      "msk = band_mask ?D seg1 (if (16::nat) < 5 then (if (2::nat) = 2 then 8 else 4) else 0)"
      "length msk = length seg1"
      "\<forall>p<length seg1.
            (msk ! p = 2 \<longleftrightarrow> (if (16::nat) < 5 then (if (2::nat) = 2 then 8 else 4) else 0)
                                < real (?D seg1 False ''cityblock'' ! p))
          \<and> (msk ! p = 1 \<longleftrightarrow> (if (16::nat) < 5 then (if (2::nat) = 2 then 8 else 4) else 0)
                                < real (?D seg1 True ''cityblock'' ! p))
          \<and> (msk ! p = 3 \<longleftrightarrow>
                \<not> (if (16::nat) < 5 then (if (2::nat) = 2 then 8 else 4) else 0)
                                < real (?D seg1 False ''cityblock'' ! p)
              \<and> \<not> (if (16::nat) < 5 then (if (2::nat) = 2 then 8 else 4) else 0)
                                < real (?D seg1 True ''cityblock'' ! p))"
    by (elim exE conjE)
  then have "msk = band_mask ?D seg1 0 \<and> length msk = length seg1
         \<and> (\<forall>p<length seg1. (msk ! p = 2 \<longleftrightarrow> 0 < real (?D seg1 False ''cityblock'' ! p)))"
    by simp
  then have "\<exists>seg1 msk. msk = band_mask ?D seg1 0
         \<and> length msk = length seg1
         \<and> (\<forall>p<length seg1. (msk ! p = 2 \<longleftrightarrow> 0 < real (?D seg1 False ''cityblock'' ! p)))"
    by (intro exI[of _ seg1] exI[of _ msk])
  then show ?thesis using C6_run by (intro conjI)
qed

text \<open>
  The claim as stated fails for a negative band radius. With the band radius \<open>- 1\<close>
  and a first stage that returns the two pixels \<open>[foreground, background]\<close> the mask is
  \<open>[1, 1]\<close>: the first pixel is not 2 although its distance 1 to the background
  exceeds \<open>- 1\<close> (its distance 0 to the foreground exceeds \<open>- 1\<close> too, and the second
  assignment overwrites the first), and the second stage runs on that mask.
\<close>

theorem C6_negative_radius_counterexample:
  "band_mask (\<lambda>sg z metric. map (\<lambda>p. if sg ! p = z then 0 else 1) [0..<length sg]) [True, False] (- 1) = [1, 1]
   \<and> - 1 < real ((\<lambda>sg z metric. map (\<lambda>p. if sg ! p = z then 0 else 1) [0..<length sg]) [True, False] False ''cityblock'' ! 0)
   \<and> gc_chan_vese_two_stage
       (\<lambda>img l1 l2 c1 c2 conv mi nb flow lg m.
          case m of None \<Rightarrow> Inr ([True, False], 0, 1, c1, c2)
                  | Some m \<Rightarrow> Inr (map (\<lambda>v. v = 2) m, 0, 1, c1, c2))
       (\<lambda>sg z metric. map (\<lambda>p. if sg ! p = z then 0 else 1) [0..<length sg])
       16 True 2 [0, 1] 1 1 1 (- 1) ''N4'' ''N8'' ''GRD-KO'' ''GRD-PRH'' False 0.001 0.001 30 10 (Fin 0) (Fin 1)
     = Inr ([False, False], 0, 1, 1, Fin 0, Fin 1)"
  by (simp add: gc_chan_vese_two_stage_def error_bind_def band_mask_def assign_where_def rdivide_def
      upt_rec[of _ "numeral _"] numeral_2_eq_2)

section \<open>The label read-back of \<^verbatim>\<open>GcChanVeseLab\<close>\<close>

lemma masked_labels_fold:
  "m \<le> length labels \<Longrightarrow>
   \<exists>l. fold (\<lambda>i (j, labels).
                  if msk ! i = MaskUnknown
                  then (j + 1, labels[i := NodeLabel j])
                  else (j, labels[i := iface ! i]))
            [0..<m] (0, labels) = (unknown_before msk m, l)
       \<and> length l = length labels
       \<and> (\<forall>i<m. l ! i = (if msk ! i = MaskUnknown then NodeLabel (unknown_before msk i) else iface ! i))"
proof (induction m)
  case 0
  then show ?case by (simp add: unknown_before_def)
next
  case (Suc m)
  then obtain l where l:
    "fold (\<lambda>i (j, labels).
                  if msk ! i = MaskUnknown
                  then (j + 1, labels[i := NodeLabel j])
                  else (j, labels[i := iface ! i]))
            [0..<m] (0, labels) = (unknown_before msk m, l)"
    "length l = length labels"
    "\<forall>i<m. l ! i = (if msk ! i = MaskUnknown then NodeLabel (unknown_before msk i) else iface ! i)"
    by fastforce
  have m: "m < length l" using Suc.prems l(2) by simp
  show ?case
  proof (cases "msk ! m = MaskUnknown")
    case True
    then have "unknown_before msk (Suc m) = unknown_before msk m + 1"
      by (simp add: unknown_before_def)
    then show ?thesis using True l m
      by (intro exI[of _ "l[m := NodeLabel (unknown_before msk m)]"])
         (auto simp: nth_list_update less_Suc_eq)
  next
    case False
    then have "unknown_before msk (Suc m) = unknown_before msk m"
      by (simp add: unknown_before_def)
    then show ?thesis using False l m
      by (intro exI[of _ "l[m := iface ! m]"]) (auto simp: nth_list_update less_Suc_eq)
  qed
qed

lemma masked_labels_nth:
  assumes "i < length labels"
  shows "masked_labels msk iface NodeLabel labels ! i
           = (if msk ! i = MaskUnknown then NodeLabel (unknown_before msk i) else iface ! i)"
  using masked_labels_fold[of "length labels" labels msk NodeLabel iface] assms
  by (auto simp: masked_labels_def)

lemma length_masked_labels: "length (masked_labels msk iface NodeLabel labels) = length labels"
  using masked_labels_fold[of "length labels" labels msk NodeLabel iface]
  by (auto simp: masked_labels_def)

lemma GetImage_Some:
  assumes "GetImage N cast mem mx = Some img" "length (mxDimensions mx) = N" "2 \<le> N"
    "length (mxData mx) = prod_list (mxDimensions mx)"
  shows "\<exists>r c rest. mxDimensions mx = r # c # rest \<and> 0 < r \<and> 0 < c
           \<and> Dimensions img = c # r # rest
           \<and> length (Elems img) = r * c * prod_list rest
           \<and> (\<forall>s<prod_list rest. \<forall>x<c. \<forall>y<r.
                 Elems img ! (s * (c * r) + x + y * c) = cast (mxData mx ! (s * (c * r) + x * r + y)))"
proof -
  obtain r c rest where d: "mxDimensions mx = r # c # rest"
    using assms(2,3) by (cases "mxDimensions mx"; cases "tl (mxDimensions mx)") auto
  have N: "N = Suc (Suc (length rest))" using assms(2) d by simp
  have "c * r \<noteq> 0"
  proof
    assume "c * r = 0"
    then have "GetImage N cast mem mx = None" by (simp add: GetImage_def d Let_def)
    then show False using assms(1) by simp
  qed
  then have rc: "0 < r" "0 < c" by auto
  have len: "length (mxData mx) = r * c * prod_list rest" using assms(4) d by simp
  have mx: "mx = \<lparr>mxDimensions = r # c # rest, mxData = mxData mx\<rparr>" using d by (cases mx) simp
  obtain img' where "GetImage N cast mem \<lparr>mxDimensions = r # c # rest, mxData = mxData mx\<rparr> = Some img'"
      "Dimensions img' = c # r # rest"
      "length (Elems img') = r * c * prod_list rest"
      "\<forall>s<prod_list rest. \<forall>x<c. \<forall>y<r.
         Elems img' ! (s * (c * r) + x + y * c) = cast (mxData mx ! (s * (c * r) + x * r + y))"
    using GetImage_spec[OF rc len N, of cast mem] by blast
  then show ?thesis using assms(1) d rc mx by (intro exI[of _ r] exI[of _ c] exI[of _ rest]) simp
qed

lemma mex_bind_Returns: "mex_bind m f = Returns y \<longleftrightarrow> (\<exists>x. m = Returns x \<and> f x = Returns y)"
  by (cases m) auto

lemma GetImage_mex_Returns: "GetImage_mex N mem mx = Returns img \<longleftrightarrow> GetImage N (\<lambda>v. v) mem mx = Some img"
  by (auto simp: GetImage_mex_def split: option.splits)

lemma SetImage_mex_Returns: "SetImage_mex img mx = Returns out \<longleftrightarrow> SetImage (\<lambda>v. v) img mx = Some out"
  by (auto simp: SetImage_mex_def split: option.splits)

lemma catch_Returns: "catch r = Returns v \<longleftrightarrow> r = Inr v"
  by (auto simp: catch_def split: sum.splits)

lemma Segment_ChanVeseLab_masked_Returns:
  assumes "Segment_ChanVeseLab N S Nb Compute memT memL mx_in mx_interface (Some mx_mask)
             l1 l2 c1 c2 conv max_iter str_nb = Returns out"
  shows "\<exists>img iface msk nb r.
           GetImage N (\<lambda>v. v) memT mx_in = Some img
         \<and> GetImage N (\<lambda>v. v) memL mx_interface = Some iface
         \<and> Dimensions iface = Dimensions img
         \<and> GetImage N (\<lambda>v. v) memL mx_mask = Some msk
         \<and> Dimensions msk = Dimensions img
         \<and> Compute img (Some msk) iface l1 l2 c1 c2 conv max_iter nb = Inr r
         \<and> SetImage (\<lambda>v. v)
              \<lparr>Dimensions = Dimensions img,
                 Elems = masked_labels (Elems msk) (Elems iface) (seg r)
                           (map memL [0..<prod_list (Dimensions img)])\<rparr>
              (mxCreateArray 0 (take N (mxDimensions mx_in))) = Some (plhs0 out)
         \<and> plhs2 out = real_of_int (max_iter_out r)"
  using assms unfolding Segment_ChanVeseLab_def
  by (auto simp: mex_bind_Returns GetImage_mex_Returns SetImage_mex_Returns catch_Returns Let_def
           split: if_splits option.splits) blast

text \<open>
  Claim C7. In the masked variant of \<^verbatim>\<open>GcChanVeseLab\<close> (a mask is passed and the call
  returns), for every position \<open>p\<close> of the MATLAB arrays: where the mask is not
  \<^verbatim>\<open>MaskUnknown\<close> the returned label field holds the initial label of that position;
  where it is \<^verbatim>\<open>MaskUnknown\<close> it holds a label \<^verbatim>\<open>mf.NodeLabel(j)\<close> read from the
  max-flow object after \<^verbatim>\<open>ComputeMasked\<close>. The returned field has the dimensions of the
  image.
\<close>

theorem C7_masked_labels_frame:
  assumes ret: "Segment_ChanVeseLab N S Nb Compute memT memL mx_in mx_interface (Some mx_mask)
             l1 l2 c1 c2 conv max_iter str_nb = Returns out"
    and N: "2 \<le> N"
    and wf_in: "length (mxDimensions mx_in) = N" "length (mxData mx_in) = prod_list (mxDimensions mx_in)"
    and wf_if: "length (mxDimensions mx_interface) = N"
               "length (mxData mx_interface) = prod_list (mxDimensions mx_interface)"
    and wf_mk: "length (mxDimensions mx_mask) = N"
               "length (mxData mx_mask) = prod_list (mxDimensions mx_mask)"
    and p: "p < length (mxData mx_mask)"
  shows "(mxData mx_mask ! p \<noteq> MaskUnknown \<longrightarrow> mxData (plhs0 out) ! p = mxData mx_interface ! p)
       \<and> (mxData mx_mask ! p = MaskUnknown \<longrightarrow>
            (\<exists>img msk iface nb r j. Compute img msk iface l1 l2 c1 c2 conv max_iter nb = Inr r
                \<and> mxData (plhs0 out) ! p = seg r j))
       \<and> mxDimensions (plhs0 out) = mxDimensions mx_in
       \<and> length (mxData (plhs0 out)) = length (mxData mx_mask)"
proof -
  obtain img iface msk nb res where s:
      "GetImage N (\<lambda>v. v) memT mx_in = Some img"
      "GetImage N (\<lambda>v. v) memL mx_interface = Some iface"
      "Dimensions iface = Dimensions img"
      "GetImage N (\<lambda>v. v) memL mx_mask = Some msk"
      "Dimensions msk = Dimensions img"
      "Compute img (Some msk) iface l1 l2 c1 c2 conv max_iter nb = Inr res"
      "SetImage (\<lambda>v. v)
              \<lparr>Dimensions = Dimensions img,
                 Elems = masked_labels (Elems msk) (Elems iface) (seg res)
                           (map memL [0..<prod_list (Dimensions img)])\<rparr>
              (mxCreateArray 0 (take N (mxDimensions mx_in))) = Some (plhs0 out)"
    using Segment_ChanVeseLab_masked_Returns[OF ret] by blast
  let ?labels = "masked_labels (Elems msk) (Elems iface) (seg res)
                   (map memL [0..<prod_list (Dimensions img)])"
  obtain r c rest where i: "mxDimensions mx_in = r # c # rest" "0 < r" "0 < c"
      "Dimensions img = c # r # rest"
    using GetImage_Some[OF s(1) wf_in(1) N wf_in(2)] by blast
  obtain r' c' rest' where f: "mxDimensions mx_interface = r' # c' # rest'"
      "Dimensions iface = c' # r' # rest'"
      "\<forall>s<prod_list rest'. \<forall>x<c'. \<forall>y<r'.
         Elems iface ! (s * (c' * r') + x + y * c') = mxData mx_interface ! (s * (c' * r') + x * r' + y)"
    using GetImage_Some[OF s(2) wf_if(1) N wf_if(2)] by blast
  obtain r'' c'' rest'' where m: "mxDimensions mx_mask = r'' # c'' # rest''"
      "Dimensions msk = c'' # r'' # rest''"
      "\<forall>s<prod_list rest''. \<forall>x<c''. \<forall>y<r''.
         Elems msk ! (s * (c'' * r'') + x + y * c'') = mxData mx_mask ! (s * (c'' * r'') + x * r'' + y)"
    using GetImage_Some[OF s(4) wf_mk(1) N wf_mk(2)] by blast
  have eqf: "r' = r" "c' = c" "rest' = rest" using f(2) i(4) s(3) by auto
  have eqm: "r'' = r" "c'' = c" "rest'' = rest" using m(2) i(4) s(5) by auto
  let ?K = "prod_list rest"
  have n: "prod_list (Dimensions img) = r * c * ?K" using i(4) by (simp add: mult_ac)
  have lab_len: "length ?labels = r * c * ?K"
    using n by (simp add: length_masked_labels)
  have tk: "take N (mxDimensions mx_in) = r # c # rest" using wf_in(1) i(1) by simp
  obtain dst where t:
      "SetImage (\<lambda>v. v) \<lparr>Dimensions = Dimensions img, Elems = ?labels\<rparr>
          (mxCreateArray 0 (take N (mxDimensions mx_in)))
        = Some ((mxCreateArray 0 (take N (mxDimensions mx_in)))\<lparr>mxData := dst\<rparr>)"
      "length dst = r * c * ?K"
      "\<forall>s<?K. \<forall>y<r. \<forall>x<c. dst ! (s * (r * c) + y + x * r) = ?labels ! (s * (r * c) + y * c + x)"
    using SetImage_spec[OF i(2,3), of "\<lparr>Dimensions = Dimensions img, Elems = ?labels\<rparr>" rest
        "mxCreateArray 0 (take N (mxDimensions mx_in))" "\<lambda>v. v"] i(4) lab_len tk
    by (auto simp: mxCreateArray_def)
  have out: "plhs0 out = \<lparr>mxDimensions = r # c # rest, mxData = dst\<rparr>"
    using s(7) t(1) tk by (simp add: mxCreateArray_def)
  have plen: "p < ?K * (r * c)" using p wf_mk(2) m(1) eqm by (simp add: mult_ac)
  then obtain sl x y where sxy: "sl < ?K" "x < c" "y < r" "p = sl * (r * c) + y + x * r"
    using cell_decompose[OF i(2,3)] by blast
  define g where "g = sl * (c * r) + x + y * c"
  have g1: "sl * (r * c) + y * c + x = g" by (simp add: g_def mult.commute)
  have g2: "sl * (c * r) + x * r + y = p" using sxy(4) by (simp add: mult.commute)
  have "x + y * c < c * r" using sxy by (intro cell_less)
  moreover have "Suc sl * (c * r) \<le> ?K * (c * r)" using sxy(1) by (intro mult_le_mono1) simp
  then have "sl * (c * r) + c * r \<le> ?K * (c * r)" by simp
  ultimately have "g < ?K * (c * r)" unfolding g_def by linarith
  then have gl: "g < r * c * ?K" by (simp add: mult_ac)
  have "dst ! (sl * (r * c) + y + x * r) = ?labels ! (sl * (r * c) + y * c + x)"
    using t(3) sxy(1-3) by blast
  then have dp: "dst ! p = ?labels ! g" by (simp only: g1 sxy(4))
  have "Elems msk ! (sl * (c * r) + x + y * c) = mxData mx_mask ! (sl * (c * r) + x * r + y)"
    using m(3) sxy(1-3) unfolding eqm by blast
  then have mg: "Elems msk ! g = mxData mx_mask ! p" by (simp only: g2 g_def)
  have "Elems iface ! (sl * (c * r) + x + y * c) = mxData mx_interface ! (sl * (c * r) + x * r + y)"
    using f(3) sxy(1-3) unfolding eqf by blast
  then have fg: "Elems iface ! g = mxData mx_interface ! p" by (simp only: g2 g_def)
  have lg: "?labels ! g = (if Elems msk ! g = MaskUnknown
                           then seg res (unknown_before (Elems msk) g) else Elems iface ! g)"
    using gl n by (intro masked_labels_nth) simp
  have a: "mxData mx_mask ! p \<noteq> MaskUnknown \<longrightarrow> mxData (plhs0 out) ! p = mxData mx_interface ! p"
    using out dp lg mg fg by simp
  have "mxData mx_mask ! p = MaskUnknown \<longrightarrow>
          mxData (plhs0 out) ! p = seg res (unknown_before (Elems msk) g)"
    using out dp lg mg by simp
  then have b: "mxData mx_mask ! p = MaskUnknown \<longrightarrow>
            (\<exists>img msk iface nb r j. Compute img msk iface l1 l2 c1 c2 conv max_iter nb = Inr r
                \<and> mxData (plhs0 out) ! p = seg r j)"
    using s(6) by blast
  have "mxDimensions (plhs0 out) = mxDimensions mx_in" using out i(1) by simp
  moreover have "length (mxData (plhs0 out)) = length (mxData mx_mask)"
    using out t(2) wf_mk(2) m(1) eqm by simp
  ultimately show ?thesis using a b by blast
qed

lemma C7_run:
  "Segment_ChanVeseLab 2 (\<lambda>i. i) (\<lambda>n b. Inr n)
       (\<lambda>img msk iface l1 l2 c1 c2 conv mi nb.
          Inr \<lparr>energy = 0, max_iter_out = 1, params_out = [0, 1], seg = (\<lambda>j. 7)\<rparr>)
       (\<lambda>_. 0) (\<lambda>_. 0)
       \<lparr>mxDimensions = [1, 2], mxData = [1, 2]\<rparr>
       \<lparr>mxDimensions = [1, 2], mxData = [5, 6]\<rparr>
       (Some \<lparr>mxDimensions = [1, 2], mxData = [1, 3]\<rparr>)
       1 1 0 1 0 10 ''N4''
     = Returns \<lparr>plhs0 = \<lparr>mxDimensions = [1, 2], mxData = [5, 7]\<rparr>, plhs1 = 0, plhs2 = 1,
                  plhs_rest = [0, 1]\<rparr>"
  by (simp add: Segment_ChanVeseLab_def GetImage_mex_def SetImage_mex_def GetImage_def GetImage_i_def
      GetImage_x_def GetImage_y_def SetImage_def SetImage_i_def SetImage_x_def SetImage_y_def
      Elements_def upt_rec[of _ "numeral _"] Segment_Neighbourhood_def atoi_def isspace_def isdigit_def
      catch_def masked_labels_def MaskUnknown_def mxCreateArray_def numeral_2_eq_2)

theorem C7_masked_labels_witness:
  "\<exists>out. Segment_ChanVeseLab 2 (\<lambda>i. i) (\<lambda>n b. Inr n)
       (\<lambda>img msk iface l1 l2 c1 c2 conv mi nb.
          Inr \<lparr>energy = 0, max_iter_out = 1, params_out = [0, 1], seg = (\<lambda>j. 7)\<rparr>)
       (\<lambda>_. 0) (\<lambda>_. 0)
       \<lparr>mxDimensions = [1, 2], mxData = [1, 2]\<rparr>
       \<lparr>mxDimensions = [1, 2], mxData = [5, 6]\<rparr>
       (Some \<lparr>mxDimensions = [1, 2], mxData = [1, 3]\<rparr>)
       1 1 0 1 0 10 ''N4'' = Returns out
     \<and> mxData (plhs0 out) ! 0 = 5
     \<and> mxDimensions (plhs0 out) = [1, 2]
     \<and> length (mxData (plhs0 out)) = 2"
proof -
  note t = C7_masked_labels_frame[OF C7_run, of 0]
  have "mxData (plhs0 \<lparr>plhs0 = \<lparr>mxDimensions = [1, 2], mxData = [5, 7 :: 8 word]\<rparr>, plhs1 = 0,
                          plhs2 = 1, plhs_rest = [0, 1]\<rparr>) ! 0 = 5
      \<and> mxDimensions (plhs0 \<lparr>plhs0 = \<lparr>mxDimensions = [1, 2], mxData = [5, 7 :: 8 word]\<rparr>,
                          plhs1 = 0, plhs2 = 1, plhs_rest = [0, 1]\<rparr>) = [1, 2]
      \<and> length (mxData (plhs0 \<lparr>plhs0 = \<lparr>mxDimensions = [1, 2], mxData = [5, 7 :: 8 word]\<rparr>,
                          plhs1 = 0, plhs2 = 1, plhs_rest = [0, 1]\<rparr>)) = 2"
    using t by (simp add: MaskUnknown_def)
  with C7_run show ?thesis by blast
qed

section \<open>The parameter checks of the entry points\<close>

lemma mexFunction_MumfordShah_rejects:
  assumes "length prhs = 7" "nlhs = 4" "reads_MumfordShah prhs kd lambda conv mi nb lg"
    and "Sd kd < 2 \<or> 254 < Sd kd \<or> lambda \<le> 0 \<or> Sd mi \<le> 0 \<or> conv < 0
          \<or> (mxGetNumberOfDimensions (prhs ! 0) \<noteq> 2 \<and> mxGetNumberOfDimensions (prhs ! 0) \<noteq> 3)"
  shows "\<exists>msg. mexFunction_MumfordShah Sd Seg nlhs prhs = mexErrMsgTxt msg
           \<and> msg \<in> {''Condition 1 < k < 255 not satisfied.'',
                     ''Parameters lambda and max_iter must be greater than zero.'',
                     conv_negative, only_2D_3D}"
  using assms unfolding mexFunction_MumfordShah_def reads_MumfordShah_def
  by (auto simp: Let_def)

lemma mexFunction_RoussonDeriche_rejects:
  assumes "length prhs = 7" "nlhs = 7" "reads_RoussonDeriche prhs lambda conv mi nb mf lg"
    and "lambda \<le> 0 \<or> Sd mi \<le> 0 \<or> conv < 0
          \<or> (mxGetNumberOfDimensions (prhs ! 0) \<noteq> 2 \<and> mxGetNumberOfDimensions (prhs ! 0) \<noteq> 3)"
  shows "\<exists>msg. mexFunction_RoussonDeriche Sd Seg nlhs prhs = mexErrMsgTxt msg
           \<and> msg \<in> {''Parameters lambda and max_iter must be greater than zero.'',
                     conv_negative, only_2D_3D}"
  using assms unfolding mexFunction_RoussonDeriche_def reads_RoussonDeriche_def
  by (auto simp: Let_def)

lemma mexFunction_ChanVeseLab_rejects:
  assumes "10 \<le> length prhs" "length prhs \<le> 11" "nlhs = 5"
    "reads_ChanVese prhs l1 l2 c1 c2 conv mi nb lg"
    and "l1 \<le> 0 \<or> l2 \<le> 0 \<or> Sd mi \<le> 0 \<or> conv < 0 \<or> c2 \<le> c1
          \<or> (length prhs = 11
              \<and> mxGetNumberOfDimensions (prhs ! 10) \<noteq> mxGetNumberOfDimensions (prhs ! 0))
          \<or> (mxGetNumberOfDimensions (prhs ! 0) \<noteq> 2 \<and> mxGetNumberOfDimensions (prhs ! 0) \<noteq> 3)"
  shows "\<exists>msg. mexFunction_ChanVeseLab Sd Seg nlhs prhs = mexErrMsgTxt msg \<and> msg \<in> ChanVese_messages"
  using assms unfolding mexFunction_ChanVeseLab_def reads_ChanVese_def ChanVese_messages_def
  by (auto simp: Let_def)

lemma mexFunction_ChanVeseTp_rejects:
  assumes "10 \<le> length prhs" "length prhs \<le> 11" "nlhs = 5"
    "reads_ChanVese prhs l1 l2 c1 c2 conv mi nb lg"
    and "l1 \<le> 0 \<or> l2 \<le> 0 \<or> Sd mi \<le> 0 \<or> conv < 0 \<or> c2 \<le> c1
          \<or> (length prhs = 11
              \<and> mxGetNumberOfDimensions (prhs ! 10) \<noteq> mxGetNumberOfDimensions (prhs ! 0))
          \<or> (mxGetNumberOfDimensions (prhs ! 0) \<noteq> 2 \<and> mxGetNumberOfDimensions (prhs ! 0) \<noteq> 3)"
  shows "\<exists>msg. mexFunction_ChanVeseTp Sd Seg nlhs prhs = mexErrMsgTxt msg \<and> msg \<in> ChanVese_messages"
  using assms unfolding mexFunction_ChanVeseTp_def reads_ChanVese_def ChanVese_messages_def
  by (auto simp: Let_def)

lemma GetImage_mex_well_formed:
  assumes "well_formed N mx"
  shows "\<exists>img. GetImage_mex N mem mx = Returns img
           \<and> Dimensions img = (mxDimensions mx ! 1) # (mxDimensions mx ! 0) # drop 2 (mxDimensions mx)"
proof -
  obtain r c rest where d: "mxDimensions mx = r # c # rest"
    using assms unfolding well_formed_def
    by (cases "mxDimensions mx"; cases "tl (mxDimensions mx)") auto
  have h: "0 < r" "0 < c" "length (mxData mx) = r * c * prod_list rest" "N = Suc (Suc (length rest))"
    using assms d unfolding well_formed_def by auto
  have mx: "mx = \<lparr>mxDimensions = r # c # rest, mxData = mxData mx\<rparr>" using d by (cases mx) simp
  from GetImage_spec[OF h, of "\<lambda>v. v" mem] mx
  obtain img where "GetImage N (\<lambda>v. v) mem mx = Some img" "Dimensions img = c # r # rest"
    by auto
  then show ?thesis using d by (simp add: GetImage_mex_def)
qed

lemma swapped_dims_eq:
  assumes "well_formed N a" "well_formed N b"
  shows "(mxDimensions a ! 1) # (mxDimensions a ! 0) # drop 2 (mxDimensions a)
         = (mxDimensions b ! 1) # (mxDimensions b ! 0) # drop 2 (mxDimensions b)
         \<longleftrightarrow> mxDimensions a = mxDimensions b"
proof -
  obtain r c rest where d: "mxDimensions a = r # c # rest"
    using assms(1) unfolding well_formed_def
    by (cases "mxDimensions a"; cases "tl (mxDimensions a)") auto
  obtain r' c' rest' where d': "mxDimensions b = r' # c' # rest'"
    using assms(2) unfolding well_formed_def
    by (cases "mxDimensions b"; cases "tl (mxDimensions b)") auto
  show ?thesis by (auto simp: d d')
qed

lemma Segment_ChanVeseLab_mask_mismatch:
  assumes "well_formed N mx_in" "well_formed N mx_interface" "well_formed N mx_mask"
    "mxDimensions mx_interface = mxDimensions mx_in" "mxDimensions mx_mask \<noteq> mxDimensions mx_in"
  shows "Segment_ChanVeseLab N S Nb Compute memT memL mx_in mx_interface (Some mx_mask)
           l1 l2 c1 c2 conv max_iter str_nb = mexErrMsgTxt ''Mask and image must have the same dimensions.''"
proof -
  obtain img where i: "GetImage_mex N memT mx_in = Returns img"
      "Dimensions img = (mxDimensions mx_in ! 1) # (mxDimensions mx_in ! 0) # drop 2 (mxDimensions mx_in)"
    using GetImage_mex_well_formed[OF assms(1)] by blast
  obtain iface where f: "GetImage_mex N memL mx_interface = Returns iface"
      "Dimensions iface = (mxDimensions mx_interface ! 1) # (mxDimensions mx_interface ! 0)
                            # drop 2 (mxDimensions mx_interface)"
    using GetImage_mex_well_formed[OF assms(2)] by blast
  obtain msk where m: "GetImage_mex N memL mx_mask = Returns msk"
      "Dimensions msk = (mxDimensions mx_mask ! 1) # (mxDimensions mx_mask ! 0)
                            # drop 2 (mxDimensions mx_mask)"
    using GetImage_mex_well_formed[OF assms(3)] by blast
  have e1: "Dimensions iface = Dimensions img" using i(2) f(2) assms(4) by simp
  have e2: "Dimensions msk \<noteq> Dimensions img"
    using swapped_dims_eq[OF assms(3) assms(1)] assms(5) i(2) m(2) by simp
  show ?thesis
    unfolding Segment_ChanVeseLab_def by (simp add: i(1) f(1) m(1) e1 e2)
qed

lemma Segment_ChanVeseTp_mask_mismatch:
  assumes "well_formed N mx_in" "well_formed N mx_interface" "well_formed N mx_mask"
    "mxDimensions mx_interface = mxDimensions mx_in" "mxDimensions mx_mask \<noteq> mxDimensions mx_in"
  shows "Segment_ChanVeseTp N S Nb Compute memT memB memM mx_in mx_interface (Some mx_mask)
           l1 l2 c1 c2 conv max_iter str_nb = mexErrMsgTxt ''Mask and image must have the same dimensions.''"
proof -
  obtain img where i: "GetImage_mex N memT mx_in = Returns img"
      "Dimensions img = (mxDimensions mx_in ! 1) # (mxDimensions mx_in ! 0) # drop 2 (mxDimensions mx_in)"
    using GetImage_mex_well_formed[OF assms(1)] by blast
  obtain iface where f: "GetImage_mex N memB mx_interface = Returns iface"
      "Dimensions iface = (mxDimensions mx_interface ! 1) # (mxDimensions mx_interface ! 0)
                            # drop 2 (mxDimensions mx_interface)"
    using GetImage_mex_well_formed[OF assms(2)] by blast
  obtain msk where m: "GetImage_mex N memM mx_mask = Returns msk"
      "Dimensions msk = (mxDimensions mx_mask ! 1) # (mxDimensions mx_mask ! 0)
                            # drop 2 (mxDimensions mx_mask)"
    using GetImage_mex_well_formed[OF assms(3)] by blast
  have e1: "Dimensions iface = Dimensions img" using i(2) f(2) assms(4) by simp
  have e2: "Dimensions msk \<noteq> Dimensions img"
    using swapped_dims_eq[OF assms(3) assms(1)] assms(5) i(2) m(2) by simp
  show ?thesis
    unfolding Segment_ChanVeseTp_def by (simp add: i(1) f(1) m(1) e1 e2)
qed

text \<open>
  Claim C4. Once the arguments have been read (they have the classes the readers ask
  for), every entry point leaves through \<^verbatim>\<open>mexErrMsgTxt\<close> with one of its messages,
  whatever \<^verbatim>\<open>Segment\<close> would do (it is not called): \<^verbatim>\<open>GcMumfordShah\<close> when \<open>k < 2\<close>
  or \<open>k > 254\<close>, every driver when a \<open>\<lambda>\<close> is not positive, \<^verbatim>\<open>max_iter\<close> is not
  positive or the convergence bound is negative, the Chan-Vese drivers when
  \<open>c1 \<ge> c2\<close> or the mask has another number of dimensions than the image, every driver
  when the image is neither 2-D nor 3-D. \<open>k\<close> and \<^verbatim>\<open>max_iter\<close> are the values after the
  conversion to \<^verbatim>\<open>Gc::Size\<close>. A mask of the image's number of dimensions but of another
  shape is refused by \<^verbatim>\<open>Segment\<close> of the Chan-Vese drivers, before the neighbourhood
  is built and the segmentation is called, provided that the image, the initial labelling
  and the mask have at least one row and one column.
\<close>

theorem C4_entry_points_reject:
  "(length prhs1 = 7 \<and> nlhs1 = 4 \<and> reads_MumfordShah prhs1 kd1 lambda1 conv1 mi1 nb1 lg1
      \<and> (Sd1 kd1 < 2 \<or> 254 < Sd1 kd1 \<or> lambda1 \<le> 0 \<or> Sd1 mi1 \<le> 0 \<or> conv1 < 0
          \<or> (mxGetNumberOfDimensions (prhs1 ! 0) \<noteq> 2 \<and> mxGetNumberOfDimensions (prhs1 ! 0) \<noteq> 3))
     \<longrightarrow> (\<exists>msg. mexFunction_MumfordShah Sd1 Seg1 nlhs1 prhs1 = mexErrMsgTxt msg
           \<and> msg \<in> {''Condition 1 < k < 255 not satisfied.'',
                     ''Parameters lambda and max_iter must be greater than zero.'',
                     conv_negative, only_2D_3D}))
   \<and> (length prhs2 = 7 \<and> nlhs2 = 7 \<and> reads_RoussonDeriche prhs2 lambda2 conv2 mi2 nb2 mf2 lg2
      \<and> (lambda2 \<le> 0 \<or> Sd2 mi2 \<le> 0 \<or> conv2 < 0
          \<or> (mxGetNumberOfDimensions (prhs2 ! 0) \<noteq> 2 \<and> mxGetNumberOfDimensions (prhs2 ! 0) \<noteq> 3))
     \<longrightarrow> (\<exists>msg. mexFunction_RoussonDeriche Sd2 Seg2 nlhs2 prhs2 = mexErrMsgTxt msg
           \<and> msg \<in> {''Parameters lambda and max_iter must be greater than zero.'',
                     conv_negative, only_2D_3D}))
   \<and> (10 \<le> length prhs3 \<and> length prhs3 \<le> 11 \<and> nlhs3 = 5
      \<and> reads_ChanVese prhs3 l13 l23 c13 c23 conv3 mi3 nb3 lg3
      \<and> (l13 \<le> 0 \<or> l23 \<le> 0 \<or> Sd3 mi3 \<le> 0 \<or> conv3 < 0 \<or> c23 \<le> c13
          \<or> (length prhs3 = 11
              \<and> mxGetNumberOfDimensions (prhs3 ! 10) \<noteq> mxGetNumberOfDimensions (prhs3 ! 0))
          \<or> (mxGetNumberOfDimensions (prhs3 ! 0) \<noteq> 2 \<and> mxGetNumberOfDimensions (prhs3 ! 0) \<noteq> 3))
     \<longrightarrow> (\<exists>msg. mexFunction_ChanVeseLab Sd3 Seg3 nlhs3 prhs3 = mexErrMsgTxt msg
           \<and> msg \<in> ChanVese_messages))
   \<and> (10 \<le> length prhs4 \<and> length prhs4 \<le> 11 \<and> nlhs4 = 5
      \<and> reads_ChanVese prhs4 l14 l24 c14 c24 conv4 mi4 nb4 lg4
      \<and> (l14 \<le> 0 \<or> l24 \<le> 0 \<or> Sd4 mi4 \<le> 0 \<or> conv4 < 0 \<or> c24 \<le> c14
          \<or> (length prhs4 = 11
              \<and> mxGetNumberOfDimensions (prhs4 ! 10) \<noteq> mxGetNumberOfDimensions (prhs4 ! 0))
          \<or> (mxGetNumberOfDimensions (prhs4 ! 0) \<noteq> 2 \<and> mxGetNumberOfDimensions (prhs4 ! 0) \<noteq> 3))
     \<longrightarrow> (\<exists>msg. mexFunction_ChanVeseTp Sd4 Seg4 nlhs4 prhs4 = mexErrMsgTxt msg
           \<and> msg \<in> ChanVese_messages))
   \<and> (well_formed N5 mx_in5 \<and> well_formed N5 mx_interface5 \<and> well_formed N5 mx_mask5
      \<and> mxDimensions mx_interface5 = mxDimensions mx_in5
      \<and> mxDimensions mx_mask5 \<noteq> mxDimensions mx_in5
     \<longrightarrow> Segment_ChanVeseLab N5 S5 Nb5 Compute5 memT5 memL5 mx_in5 mx_interface5 (Some mx_mask5)
           l15 l25 c15 c25 conv5 max_iter5 str_nb5
         = mexErrMsgTxt ''Mask and image must have the same dimensions.'')
   \<and> (well_formed N6 mx_in6 \<and> well_formed N6 mx_interface6 \<and> well_formed N6 mx_mask6
      \<and> mxDimensions mx_interface6 = mxDimensions mx_in6
      \<and> mxDimensions mx_mask6 \<noteq> mxDimensions mx_in6
     \<longrightarrow> Segment_ChanVeseTp N6 S6 Nb6 Compute6 memT6 memB6 memM6 mx_in6 mx_interface6 (Some mx_mask6)
           l16 l26 c16 c26 conv6 max_iter6 str_nb6
         = mexErrMsgTxt ''Mask and image must have the same dimensions.'')"
  apply (intro conjI impI)
  subgoal by (elim conjE) (rule mexFunction_MumfordShah_rejects)
  subgoal by (elim conjE) (rule mexFunction_RoussonDeriche_rejects)
  subgoal by (elim conjE) (rule mexFunction_ChanVeseLab_rejects)
  subgoal by (elim conjE) (rule mexFunction_ChanVeseTp_rejects)
  subgoal by (elim conjE) (rule Segment_ChanVeseLab_mask_mismatch)
  subgoal by (elim conjE) (rule Segment_ChanVeseTp_mask_mismatch)
  done

theorem C4_entry_points_witness:
  "reads_MumfordShah
      [mxDouble \<lparr>mxDimensions = [1, 1], mxData = [0]\<rparr>, mxDouble \<lparr>mxDimensions = [1, 1], mxData = [1]\<rparr>,
       mxDouble \<lparr>mxDimensions = [1, 1], mxData = [1]\<rparr>, mxDouble \<lparr>mxDimensions = [1, 1], mxData = [0]\<rparr>,
       mxDouble \<lparr>mxDimensions = [1, 1], mxData = [10]\<rparr>, mxChar ''N4'',
       mxLogical \<lparr>mxDimensions = [1, 1], mxData = [False]\<rparr>] 1 1 0 10 ''N4'' False
   \<and> (\<exists>msg. mexFunction_MumfordShah (\<lambda>x. \<lfloor>x\<rfloor>) (\<lambda>N a k l c m nb. Crash) 4
      [mxDouble \<lparr>mxDimensions = [1, 1], mxData = [0]\<rparr>, mxDouble \<lparr>mxDimensions = [1, 1], mxData = [1]\<rparr>,
       mxDouble \<lparr>mxDimensions = [1, 1], mxData = [1]\<rparr>, mxDouble \<lparr>mxDimensions = [1, 1], mxData = [0]\<rparr>,
       mxDouble \<lparr>mxDimensions = [1, 1], mxData = [10]\<rparr>, mxChar ''N4'',
       mxLogical \<lparr>mxDimensions = [1, 1], mxData = [False]\<rparr>] = mexErrMsgTxt msg
       \<and> msg \<in> {''Condition 1 < k < 255 not satisfied.'',
                 ''Parameters lambda and max_iter must be greater than zero.'',
                 conv_negative, only_2D_3D})
   \<and> well_formed 2 \<lparr>mxDimensions = [1, 2], mxData = [5, 6 :: 8 word]\<rparr>
   \<and> well_formed 2 \<lparr>mxDimensions = [2, 1], mxData = [1, 3 :: 8 word]\<rparr>
   \<and> Segment_ChanVeseLab 2 (\<lambda>i. i) (\<lambda>n b. Inr n)
       (\<lambda>img msk iface l1 l2 c1 c2 conv mi nb.
          Inr \<lparr>energy = 0, max_iter_out = 1, params_out = [0, 1], seg = (\<lambda>j. 7)\<rparr>)
       (\<lambda>_. 0) (\<lambda>_. 0)
       \<lparr>mxDimensions = [1, 2], mxData = [1, 2]\<rparr>
       \<lparr>mxDimensions = [1, 2], mxData = [5, 6]\<rparr>
       (Some \<lparr>mxDimensions = [2, 1], mxData = [1, 3]\<rparr>)
       1 1 0 1 0 10 ''N4'' = mexErrMsgTxt ''Mask and image must have the same dimensions.''"
proof -
  let ?prhs = "[mxDouble \<lparr>mxDimensions = [1, 1], mxData = [0]\<rparr>, mxDouble \<lparr>mxDimensions = [1, 1], mxData = [1]\<rparr>,
       mxDouble \<lparr>mxDimensions = [1, 1], mxData = [1]\<rparr>, mxDouble \<lparr>mxDimensions = [1, 1], mxData = [0]\<rparr>,
       mxDouble \<lparr>mxDimensions = [1, 1], mxData = [10]\<rparr>, mxChar ''N4'',
       mxLogical \<lparr>mxDimensions = [1, 1], mxData = [False]\<rparr>]"
  have r: "reads_MumfordShah ?prhs 1 1 0 10 ''N4'' False"
    by (simp add: reads_MumfordShah_def GetNumber_def GetString_def GetLogical_def)
  have p: "length ?prhs = 7 \<and> (4::nat) = 4 \<and> reads_MumfordShah ?prhs 1 1 0 10 ''N4'' False
      \<and> (\<lfloor>1::real\<rfloor> < 2 \<or> 254 < \<lfloor>1::real\<rfloor> \<or> (1::real) \<le> 0 \<or> \<lfloor>10::real\<rfloor> \<le> 0 \<or> (0::real) < 0
          \<or> (mxGetNumberOfDimensions (?prhs ! 0) \<noteq> 2 \<and> mxGetNumberOfDimensions (?prhs ! 0) \<noteq> 3))"
    using r by simp
  have w: "well_formed 2 \<lparr>mxDimensions = [1, 2], mxData = [1, 2 :: real]\<rparr>"
      "well_formed 2 \<lparr>mxDimensions = [1, 2], mxData = [5, 6 :: 8 word]\<rparr>"
      "well_formed 2 \<lparr>mxDimensions = [2, 1], mxData = [1, 3 :: 8 word]\<rparr>"
    by (simp_all add: well_formed_def)
  have q: "well_formed 2 \<lparr>mxDimensions = [1, 2], mxData = [1, 2 :: real]\<rparr>
      \<and> well_formed 2 \<lparr>mxDimensions = [1, 2], mxData = [5, 6 :: 8 word]\<rparr>
      \<and> well_formed 2 \<lparr>mxDimensions = [2, 1], mxData = [1, 3 :: 8 word]\<rparr>
      \<and> mxDimensions \<lparr>mxDimensions = [1, 2], mxData = [5, 6 :: 8 word]\<rparr>
          = mxDimensions \<lparr>mxDimensions = [1, 2], mxData = [1, 2 :: real]\<rparr>
      \<and> mxDimensions \<lparr>mxDimensions = [2, 1], mxData = [1, 3 :: 8 word]\<rparr>
          \<noteq> mxDimensions \<lparr>mxDimensions = [1, 2], mxData = [1, 2 :: real]\<rparr>"
    using w by simp
  note t = C4_entry_points_reject[where ?Sd1.0 = "\<lambda>x. \<lfloor>x\<rfloor>"]
  note t1 = t[THEN conjunct1, rule_format, OF p]
  note t5 = t[THEN conjunct2, THEN conjunct2, THEN conjunct2, THEN conjunct2, THEN conjunct1,
      rule_format, OF q]
  show ?thesis using r w t1 t5 by blast
qed

text \<open>
  The claim as stated fails for a mask without rows. \<^verbatim>\<open>GcChanVeseLab\<close> called with a
  \<open>1 \<times> 1\<close> image, \<open>1 \<times> 1\<close> labels, valid parameters and the \<open>0 \<times> 1\<close> mask
  \<^verbatim>\<open>zeros(0,1,'uint8')\<close> passes the checks of \<^verbatim>\<open>mexFunction\<close> (the mask is 2-D and of
  class \<^verbatim>\<open>uint8\<close>); \<^verbatim>\<open>Segment\<close> converts the mask with \<^verbatim>\<open>GetImage\<close> before it
  compares the dimensions, and \<^verbatim>\<open>GetImage\<close> divides by \<^verbatim>\<open>slice_sz = 0\<close>: the run ends
  in a crash, not in the message that the mask and the image must have the same
  dimensions.
\<close>

theorem C4_empty_mask_counterexample:
  "mexFunction_ChanVeseLab (\<lambda>x. \<lfloor>x\<rfloor>)
      (\<lambda>N. Segment_ChanVeseLab N (\<lambda>i. i) (\<lambda>n b. Inr n)
         (\<lambda>img msk iface l1 l2 c1 c2 conv mi nb.
            Inr \<lparr>energy = 0, max_iter_out = 1, params_out = [0, 1], seg = (\<lambda>j. 7)\<rparr>)
         (\<lambda>_. 0) (\<lambda>_. 0)) 5
      [mxDouble \<lparr>mxDimensions = [1, 1], mxData = [1]\<rparr>,
       mxUint8 \<lparr>mxDimensions = [1, 1], mxData = [5]\<rparr>,
       mxDouble \<lparr>mxDimensions = [1, 1], mxData = [1]\<rparr>,
       mxDouble \<lparr>mxDimensions = [1, 1], mxData = [1]\<rparr>,
       mxDouble \<lparr>mxDimensions = [1, 1], mxData = [0]\<rparr>,
       mxDouble \<lparr>mxDimensions = [1, 1], mxData = [1]\<rparr>,
       mxDouble \<lparr>mxDimensions = [1, 1], mxData = [0]\<rparr>,
       mxDouble \<lparr>mxDimensions = [1, 1], mxData = [10]\<rparr>,
       mxChar ''N4'',
       mxLogical \<lparr>mxDimensions = [1, 1], mxData = [False]\<rparr>,
       mxUint8 \<lparr>mxDimensions = [0, 1], mxData = []\<rparr>]
   = Crash"
  by (simp add: mexFunction_ChanVeseLab_def GetNumber_def GetString_def GetLogical_def uint8_data_def
      Segment_ChanVeseLab_def GetImage_mex_def GetImage_def GetImage_i_def GetImage_x_def GetImage_y_def
      Elements_def upt_rec[of _ "numeral _"] numeral_2_eq_2)

section \<open>The iterations output of the drivers\<close>

declare outer_loop.simps [simp del]

lemma converged_at_Suc: "converged_at body s0 (Suc i) = snd (body (iterate_body body i s0))"
  by (simp add: converged_at_def)

lemma outer_loop_spec:
  "outer_loop body M i (iterate_body body i s0) = (n, s) \<Longrightarrow>
     i < n \<and> s = iterate_body body n s0
     \<and> (\<forall>k. i < k \<and> k < n \<longrightarrow> \<not> converged_at body s0 k \<and> k < M)
     \<and> (converged_at body s0 n \<or> M \<le> n)"
proof (induction "M - i" arbitrary: i rule: less_induct)
  case less
  obtain s' cv where b: "body (iterate_body body i s0) = (s', cv)" by (cases "body (iterate_body body i s0)")
  have s': "s' = iterate_body body (Suc i) s0" and cv: "cv = converged_at body s0 (Suc i)"
    using b by (simp_all add: converged_at_Suc)
  show ?case
  proof (cases "cv \<or> M \<le> Suc i")
    case True
    then have "outer_loop body M i (iterate_body body i s0) = (Suc i, s')"
      by (subst outer_loop.simps) (simp add: b)
    then have "n = Suc i" "s = s'" using less.prems by simp_all
    then show ?thesis using True s' cv by auto
  next
    case False
    then have "outer_loop body M i (iterate_body body i s0) = outer_loop body M (Suc i) s'"
      by (subst outer_loop.simps) (simp add: b)
    then have r: "outer_loop body M (Suc i) (iterate_body body (Suc i) s0) = (n, s)"
      using less.prems s' by simp
    have "M - Suc i < M - i" using False by arith
    from less.hyps[OF this r]
    have ih: "Suc i < n" "s = iterate_body body n s0"
        "\<forall>k. Suc i < k \<and> k < n \<longrightarrow> \<not> converged_at body s0 k \<and> k < M"
        "converged_at body s0 n \<or> M \<le> n"
      by blast+
    have "\<forall>k. i < k \<and> k < n \<longrightarrow> \<not> converged_at body s0 k \<and> k < M"
    proof (intro allI impI)
      fix k assume k: "i < k \<and> k < n"
      show "\<not> converged_at body s0 k \<and> k < M"
      proof (cases "k = Suc i")
        case True then show ?thesis using False cv by simp
      next
        case False then show ?thesis using k ih(3) by simp
      qed
    qed
    then show ?thesis using ih by simp
  qed
qed

lemma outer_loop_iterations:
  fixes body :: "'s \<Rightarrow> 's \<times> bool"
  shows "1 \<le> fst (outer_loop body M 0 s0)
     \<and> snd (outer_loop body M 0 s0) = iterate_body body (fst (outer_loop body M 0 s0)) s0
     \<and> (\<forall>k. 1 \<le> k \<and> k < fst (outer_loop body M 0 s0) \<longrightarrow> \<not> converged_at body s0 k \<and> k < M)
     \<and> (converged_at body s0 (fst (outer_loop body M 0 s0)) \<or> M \<le> fst (outer_loop body M 0 s0))
     \<and> (\<forall>k. 1 \<le> k \<and> k < M \<and> converged_at body s0 k \<longrightarrow> fst (outer_loop body M 0 s0) < M)"
proof -
  obtain n s where r: "outer_loop body M 0 s0 = (n, s)" by (cases "outer_loop body M 0 s0")
  then have "outer_loop body M 0 (iterate_body body 0 s0) = (n, s)" by simp
  from outer_loop_spec[OF this]
  have a: "0 < n" "s = iterate_body body n s0"
      "\<forall>k. 0 < k \<and> k < n \<longrightarrow> \<not> converged_at body s0 k \<and> k < M"
      "converged_at body s0 n \<or> M \<le> n"
    by blast+
  have "\<forall>k. 1 \<le> k \<and> k < M \<and> converged_at body s0 k \<longrightarrow> n < M"
  proof (intro allI impI)
    fix k assume k: "1 \<le> k \<and> k < M \<and> converged_at body s0 k"
    have "\<not> k < n" using a(3) k by auto
    then show "n < M" using k by simp
  qed
  then show ?thesis using a r by (simp add: Suc_le_eq)
qed

lemma spec_Compute_max_iter:
  "max_iter_out (spec_Compute body result s0 max_iter) = int (fst (outer_loop body (nat max_iter) 0 s0))"
  by (simp add: spec_Compute_def split: prod.splits)

lemma Segment_ChanVeseLab_iter:
  assumes "Segment_ChanVeseLab N S Nb Compute memT memL mx_in mx_interface mx_mask
             l1 l2 c1 c2 conv max_iter str_nb = Returns out"
  shows "\<exists>img msk iface nb r. Compute img msk iface l1 l2 c1 c2 conv max_iter nb = Inr r
            \<and> plhs2 out = real_of_int (max_iter_out r)"
  using assms unfolding Segment_ChanVeseLab_def
  by (auto simp: mex_bind_Returns catch_Returns split: if_splits option.splits) blast+

lemma Segment_ChanVeseTp_iter:
  assumes "Segment_ChanVeseTp N S Nb Compute memT memB memM mx_in mx_interface mx_mask
             l1 l2 c1 c2 conv max_iter str_nb = Returns out"
  shows "\<exists>img msk iface nb r. Compute img msk iface l1 l2 c1 c2 conv max_iter nb = Inr r
            \<and> plhs2 out = real_of_int (max_iter_out r)"
  using assms unfolding Segment_ChanVeseTp_def
  by (auto simp: mex_bind_Returns catch_Returns split: if_splits option.splits) blast+

lemma Segment_RoussonDeriche_iter:
  assumes "Segment_RoussonDeriche N S Nb InitialEstimate Compute memT mx_in
             lambda conv max_iter str_nb str_mf = Returns out"
  shows "\<exists>img par nb mf r. Compute img lambda par conv max_iter nb mf = Inr r
            \<and> plhs2 out = real_of_int (max_iter_out r)"
  using assms unfolding Segment_RoussonDeriche_def
  by (auto simp: mex_bind_Returns catch_Returns split: if_splits option.splits) blast+

lemma Segment_MumfordShah_iter:
  assumes "Segment_MumfordShah N S Nb Lloyd ComputePiecewiseConstant memT mx_in
             k lambda conv max_iter str_nb = Returns out"
  shows "\<exists>img c nb r. ComputePiecewiseConstant img k lambda c conv max_iter nb = Inr r
            \<and> plhs2 out = real_of_int (max_iter_out r)"
  using assms unfolding Segment_MumfordShah_def
  by (auto simp: mex_bind_Returns catch_Returns split: if_splits option.splits) blast+

lemma SetImage_mex_nonempty:
  "Dimensions a ! 0 * Dimensions a ! 1 \<noteq> 0 \<Longrightarrow> \<exists>out. SetImage_mex a mx = Returns out"
  by (simp add: SetImage_mex_def SetImage_def Let_def split: prod.splits)

lemma spec_routine_out:
  "\<exists>r. spec_routine setup args max_iter = Inr r
       \<and> max_iter_out r = int (iterations (setup args) max_iter)
       \<and> seg r = seg_of (setup args) max_iter"
  by (cases "setup args") (auto simp: spec_routine_def iterations_def seg_of_def spec_Compute_def split: prod.splits)

lemma well_formed_dims:
  assumes "well_formed N mx"
  shows "((mxDimensions mx ! 1) # (mxDimensions mx ! 0) # drop 2 (mxDimensions mx)) ! 0
         * ((mxDimensions mx ! 1) # (mxDimensions mx ! 0) # drop 2 (mxDimensions mx)) ! 1 \<noteq> 0"
  using assms by (simp add: well_formed_def)

lemma mask_step:
  assumes wi: "well_formed N mx_in"
    and mk: "mask_ok N mx_in mx_mask"
    and i: "Dimensions img = (mxDimensions mx_in ! 1) # (mxDimensions mx_in ! 0) # drop 2 (mxDimensions mx_in)"
  shows "\<exists>msk. (case mx_mask of
                 None \<Rightarrow> Returns None
               | Some m \<Rightarrow>
                   mex_bind (GetImage_mex N mem m) (\<lambda>msk.
                   if Dimensions msk \<noteq> Dimensions img
                   then mexErrMsgTxt ''Mask and image must have the same dimensions.''
                   else Returns (Some msk))) = Returns msk
           \<and> map_option (GetImage_mex N mem) mx_mask = map_option Returns msk"
proof (cases mx_mask)
  case None
  then show ?thesis by simp
next
  case (Some mm)
  then have w: "well_formed N mm" and d: "mxDimensions mm = mxDimensions mx_in"
    using mk by (simp_all add: mask_ok_def)
  obtain k where k: "GetImage_mex N mem mm = Returns k"
    "Dimensions k = (mxDimensions mm ! 1) # (mxDimensions mm ! 0) # drop 2 (mxDimensions mm)"
    using GetImage_mex_well_formed[OF w] by blast
  have "Dimensions k = Dimensions img" using k(2) i d by simp
  then show ?thesis using Some k(1) by simp
qed

lemma Segment_ChanVeseLab_total:
  assumes wi: "well_formed N mx_in" and wf: "well_formed N mx_interface"
    and df: "mxDimensions mx_interface = mxDimensions mx_in"
    and mk: "mask_ok N mx_in mx_mask"
    and nb: "Segment_Neighbourhood S Nb str_nb = Some (Inr nb)"
    and C: "\<And>img msk iface. \<exists>r. Compute img msk iface l1 l2 c1 c2 conv max_iter nb = Inr r
               \<and> max_iter_out r = int (cnt img msk iface)"
  shows "\<exists>out img msk iface.
           Segment_ChanVeseLab N S Nb Compute memT memL mx_in mx_interface mx_mask
             l1 l2 c1 c2 conv max_iter str_nb = Returns out
         \<and> plhs2 out = real (cnt img msk iface)
         \<and> GetImage_mex N memT mx_in = Returns img
         \<and> GetImage_mex N memL mx_interface = Returns iface
         \<and> map_option (GetImage_mex N memL) mx_mask = map_option Returns msk"
proof -
  obtain img where i: "GetImage_mex N memT mx_in = Returns img"
      "Dimensions img = (mxDimensions mx_in ! 1) # (mxDimensions mx_in ! 0) # drop 2 (mxDimensions mx_in)"
    using GetImage_mex_well_formed[OF wi] by blast
  obtain iface where f: "GetImage_mex N memL mx_interface = Returns iface"
      "Dimensions iface = (mxDimensions mx_interface ! 1) # (mxDimensions mx_interface ! 0)
                            # drop 2 (mxDimensions mx_interface)"
    using GetImage_mex_well_formed[OF wf] by blast
  have e1: "Dimensions iface = Dimensions img" using i(2) f(2) df by simp
  have nz: "Dimensions img ! 0 * Dimensions img ! 1 \<noteq> 0"
    unfolding i(2) by (rule well_formed_dims[OF wi])
  obtain msk where m: "(case mx_mask of
                 None \<Rightarrow> Returns None
               | Some m \<Rightarrow>
                   mex_bind (GetImage_mex N memL m) (\<lambda>msk.
                   if Dimensions msk \<noteq> Dimensions img
                   then mexErrMsgTxt ''Mask and image must have the same dimensions.''
                   else Returns (Some msk))) = Returns msk"
    and m2: "map_option (GetImage_mex N memL) mx_mask = map_option Returns msk"
    using mask_step[OF wi mk i(2)] by blast
  obtain r where r: "Compute img msk iface l1 l2 c1 c2 conv max_iter nb = Inr r"
      "max_iter_out r = int (cnt img msk iface)"
    using C by blast
  let ?labels = "case msk of
                     None \<Rightarrow> unmasked_labels (seg r) (map memL [0..<prod_list (Dimensions img)])
                   | Some m \<Rightarrow> masked_labels (Elems m) (Elems iface) (seg r)
                                (map memL [0..<prod_list (Dimensions img)])"
  let ?arr = "\<lparr>Dimensions = Dimensions img, Elems = ?labels\<rparr>"
  have "Dimensions ?arr ! 0 * Dimensions ?arr ! 1 \<noteq> 0" using nz by simp
  from SetImage_mex_nonempty[OF this]
  obtain out where o: "SetImage_mex ?arr (mxCreateArray 0 (take N (mxDimensions mx_in))) = Returns out"
    by blast
  let ?res = "\<lparr>plhs0 = out, plhs1 = energy r, plhs2 = real_of_int (max_iter_out r),
              plhs_rest = [params_out r ! 0, params_out r ! 1]\<rparr>"
  have "Segment_ChanVeseLab N S Nb Compute memT memL mx_in mx_interface mx_mask
             l1 l2 c1 c2 conv max_iter str_nb = Returns ?res"
    unfolding Segment_ChanVeseLab_def
    by (simp add: i(1) f(1) e1 m nb catch_def r(1) Let_def o)
  moreover have "plhs2 ?res = real (cnt img msk iface)" using r(2) by simp
  ultimately show ?thesis using i(1) f(1) m2 by blast
qed

lemma Segment_ChanVeseTp_total:
  assumes wi: "well_formed N mx_in" and wf: "well_formed N mx_interface"
    and df: "mxDimensions mx_interface = mxDimensions mx_in"
    and mk: "mask_ok N mx_in mx_mask"
    and cn: "CreateNeighbourhood S N str_nb = Inr req" and nb: "Nb req = Inr nb"
    and C: "\<And>img msk iface. \<exists>r. Compute img msk iface l1 l2 c1 c2 conv max_iter nb = Inr r
               \<and> max_iter_out r = int (cnt img msk iface) \<and> Dimensions (seg r) = Dimensions img"
  shows "\<exists>out img msk iface.
           Segment_ChanVeseTp N S Nb Compute memT memB memM mx_in mx_interface mx_mask
             l1 l2 c1 c2 conv max_iter str_nb = Returns out
         \<and> plhs2 out = real (cnt img msk iface)
         \<and> GetImage_mex N memT mx_in = Returns img
         \<and> GetImage_mex N memB mx_interface = Returns iface
         \<and> map_option (GetImage_mex N memM) mx_mask = map_option Returns msk"
proof -
  obtain img where i: "GetImage_mex N memT mx_in = Returns img"
      "Dimensions img = (mxDimensions mx_in ! 1) # (mxDimensions mx_in ! 0) # drop 2 (mxDimensions mx_in)"
    using GetImage_mex_well_formed[OF wi] by blast
  obtain iface where f: "GetImage_mex N memB mx_interface = Returns iface"
      "Dimensions iface = (mxDimensions mx_interface ! 1) # (mxDimensions mx_interface ! 0)
                            # drop 2 (mxDimensions mx_interface)"
    using GetImage_mex_well_formed[OF wf] by blast
  have e1: "Dimensions iface = Dimensions img" using i(2) f(2) df by simp
  have nz: "Dimensions img ! 0 * Dimensions img ! 1 \<noteq> 0"
    unfolding i(2) by (rule well_formed_dims[OF wi])
  obtain msk where m: "(case mx_mask of
                 None \<Rightarrow> Returns None
               | Some m \<Rightarrow>
                   mex_bind (GetImage_mex N memM m) (\<lambda>msk.
                   if Dimensions msk \<noteq> Dimensions img
                   then mexErrMsgTxt ''Mask and image must have the same dimensions.''
                   else Returns (Some msk))) = Returns msk"
    and m2: "map_option (GetImage_mex N memM) mx_mask = map_option Returns msk"
    using mask_step[OF wi mk i(2)] by blast
  obtain r where r: "Compute img msk iface l1 l2 c1 c2 conv max_iter nb = Inr r"
      "max_iter_out r = int (cnt img msk iface)" "Dimensions (seg r) = Dimensions img"
    using C by blast
  have "Dimensions (seg r) ! 0 * Dimensions (seg r) ! 1 \<noteq> 0" using nz r(3) by simp
  from SetImage_mex_nonempty[OF this]
  obtain out where o: "SetImage_mex (seg r) (mxCreateArray False (take N (mxDimensions mx_in))) = Returns out"
    by blast
  let ?res = "\<lparr>plhs0 = out, plhs1 = energy r, plhs2 = real_of_int (max_iter_out r),
              plhs_rest = [params_out r ! 0, params_out r ! 1]\<rparr>"
  have "Segment_ChanVeseTp N S Nb Compute memT memB memM mx_in mx_interface mx_mask
             l1 l2 c1 c2 conv max_iter str_nb = Returns ?res"
    unfolding Segment_ChanVeseTp_def
    by (simp add: i(1) f(1) e1 m cn nb catch_def r(1) o)
  moreover have "plhs2 ?res = real (cnt img msk iface)" using r(2) by simp
  ultimately show ?thesis using i(1) f(1) m2 by blast
qed

lemma Segment_RoussonDeriche_total:
  assumes wi: "well_formed N mx_in"
    and nb: "Segment_Neighbourhood S Nb str_nb = Some (Inr nb)"
    and ie: "\<And>img. InitialEstimate img 50 = Inr (par img)"
    and mf: "CreateGridMaxFlow str_mf False = Returns mf"
    and C: "\<And>img. \<exists>r. Compute img lambda (par img) conv max_iter nb mf = Inr r
               \<and> max_iter_out r = int (cnt img) \<and> Dimensions (seg r) = Dimensions img"
  shows "\<exists>out img.
           Segment_RoussonDeriche N S Nb InitialEstimate Compute memT mx_in
             lambda conv max_iter str_nb str_mf = Returns out
         \<and> plhs2 out = real (cnt img)
         \<and> GetImage_mex N memT mx_in = Returns img"
proof -
  obtain img where i: "GetImage_mex N memT mx_in = Returns img"
      "Dimensions img = (mxDimensions mx_in ! 1) # (mxDimensions mx_in ! 0) # drop 2 (mxDimensions mx_in)"
    using GetImage_mex_well_formed[OF wi] by blast
  have nz: "Dimensions img ! 0 * Dimensions img ! 1 \<noteq> 0"
    unfolding i(2) by (rule well_formed_dims[OF wi])
  obtain r where r: "Compute img lambda (par img) conv max_iter nb mf = Inr r"
      "max_iter_out r = int (cnt img)" "Dimensions (seg r) = Dimensions img"
    using C by blast
  have "Dimensions (seg r) ! 0 * Dimensions (seg r) ! 1 \<noteq> 0" using nz r(3) by simp
  from SetImage_mex_nonempty[OF this]
  obtain out where o: "SetImage_mex (seg r) (mxCreateArray False (take N (mxDimensions mx_in))) = Returns out"
    by blast
  let ?res = "\<lparr>plhs0 = out, plhs1 = energy r, plhs2 = real_of_int (max_iter_out r),
              plhs_rest = [params_out r ! 0, params_out r ! 1, params_out r ! 2, params_out r ! 3]\<rparr>"
  have "Segment_RoussonDeriche N S Nb InitialEstimate Compute memT mx_in
             lambda conv max_iter str_nb str_mf = Returns ?res"
    unfolding Segment_RoussonDeriche_def
    by (simp add: i(1) nb ie mf catch_def r(1) o)
  moreover have "plhs2 ?res = real (cnt img)" using r(2) by simp
  ultimately show ?thesis using i(1) by blast
qed

lemma Segment_MumfordShah_total:
  assumes wi: "well_formed N mx_in"
    and nb: "Segment_Neighbourhood S Nb str_nb = Some (Inr nb)"
    and ll: "\<And>img. Lloyd img k lambda conv 50 = Inr (c img)"
    and C: "\<And>img. \<exists>r. ComputePiecewiseConstant img k lambda (c img) conv max_iter nb = Inr r
               \<and> max_iter_out r = int (cnt img) \<and> Dimensions (seg r) = Dimensions img"
  shows "\<exists>out img.
           Segment_MumfordShah N S Nb Lloyd ComputePiecewiseConstant memT mx_in
             k lambda conv max_iter str_nb = Returns out
         \<and> plhs2 out = real (cnt img)
         \<and> GetImage_mex N memT mx_in = Returns img"
proof -
  obtain img where i: "GetImage_mex N memT mx_in = Returns img"
      "Dimensions img = (mxDimensions mx_in ! 1) # (mxDimensions mx_in ! 0) # drop 2 (mxDimensions mx_in)"
    using GetImage_mex_well_formed[OF wi] by blast
  have nz: "Dimensions img ! 0 * Dimensions img ! 1 \<noteq> 0"
    unfolding i(2) by (rule well_formed_dims[OF wi])
  obtain r where r: "ComputePiecewiseConstant img k lambda (c img) conv max_iter nb = Inr r"
      "max_iter_out r = int (cnt img)" "Dimensions (seg r) = Dimensions img"
    using C by blast
  have "Dimensions (seg r) ! 0 * Dimensions (seg r) ! 1 \<noteq> 0" using nz r(3) by simp
  from SetImage_mex_nonempty[OF this]
  obtain out where o: "SetImage_mex (seg r) (mxCreateArray 0 (take N (mxDimensions mx_in))) = Returns out"
    by blast
  let ?res = "\<lparr>plhs0 = out, plhs1 = energy r, plhs2 = real_of_int (max_iter_out r),
              plhs_rest = map (\<lambda>i. params_out r ! i) [0..<nat k]\<rparr>"
  have "Segment_MumfordShah N S Nb Lloyd ComputePiecewiseConstant memT mx_in
             k lambda conv max_iter str_nb = Returns ?res"
    unfolding Segment_MumfordShah_def
    by (simp add: i(1) nb ll catch_def r(1) o)
  moreover have "plhs2 ?res = real (cnt img)" using r(2) by simp
  ultimately show ?thesis using i(1) by blast
qed

lemma iterations_facts:
  "1 \<le> iterations (body, result, s0) max_iter
   \<and> snd (outer_loop body (nat max_iter) 0 s0)
        = iterate_body body (iterations (body, result, s0) max_iter) s0
   \<and> (\<forall>k. 1 \<le> k \<and> k < iterations (body, result, s0) max_iter
          \<longrightarrow> \<not> converged_at body s0 k \<and> k < nat max_iter)
   \<and> (converged_at body s0 (iterations (body, result, s0) max_iter)
        \<or> nat max_iter \<le> iterations (body, result, s0) max_iter)
   \<and> (\<forall>k. 1 \<le> k \<and> k < nat max_iter \<and> converged_at body s0 k
          \<longrightarrow> iterations (body, result, s0) max_iter < nat max_iter)"
  unfolding iterations_def prod.case by (rule outer_loop_iterations)

lemma two_iterations:
  "iterations (\<lambda>s::nat. (s + 1, 2 \<le> s + 1), result, 0) 10 = 2"
  by (simp add: iterations_def outer_loop.simps[of _ _ 0] outer_loop.simps[of _ _ "Suc 0"])

lemma seg_of_result:
  "seg_of (body, result, s0) max_iter
     = snd (snd (result (snd (outer_loop body (nat max_iter) 0 s0))))"
  by (simp add: seg_of_def spec_Compute_def split_def Let_def)

text \<open>
  Claim C2. For each of the four drivers (\<^verbatim>\<open>GcChanVeseLab\<close>, \<^verbatim>\<open>GcChanVeseTp\<close>,
  \<^verbatim>\<open>GcRoussonDeriche\<close>, \<^verbatim>\<open>GcMumfordShah\<close>): on a well-formed image (and interface
  and optional mask of the image's dimensions) and a neighbourhood that is constructed,
  with the segmentation routine the specification describes, \<^verbatim>\<open>Segment\<close> returns, and
  its ``iterations'' output \<^verbatim>\<open>plhs[2]\<close> is the number of outer iterations the routine
  performed on the arguments the driver passed: the image, interface and mask that
  \<^verbatim>\<open>GetImage\<close> made of the MATLAB arrays, the parameters, the neighbourhood. That number \<open>n\<close> satisfies:
  \<open>n \<ge> 1\<close>; the final state is the initial state after \<open>n\<close> iterations; no iteration
  before the \<open>n\<close>-th met the convergence threshold, and each was within \<open>max_iter\<close>; the
  \<open>n\<close>-th met it or \<open>max_iter\<close> was reached; and if some iteration before the
  \<open>max_iter\<close>-th meets the threshold then \<open>n < max_iter\<close>. The three drivers that
  write the routine's labelling out with \<^verbatim>\<open>SetImage\<close> are taken with a routine whose
  labelling has the image's dimensions.
\<close>

theorem C2_iterations_output:
  "(well_formed N1 mx_in1 \<and> well_formed N1 mx_interface1
      \<and> mxDimensions mx_interface1 = mxDimensions mx_in1 \<and> mask_ok N1 mx_in1 mx_mask1
      \<and> Segment_Neighbourhood S1 Nb1 str_nb1 = Some (Inr nb1)
    \<longrightarrow> (\<exists>out img msk iface.
          Segment_ChanVeseLab N1 S1 Nb1
            (\<lambda>img msk iface l1 l2 c1 c2 conv mi nb.
               spec_routine setup1 (img, msk, iface, l1, l2, c1, c2, conv, nb) mi)
            memT1 memL1 mx_in1 mx_interface1 mx_mask1 l11 l21 c11 c21 conv1 max_iter1 str_nb1
          = Returns out
        \<and> plhs2 out
          = real (iterations (setup1 (img, msk, iface, l11, l21, c11, c21, conv1, nb1)) max_iter1)
        \<and> GetImage_mex N1 memT1 mx_in1 = Returns img
        \<and> GetImage_mex N1 memL1 mx_interface1 = Returns iface
        \<and> map_option (GetImage_mex N1 memL1) mx_mask1 = map_option Returns msk))
   \<and> (well_formed N2 mx_in2 \<and> well_formed N2 mx_interface2
      \<and> mxDimensions mx_interface2 = mxDimensions mx_in2 \<and> mask_ok N2 mx_in2 mx_mask2
      \<and> CreateNeighbourhood S2 N2 str_nb2 = Inr req2 \<and> Nb2 req2 = Inr nb2
      \<and> (\<forall>img msk iface.
            Dimensions (seg_of (setup2 (img, msk, iface, l12, l22, c12, c22, conv2, nb2)) max_iter2)
            = Dimensions img)
    \<longrightarrow> (\<exists>out img msk iface.
          Segment_ChanVeseTp N2 S2 Nb2
            (\<lambda>img msk iface l1 l2 c1 c2 conv mi nb.
               spec_routine setup2 (img, msk, iface, l1, l2, c1, c2, conv, nb) mi)
            memT2 memB2 memM2 mx_in2 mx_interface2 mx_mask2 l12 l22 c12 c22 conv2 max_iter2 str_nb2
          = Returns out
        \<and> plhs2 out
          = real (iterations (setup2 (img, msk, iface, l12, l22, c12, c22, conv2, nb2)) max_iter2)
        \<and> GetImage_mex N2 memT2 mx_in2 = Returns img
        \<and> GetImage_mex N2 memB2 mx_interface2 = Returns iface
        \<and> map_option (GetImage_mex N2 memM2) mx_mask2 = map_option Returns msk))
   \<and> (well_formed N3 mx_in3 \<and> Segment_Neighbourhood S3 Nb3 str_nb3 = Some (Inr nb3)
      \<and> (\<forall>img. InitialEstimate3 img 50 = Inr (par3 img))
      \<and> CreateGridMaxFlow str_mf3 False = Returns mf3
      \<and> (\<forall>img. Dimensions (seg_of (setup3 (img, lambda3, par3 img, conv3, nb3, mf3)) max_iter3)
                 = Dimensions img)
    \<longrightarrow> (\<exists>out img.
          Segment_RoussonDeriche N3 S3 Nb3 InitialEstimate3
            (\<lambda>img lambda par conv mi nb mf. spec_routine setup3 (img, lambda, par, conv, nb, mf) mi)
            memT3 mx_in3 lambda3 conv3 max_iter3 str_nb3 str_mf3
          = Returns out
        \<and> plhs2 out = real (iterations (setup3 (img, lambda3, par3 img, conv3, nb3, mf3)) max_iter3)
        \<and> GetImage_mex N3 memT3 mx_in3 = Returns img))
   \<and> (well_formed N4 mx_in4 \<and> Segment_Neighbourhood S4 Nb4 str_nb4 = Some (Inr nb4)
      \<and> (\<forall>img. Lloyd4 img k4 lambda4 conv4 50 = Inr (cl4 img))
      \<and> (\<forall>img. Dimensions (seg_of (setup4 (img, k4, lambda4, cl4 img, conv4, nb4)) max_iter4)
                 = Dimensions img)
    \<longrightarrow> (\<exists>out img.
          Segment_MumfordShah N4 S4 Nb4 Lloyd4
            (\<lambda>img k lambda c conv mi nb. spec_routine setup4 (img, k, lambda, c, conv, nb) mi)
            memT4 mx_in4 k4 lambda4 conv4 max_iter4 str_nb4
          = Returns out
        \<and> plhs2 out = real (iterations (setup4 (img, k4, lambda4, cl4 img, conv4, nb4)) max_iter4)
        \<and> GetImage_mex N4 memT4 mx_in4 = Returns img))
   \<and> 1 \<le> iterations (body, result, s0) max_iter
   \<and> snd (outer_loop body (nat max_iter) 0 s0)
        = iterate_body body (iterations (body, result, s0) max_iter) s0
   \<and> (\<forall>k. 1 \<le> k \<and> k < iterations (body, result, s0) max_iter
          \<longrightarrow> \<not> converged_at body s0 k \<and> k < nat max_iter)
   \<and> (converged_at body s0 (iterations (body, result, s0) max_iter)
        \<or> nat max_iter \<le> iterations (body, result, s0) max_iter)
   \<and> (\<forall>k. 1 \<le> k \<and> k < nat max_iter \<and> converged_at body s0 k
          \<longrightarrow> iterations (body, result, s0) max_iter < nat max_iter)"
proof -
  have a: "well_formed N1 mx_in1 \<and> well_formed N1 mx_interface1
      \<and> mxDimensions mx_interface1 = mxDimensions mx_in1 \<and> mask_ok N1 mx_in1 mx_mask1
      \<and> Segment_Neighbourhood S1 Nb1 str_nb1 = Some (Inr nb1)
    \<longrightarrow> (\<exists>out img msk iface.
          Segment_ChanVeseLab N1 S1 Nb1
            (\<lambda>img msk iface l1 l2 c1 c2 conv mi nb.
               spec_routine setup1 (img, msk, iface, l1, l2, c1, c2, conv, nb) mi)
            memT1 memL1 mx_in1 mx_interface1 mx_mask1 l11 l21 c11 c21 conv1 max_iter1 str_nb1
          = Returns out
        \<and> plhs2 out
          = real (iterations (setup1 (img, msk, iface, l11, l21, c11, c21, conv1, nb1)) max_iter1)
        \<and> GetImage_mex N1 memT1 mx_in1 = Returns img
        \<and> GetImage_mex N1 memL1 mx_interface1 = Returns iface
        \<and> map_option (GetImage_mex N1 memL1) mx_mask1 = map_option Returns msk)"
  proof
    assume h: "well_formed N1 mx_in1 \<and> well_formed N1 mx_interface1
      \<and> mxDimensions mx_interface1 = mxDimensions mx_in1 \<and> mask_ok N1 mx_in1 mx_mask1
      \<and> Segment_Neighbourhood S1 Nb1 str_nb1 = Some (Inr nb1)"
    have C: "\<And>img msk iface. \<exists>r.
        spec_routine setup1 (img, msk, iface, l11, l21, c11, c21, conv1, nb1) max_iter1 = Inr r
        \<and> max_iter_out r
            = int (iterations (setup1 (img, msk, iface, l11, l21, c11, c21, conv1, nb1)) max_iter1)"
    proof -
      fix img msk iface
      show "\<exists>r.
        spec_routine setup1 (img, msk, iface, l11, l21, c11, c21, conv1, nb1) max_iter1 = Inr r
        \<and> max_iter_out r
            = int (iterations (setup1 (img, msk, iface, l11, l21, c11, c21, conv1, nb1)) max_iter1)"
        using spec_routine_out[of setup1 "(img, msk, iface, l11, l21, c11, c21, conv1, nb1)" max_iter1]
        by blast
    qed
    show "\<exists>out img msk iface.
          Segment_ChanVeseLab N1 S1 Nb1
            (\<lambda>img msk iface l1 l2 c1 c2 conv mi nb.
               spec_routine setup1 (img, msk, iface, l1, l2, c1, c2, conv, nb) mi)
            memT1 memL1 mx_in1 mx_interface1 mx_mask1 l11 l21 c11 c21 conv1 max_iter1 str_nb1
          = Returns out
        \<and> plhs2 out
          = real (iterations (setup1 (img, msk, iface, l11, l21, c11, c21, conv1, nb1)) max_iter1)
        \<and> GetImage_mex N1 memT1 mx_in1 = Returns img
        \<and> GetImage_mex N1 memL1 mx_interface1 = Returns iface
        \<and> map_option (GetImage_mex N1 memL1) mx_mask1 = map_option Returns msk"
      by (rule Segment_ChanVeseLab_total[where cnt = "\<lambda>img msk iface.
              iterations (setup1 (img, msk, iface, l11, l21, c11, c21, conv1, nb1)) max_iter1"])
         (use h C in auto)
  qed
  have b: "well_formed N2 mx_in2 \<and> well_formed N2 mx_interface2
      \<and> mxDimensions mx_interface2 = mxDimensions mx_in2 \<and> mask_ok N2 mx_in2 mx_mask2
      \<and> CreateNeighbourhood S2 N2 str_nb2 = Inr req2 \<and> Nb2 req2 = Inr nb2
      \<and> (\<forall>img msk iface.
            Dimensions (seg_of (setup2 (img, msk, iface, l12, l22, c12, c22, conv2, nb2)) max_iter2)
            = Dimensions img)
    \<longrightarrow> (\<exists>out img msk iface.
          Segment_ChanVeseTp N2 S2 Nb2
            (\<lambda>img msk iface l1 l2 c1 c2 conv mi nb.
               spec_routine setup2 (img, msk, iface, l1, l2, c1, c2, conv, nb) mi)
            memT2 memB2 memM2 mx_in2 mx_interface2 mx_mask2 l12 l22 c12 c22 conv2 max_iter2 str_nb2
          = Returns out
        \<and> plhs2 out
          = real (iterations (setup2 (img, msk, iface, l12, l22, c12, c22, conv2, nb2)) max_iter2)
        \<and> GetImage_mex N2 memT2 mx_in2 = Returns img
        \<and> GetImage_mex N2 memB2 mx_interface2 = Returns iface
        \<and> map_option (GetImage_mex N2 memM2) mx_mask2 = map_option Returns msk)"
  proof
    assume h: "well_formed N2 mx_in2 \<and> well_formed N2 mx_interface2
      \<and> mxDimensions mx_interface2 = mxDimensions mx_in2 \<and> mask_ok N2 mx_in2 mx_mask2
      \<and> CreateNeighbourhood S2 N2 str_nb2 = Inr req2 \<and> Nb2 req2 = Inr nb2
      \<and> (\<forall>img msk iface.
            Dimensions (seg_of (setup2 (img, msk, iface, l12, l22, c12, c22, conv2, nb2)) max_iter2)
            = Dimensions img)"
    have C: "\<And>img msk iface. \<exists>r.
        spec_routine setup2 (img, msk, iface, l12, l22, c12, c22, conv2, nb2) max_iter2 = Inr r
        \<and> max_iter_out r
            = int (iterations (setup2 (img, msk, iface, l12, l22, c12, c22, conv2, nb2)) max_iter2)
        \<and> Dimensions (seg r) = Dimensions img"
    proof -
      fix img msk iface
      obtain r where r: "spec_routine setup2 (img, msk, iface, l12, l22, c12, c22, conv2, nb2) max_iter2 = Inr r"
        "max_iter_out r
            = int (iterations (setup2 (img, msk, iface, l12, l22, c12, c22, conv2, nb2)) max_iter2)"
        "seg r = seg_of (setup2 (img, msk, iface, l12, l22, c12, c22, conv2, nb2)) max_iter2"
        using spec_routine_out[of setup2 "(img, msk, iface, l12, l22, c12, c22, conv2, nb2)" max_iter2]
        by blast
      have "Dimensions (seg r) = Dimensions img" using h r(3) by simp
      then show "\<exists>r.
        spec_routine setup2 (img, msk, iface, l12, l22, c12, c22, conv2, nb2) max_iter2 = Inr r
        \<and> max_iter_out r
            = int (iterations (setup2 (img, msk, iface, l12, l22, c12, c22, conv2, nb2)) max_iter2)
        \<and> Dimensions (seg r) = Dimensions img"
        using r(1,2) by blast
    qed
    show "\<exists>out img msk iface.
          Segment_ChanVeseTp N2 S2 Nb2
            (\<lambda>img msk iface l1 l2 c1 c2 conv mi nb.
               spec_routine setup2 (img, msk, iface, l1, l2, c1, c2, conv, nb) mi)
            memT2 memB2 memM2 mx_in2 mx_interface2 mx_mask2 l12 l22 c12 c22 conv2 max_iter2 str_nb2
          = Returns out
        \<and> plhs2 out
          = real (iterations (setup2 (img, msk, iface, l12, l22, c12, c22, conv2, nb2)) max_iter2)
        \<and> GetImage_mex N2 memT2 mx_in2 = Returns img
        \<and> GetImage_mex N2 memB2 mx_interface2 = Returns iface
        \<and> map_option (GetImage_mex N2 memM2) mx_mask2 = map_option Returns msk"
      by (rule Segment_ChanVeseTp_total[where cnt = "\<lambda>img msk iface.
              iterations (setup2 (img, msk, iface, l12, l22, c12, c22, conv2, nb2)) max_iter2"
              and req = req2 and nb = nb2])
         (use h C in auto)
  qed
  have c: "well_formed N3 mx_in3 \<and> Segment_Neighbourhood S3 Nb3 str_nb3 = Some (Inr nb3)
      \<and> (\<forall>img. InitialEstimate3 img 50 = Inr (par3 img))
      \<and> CreateGridMaxFlow str_mf3 False = Returns mf3
      \<and> (\<forall>img. Dimensions (seg_of (setup3 (img, lambda3, par3 img, conv3, nb3, mf3)) max_iter3)
                 = Dimensions img)
    \<longrightarrow> (\<exists>out img.
          Segment_RoussonDeriche N3 S3 Nb3 InitialEstimate3
            (\<lambda>img lambda par conv mi nb mf. spec_routine setup3 (img, lambda, par, conv, nb, mf) mi)
            memT3 mx_in3 lambda3 conv3 max_iter3 str_nb3 str_mf3
          = Returns out
        \<and> plhs2 out = real (iterations (setup3 (img, lambda3, par3 img, conv3, nb3, mf3)) max_iter3)
        \<and> GetImage_mex N3 memT3 mx_in3 = Returns img)"
  proof
    assume h: "well_formed N3 mx_in3 \<and> Segment_Neighbourhood S3 Nb3 str_nb3 = Some (Inr nb3)
      \<and> (\<forall>img. InitialEstimate3 img 50 = Inr (par3 img))
      \<and> CreateGridMaxFlow str_mf3 False = Returns mf3
      \<and> (\<forall>img. Dimensions (seg_of (setup3 (img, lambda3, par3 img, conv3, nb3, mf3)) max_iter3)
                 = Dimensions img)"
    have C: "\<And>img. \<exists>r.
        spec_routine setup3 (img, lambda3, par3 img, conv3, nb3, mf3) max_iter3 = Inr r
        \<and> max_iter_out r = int (iterations (setup3 (img, lambda3, par3 img, conv3, nb3, mf3)) max_iter3)
        \<and> Dimensions (seg r) = Dimensions img"
    proof -
      fix img
      obtain r where r: "spec_routine setup3 (img, lambda3, par3 img, conv3, nb3, mf3) max_iter3 = Inr r"
        "max_iter_out r = int (iterations (setup3 (img, lambda3, par3 img, conv3, nb3, mf3)) max_iter3)"
        "seg r = seg_of (setup3 (img, lambda3, par3 img, conv3, nb3, mf3)) max_iter3"
        using spec_routine_out[of setup3 "(img, lambda3, par3 img, conv3, nb3, mf3)" max_iter3]
        by blast
      have "Dimensions (seg r) = Dimensions img" using h r(3) by simp
      then show "\<exists>r.
        spec_routine setup3 (img, lambda3, par3 img, conv3, nb3, mf3) max_iter3 = Inr r
        \<and> max_iter_out r = int (iterations (setup3 (img, lambda3, par3 img, conv3, nb3, mf3)) max_iter3)
        \<and> Dimensions (seg r) = Dimensions img"
        using r(1,2) by blast
    qed
    show "\<exists>out img.
          Segment_RoussonDeriche N3 S3 Nb3 InitialEstimate3
            (\<lambda>img lambda par conv mi nb mf. spec_routine setup3 (img, lambda, par, conv, nb, mf) mi)
            memT3 mx_in3 lambda3 conv3 max_iter3 str_nb3 str_mf3
          = Returns out
        \<and> plhs2 out = real (iterations (setup3 (img, lambda3, par3 img, conv3, nb3, mf3)) max_iter3)
        \<and> GetImage_mex N3 memT3 mx_in3 = Returns img"
      by (rule Segment_RoussonDeriche_total[where cnt = "\<lambda>img.
              iterations (setup3 (img, lambda3, par3 img, conv3, nb3, mf3)) max_iter3"
              and par = par3 and nb = nb3 and mf = mf3])
         (use h C in auto)
  qed
  have d: "well_formed N4 mx_in4 \<and> Segment_Neighbourhood S4 Nb4 str_nb4 = Some (Inr nb4)
      \<and> (\<forall>img. Lloyd4 img k4 lambda4 conv4 50 = Inr (cl4 img))
      \<and> (\<forall>img. Dimensions (seg_of (setup4 (img, k4, lambda4, cl4 img, conv4, nb4)) max_iter4)
                 = Dimensions img)
    \<longrightarrow> (\<exists>out img.
          Segment_MumfordShah N4 S4 Nb4 Lloyd4
            (\<lambda>img k lambda c conv mi nb. spec_routine setup4 (img, k, lambda, c, conv, nb) mi)
            memT4 mx_in4 k4 lambda4 conv4 max_iter4 str_nb4
          = Returns out
        \<and> plhs2 out = real (iterations (setup4 (img, k4, lambda4, cl4 img, conv4, nb4)) max_iter4)
        \<and> GetImage_mex N4 memT4 mx_in4 = Returns img)"
  proof
    assume h: "well_formed N4 mx_in4 \<and> Segment_Neighbourhood S4 Nb4 str_nb4 = Some (Inr nb4)
      \<and> (\<forall>img. Lloyd4 img k4 lambda4 conv4 50 = Inr (cl4 img))
      \<and> (\<forall>img. Dimensions (seg_of (setup4 (img, k4, lambda4, cl4 img, conv4, nb4)) max_iter4)
                 = Dimensions img)"
    have C: "\<And>img. \<exists>r.
        spec_routine setup4 (img, k4, lambda4, cl4 img, conv4, nb4) max_iter4 = Inr r
        \<and> max_iter_out r = int (iterations (setup4 (img, k4, lambda4, cl4 img, conv4, nb4)) max_iter4)
        \<and> Dimensions (seg r) = Dimensions img"
    proof -
      fix img
      obtain r where r: "spec_routine setup4 (img, k4, lambda4, cl4 img, conv4, nb4) max_iter4 = Inr r"
        "max_iter_out r = int (iterations (setup4 (img, k4, lambda4, cl4 img, conv4, nb4)) max_iter4)"
        "seg r = seg_of (setup4 (img, k4, lambda4, cl4 img, conv4, nb4)) max_iter4"
        using spec_routine_out[of setup4 "(img, k4, lambda4, cl4 img, conv4, nb4)" max_iter4]
        by blast
      have "Dimensions (seg r) = Dimensions img" using h r(3) by simp
      then show "\<exists>r.
        spec_routine setup4 (img, k4, lambda4, cl4 img, conv4, nb4) max_iter4 = Inr r
        \<and> max_iter_out r = int (iterations (setup4 (img, k4, lambda4, cl4 img, conv4, nb4)) max_iter4)
        \<and> Dimensions (seg r) = Dimensions img"
        using r(1,2) by blast
    qed
    show "\<exists>out img.
          Segment_MumfordShah N4 S4 Nb4 Lloyd4
            (\<lambda>img k lambda c conv mi nb. spec_routine setup4 (img, k, lambda, c, conv, nb) mi)
            memT4 mx_in4 k4 lambda4 conv4 max_iter4 str_nb4
          = Returns out
        \<and> plhs2 out = real (iterations (setup4 (img, k4, lambda4, cl4 img, conv4, nb4)) max_iter4)
        \<and> GetImage_mex N4 memT4 mx_in4 = Returns img"
      by (rule Segment_MumfordShah_total[where cnt = "\<lambda>img.
              iterations (setup4 (img, k4, lambda4, cl4 img, conv4, nb4)) max_iter4"
              and c = cl4 and nb = nb4])
         (use h C in auto)
  qed
  note e = iterations_facts[of body result s0 max_iter]
  show ?thesis
    apply (rule conjI, rule a)
    apply (rule conjI, rule b)
    apply (rule conjI, rule c)
    apply (rule conjI, rule d)
    apply (rule e)
    done
qed

text \<open>
  The four drivers on a \<open>1 \<times> 2\<close> image with a loop that meets the threshold in its
  second iteration, \<open>max_iter = 10\<close>: each returns 2 as its iteration count.
\<close>

theorem C2_iterations_witness:
  "(\<exists>out. Segment_ChanVeseLab 2 (\<lambda>i. i) (\<lambda>n b. Inr n)
       (\<lambda>img msk iface l1 l2 c1 c2 conv mi nb.
          spec_routine (\<lambda>args. (\<lambda>s::nat. (s + 1, 2 \<le> s + 1), \<lambda>s. (0, [0, 1], (\<lambda>j. 7)), 0))
            (img, msk, iface, l1, l2, c1, c2, conv, nb) mi)
       (\<lambda>_. 0) (\<lambda>_. 0)
       \<lparr>mxDimensions = [1, 2], mxData = [1, 2]\<rparr>
       \<lparr>mxDimensions = [1, 2], mxData = [5, 6]\<rparr>
       (Some \<lparr>mxDimensions = [1, 2], mxData = [1, 3]\<rparr>)
       1 1 0 1 0 10 ''N4'' = Returns out \<and> plhs2 out = 2)
   \<and> (\<exists>out. Segment_ChanVeseTp 2 (\<lambda>i. i) Inr
       (\<lambda>img msk iface l1 l2 c1 c2 conv mi nb.
          spec_routine (\<lambda>args. (\<lambda>s::nat. (s + 1, 2 \<le> s + 1),
                                  \<lambda>s. (0, [0, 1], \<lparr>Dimensions = Dimensions (fst args),
                                          Elems = replicate (prod_list (Dimensions (fst args))) False\<rparr>), 0))
            (img, msk, iface, l1, l2, c1, c2, conv, nb) mi)
       (\<lambda>_. 0) (\<lambda>_. False) (\<lambda>_. 0)
       \<lparr>mxDimensions = [1, 2], mxData = [1, 2]\<rparr>
       \<lparr>mxDimensions = [1, 2], mxData = [True, False]\<rparr>
       None
       1 1 0 1 0 10 ''N4'' = Returns out \<and> plhs2 out = 2)
   \<and> (\<exists>out. Segment_RoussonDeriche 2 (\<lambda>i. i) (\<lambda>n b. Inr n) (\<lambda>img n. Inr [0, 1, 1, 1 :: real])
       (\<lambda>img lambda par conv mi nb mf.
          spec_routine (\<lambda>args. (\<lambda>s::nat. (s + 1, 2 \<le> s + 1),
                                  \<lambda>s. (0, [0, 1, 1, 1], \<lparr>Dimensions = Dimensions (fst args),
                                          Elems = replicate (prod_list (Dimensions (fst args))) False\<rparr>), 0))
            (img, lambda, par, conv, nb, mf) mi)
       (\<lambda>_. 0)
       \<lparr>mxDimensions = [1, 2], mxData = [1, 2]\<rparr>
       1 0 10 ''N4'' ''GRD-KO'' = Returns out \<and> plhs2 out = 2)
   \<and> (\<exists>out. Segment_MumfordShah 2 (\<lambda>i. i) (\<lambda>n b. Inr n) (\<lambda>img k lambda conv n. Inr [0, 1 :: real])
       (\<lambda>img k lambda c conv mi nb.
          spec_routine (\<lambda>args. (\<lambda>s::nat. (s + 1, 2 \<le> s + 1),
                                  \<lambda>s. (0, [0, 1], \<lparr>Dimensions = Dimensions (fst args),
                                          Elems = replicate (prod_list (Dimensions (fst args))) 0\<rparr>), 0))
            (img, k, lambda, c, conv, nb) mi)
       (\<lambda>_. 0)
       \<lparr>mxDimensions = [1, 2], mxData = [1, 2]\<rparr>
       2 1 0 10 ''N4'' = Returns out \<and> plhs2 out = 2)
   \<and> converged_at (\<lambda>s::nat. (s + 1, 2 \<le> s + 1)) 0 2
   \<and> \<not> converged_at (\<lambda>s::nat. (s + 1, 2 \<le> s + 1)) 0 1
   \<and> iterations (\<lambda>s::nat. (s + 1, 2 \<le> s + 1), \<lambda>s::nat. (), 0) 10 < 10"
proof -
  let ?body = "\<lambda>s::nat. (s + 1, 2 \<le> s + 1)"
  let ?s1 = "\<lambda>args :: real Array \<times> 8 word Array option \<times> 8 word Array \<times> real \<times> real \<times> real \<times> real
                 \<times> real \<times> int.
               (?body, \<lambda>s::nat. (0::real, [0, 1::real], (\<lambda>j::nat. 7 :: 8 word)), 0::nat)"
  let ?s2 = "\<lambda>args :: real Array \<times> 8 word Array option \<times> bool Array \<times> real \<times> real \<times> real \<times> real
                 \<times> real \<times> nb_request.
               (?body, \<lambda>s::nat. (0::real, [0, 1::real], \<lparr>Dimensions = Dimensions (fst args),
                                          Elems = replicate (prod_list (Dimensions (fst args))) False\<rparr>),
                0::nat)"
  let ?s3 = "\<lambda>args :: real Array \<times> real \<times> real list \<times> real \<times> int \<times> grid_maxflow.
               (?body, \<lambda>s::nat. (0::real, [0, 1, 1, 1::real], \<lparr>Dimensions = Dimensions (fst args),
                                          Elems = replicate (prod_list (Dimensions (fst args))) False\<rparr>),
                0::nat)"
  let ?s4 = "\<lambda>args :: real Array \<times> int \<times> real \<times> real list \<times> real \<times> int.
               (?body, \<lambda>s::nat. (0::real, [0, 1::real], \<lparr>Dimensions = Dimensions (fst args),
                                          Elems = replicate (prod_list (Dimensions (fst args))) (0 :: 8 word)\<rparr>),
                0::nat)"
  let ?in = "\<lparr>mxDimensions = [1, 2], mxData = [1, 2 :: real]\<rparr>"
  note t = C2_iterations_output[where ?setup1.0 = ?s1 and ?setup2.0 = ?s2 and ?setup3.0 = ?s3
      and ?setup4.0 = ?s4
      and ?N1.0 = 2 and ?N2.0 = 2 and ?N3.0 = 2 and ?N4.0 = 2
      and ?S1.0 = "\<lambda>i. i" and ?S2.0 = "\<lambda>i. i" and ?S3.0 = "\<lambda>i. i" and ?S4.0 = "\<lambda>i. i"
      and ?Nb1.0 = "\<lambda>n b. Inr n" and ?Nb2.0 = Inr and ?Nb3.0 = "\<lambda>n b. Inr n"
      and ?Nb4.0 = "\<lambda>n b. Inr n"
      and ?mx_in1.0 = ?in and ?mx_in2.0 = ?in and ?mx_in3.0 = ?in and ?mx_in4.0 = ?in
      and ?mx_interface1.0 = "\<lparr>mxDimensions = [1, 2], mxData = [5, 6 :: 8 word]\<rparr>"
      and ?mx_interface2.0 = "\<lparr>mxDimensions = [1, 2], mxData = [True, False]\<rparr>"
      and ?mx_mask1.0 = "Some \<lparr>mxDimensions = [1, 2], mxData = [1, 3 :: 8 word]\<rparr>"
      and ?mx_mask2.0 = "None"
      and ?str_nb1.0 = "''N4''" and ?str_nb2.0 = "''N4''" and ?str_nb3.0 = "''N4''"
      and ?str_nb4.0 = "''N4''" and ?str_mf3.0 = "''GRD-KO''"
      and ?nb1.0 = 4 and ?req2.0 = "Common 4 False" and ?nb2.0 = "Common 4 False"
      and ?nb3.0 = 4 and ?nb4.0 = 4 and ?mf3.0 = "Kohli False"
      and ?InitialEstimate3.0 = "\<lambda>img n. Inr [0, 1, 1, 1 :: real]" and ?par3.0 = "\<lambda>img. [0, 1, 1, 1 :: real]"
      and ?Lloyd4.0 = "\<lambda>img k lambda conv n. Inr [0, 1 :: real]" and ?cl4.0 = "\<lambda>img. [0, 1 :: real]"
      and ?max_iter1.0 = 10 and ?max_iter2.0 = 10 and ?max_iter3.0 = 10 and ?max_iter4.0 = 10
      and ?memT1.0 = "\<lambda>_. 0" and ?memL1.0 = "\<lambda>_. 0"
      and ?memT2.0 = "\<lambda>_. 0" and ?memB2.0 = "\<lambda>_. False" and ?memM2.0 = "\<lambda>_. 0"
      and ?memT3.0 = "\<lambda>_. 0" and ?memT4.0 = "\<lambda>_. 0"
      and ?l11.0 = 1 and ?l21.0 = 1 and ?c11.0 = 0 and ?c21.0 = 1 and ?conv1.0 = 0
      and ?l12.0 = 1 and ?l22.0 = 1 and ?c12.0 = 0 and ?c22.0 = 1 and ?conv2.0 = 0
      and ?lambda3.0 = 1 and ?conv3.0 = 0
      and ?k4.0 = 2 and ?lambda4.0 = 1 and ?conv4.0 = 0
      and body = ?body and result = "\<lambda>s::nat. ()" and ?s0.0 = 0 and max_iter = 10]
  have nb: "Segment_Neighbourhood (\<lambda>i. i) (\<lambda>n b. Inr n) ''N4'' = Some (Inr 4)"
    by (simp add: Segment_Neighbourhood_def atoi_def isspace_def isdigit_def)
  have cn: "CreateNeighbourhood (\<lambda>i. i) 2 ''N4'' = Inr (Common 4 False)"
    by (simp add: CreateNeighbourhood_def atoi_def isspace_def isdigit_def)
  have mf: "CreateGridMaxFlow ''GRD-KO'' False = Returns (Kohli False)"
    by (simp add: CreateGridMaxFlow_def)
  have wf: "well_formed 2 ?in"
    "well_formed 2 \<lparr>mxDimensions = [1, 2], mxData = [5, 6 :: 8 word]\<rparr>"
    "well_formed 2 \<lparr>mxDimensions = [1, 2], mxData = [True, False]\<rparr>"
    by (simp_all add: well_formed_def)
  have mk: "mask_ok 2 ?in (Some \<lparr>mxDimensions = [1, 2], mxData = [1, 3 :: 8 word]\<rparr>)"
    "mask_ok 2 ?in (None :: 8 word mxArray option)"
    by (simp_all add: mask_ok_def well_formed_def)
  have h1: "well_formed 2 ?in \<and> well_formed 2 \<lparr>mxDimensions = [1, 2], mxData = [5, 6 :: 8 word]\<rparr>
      \<and> mxDimensions \<lparr>mxDimensions = [1, 2], mxData = [5, 6 :: 8 word]\<rparr> = mxDimensions ?in
      \<and> mask_ok 2 ?in (Some \<lparr>mxDimensions = [1, 2], mxData = [1, 3 :: 8 word]\<rparr>)
      \<and> Segment_Neighbourhood (\<lambda>i. i) (\<lambda>n b. Inr n) ''N4'' = Some (Inr 4)"
    using wf mk nb by simp
  have h2: "well_formed 2 ?in \<and> well_formed 2 \<lparr>mxDimensions = [1, 2], mxData = [True, False]\<rparr>
      \<and> mxDimensions \<lparr>mxDimensions = [1, 2], mxData = [True, False]\<rparr> = mxDimensions ?in
      \<and> mask_ok 2 ?in (None :: 8 word mxArray option)
      \<and> CreateNeighbourhood (\<lambda>i. i) 2 ''N4'' = Inr (Common 4 False)
      \<and> Inr (Common 4 False) = Inr (Common 4 False)
      \<and> (\<forall>img msk iface.
            Dimensions (seg_of (?s2 (img, msk, iface, 1, 1, 0, 1, 0, Common 4 False)) 10)
            = Dimensions img)"
    using wf mk cn by (simp add: seg_of_result)
  have h3: "well_formed 2 ?in \<and> Segment_Neighbourhood (\<lambda>i. i) (\<lambda>n b. Inr n) ''N4'' = Some (Inr 4)
      \<and> (\<forall>img :: real Array. Inr [0, 1, 1, 1 :: real] = Inr [0, 1, 1, 1 :: real])
      \<and> CreateGridMaxFlow ''GRD-KO'' False = Returns (Kohli False)
      \<and> (\<forall>img. Dimensions (seg_of (?s3 (img, 1, [0, 1, 1, 1], 0, 4, Kohli False)) 10)
                 = Dimensions img)"
    using wf nb mf by (simp add: seg_of_result)
  have h4: "well_formed 2 ?in \<and> Segment_Neighbourhood (\<lambda>i. i) (\<lambda>n b. Inr n) ''N4'' = Some (Inr 4)
      \<and> (\<forall>img :: real Array. Inr [0, 1 :: real] = Inr [0, 1 :: real])
      \<and> (\<forall>img. Dimensions (seg_of (?s4 (img, 2, 1, [0, 1], 0, 4)) 10) = Dimensions img)"
    using wf nb by (simp add: seg_of_result)
  note t1 = t[THEN conjunct1, THEN mp, OF h1]
  note t2 = t[THEN conjunct2, THEN conjunct1, THEN mp, OF h2]
  note t3 = t[THEN conjunct2, THEN conjunct2, THEN conjunct1, THEN mp, OF h3]
  note t4 = t[THEN conjunct2, THEN conjunct2, THEN conjunct2, THEN conjunct1, THEN mp, OF h4]
  note t9 = t[THEN conjunct2, THEN conjunct2, THEN conjunct2, THEN conjunct2, THEN conjunct2,
      THEN conjunct2, THEN conjunct2, THEN conjunct2, THEN spec, of 2]
  have cv: "converged_at ?body 0 2" "\<not> converged_at ?body 0 1"
    by (simp_all add: converged_at_def numeral_2_eq_2)
  have lt: "iterations (?body, \<lambda>s::nat. (), 0) 10 < 10"
    using t9 cv by simp
  have a: "\<exists>out. Segment_ChanVeseLab 2 (\<lambda>i. i) (\<lambda>n b. Inr n)
       (\<lambda>img msk iface l1 l2 c1 c2 conv mi nb.
          spec_routine ?s1 (img, msk, iface, l1, l2, c1, c2, conv, nb) mi)
       (\<lambda>_. 0) (\<lambda>_. 0) ?in
       \<lparr>mxDimensions = [1, 2], mxData = [5, 6]\<rparr>
       (Some \<lparr>mxDimensions = [1, 2], mxData = [1, 3]\<rparr>)
       1 1 0 1 0 10 ''N4'' = Returns out \<and> plhs2 out = 2"
    using t1 by (simp only: two_iterations) auto
  have b: "\<exists>out. Segment_ChanVeseTp 2 (\<lambda>i. i) Inr
       (\<lambda>img msk iface l1 l2 c1 c2 conv mi nb.
          spec_routine ?s2 (img, msk, iface, l1, l2, c1, c2, conv, nb) mi)
       (\<lambda>_. 0) (\<lambda>_. False) (\<lambda>_. 0) ?in
       \<lparr>mxDimensions = [1, 2], mxData = [True, False]\<rparr>
       None
       1 1 0 1 0 10 ''N4'' = Returns out \<and> plhs2 out = 2"
    using t2 by (simp only: two_iterations) auto
  have c: "\<exists>out. Segment_RoussonDeriche 2 (\<lambda>i. i) (\<lambda>n b. Inr n) (\<lambda>img n. Inr [0, 1, 1, 1 :: real])
       (\<lambda>img lambda par conv mi nb mf. spec_routine ?s3 (img, lambda, par, conv, nb, mf) mi)
       (\<lambda>_. 0) ?in 1 0 10 ''N4'' ''GRD-KO'' = Returns out \<and> plhs2 out = 2"
    using t3 by (simp only: two_iterations) auto
  have d: "\<exists>out. Segment_MumfordShah 2 (\<lambda>i. i) (\<lambda>n b. Inr n) (\<lambda>img k lambda conv n. Inr [0, 1 :: real])
       (\<lambda>img k lambda c conv mi nb. spec_routine ?s4 (img, k, lambda, c, conv, nb) mi)
       (\<lambda>_. 0) ?in 2 1 0 10 ''N4'' = Returns out \<and> plhs2 out = 2"
    using t4 by (simp only: two_iterations) auto
  show ?thesis
    apply (rule conjI, rule a)
    apply (rule conjI, rule b)
    apply (rule conjI, rule c)
    apply (rule conjI, rule d)
    apply (rule conjI, rule cv(1))
    apply (rule conjI, rule cv(2))
    apply (rule lt)
    done
qed

section \<open>Heap sort\<close>

lemma hparent_less: "0 < c \<Longrightarrow> hparent c < c"
  by (simp add: hparent_def)

lemma hparent_child: "0 < c \<Longrightarrow> hparent c = h \<longleftrightarrow> c = 2 * h + 1 \<or> c = 2 * h + 2"
  unfolding hparent_def by arith

declare sift_key.simps [simp del] sift_down.simps [simp del] sift_down2.simps [simp del]
declare loop_key.simps [simp del] Heap_loop.simps [simp del] HeapSimultaneous_loop.simps [simp del]

lemma sift_key_stop:
  "\<not> (index * 2 + 1 < n \<and> k (d ! max_child k d n index) > k temp)
   \<Longrightarrow> sift_key k d n temp index = d[index := temp]"
  by (subst sift_key.simps) (auto simp add: Let_def max_child_def)

lemma sift_key_rec:
  "index * 2 + 1 < n \<Longrightarrow> k (d ! max_child k d n index) > k temp
   \<Longrightarrow> sift_key k d n temp index
       = sift_key k (d[index := d ! max_child k d n index]) n temp (max_child k d n index)"
  by (subst sift_key.simps) (auto simp add: Let_def max_child_def)

lemma sift_key_induct [case_names step]:
  assumes "\<And>k d n temp index.
      (index * 2 + 1 < n \<Longrightarrow> k (d ! max_child k d n index) > k temp
        \<Longrightarrow> P k (d[index := d ! max_child k d n index]) n temp (max_child k d n index))
      \<Longrightarrow> P k d n temp index"
  shows "P k d n temp index"
proof (induction k d n temp index rule: sift_key.induct)
  case (1 k d n temp index)
  show ?case
  proof (rule assms)
    assume a: "index * 2 + 1 < n" "k (d ! max_child k d n index) > k temp"
    show "P k (d[index := d ! max_child k d n index]) n temp (max_child k d n index)"
      using "1.IH"[OF refl _ refl] a unfolding max_child_def by simp
  qed
qed

lemma max_child_bounds:
  "index * 2 + 1 < n \<Longrightarrow> max_child k d n index < n \<and> index < max_child k d n index
     \<and> hparent (max_child k d n index) = index"
  by (auto simp: max_child_def hparent_def)

lemma max_child_max:
  "index * 2 + 1 < n \<Longrightarrow> 0 < c \<Longrightarrow> c < n \<Longrightarrow> hparent c = index
   \<Longrightarrow> k (d ! c) \<le> k (d ! max_child k d n index)"
  by (auto simp: max_child_def hparent_child mult.commute)

lemma length_sift_key [simp]: "length (sift_key k d n t h) = length d"
proof (induction k d n t h rule: sift_key_induct)
  case (step k d n temp index)
  show ?case
  proof (cases "index * 2 + 1 < n \<and> k (d ! max_child k d n index) > k temp")
    case True
    then show ?thesis using step by (simp add: sift_key_rec)
  next
    case False
    then show ?thesis by (simp add: sift_key_stop)
  qed
qed

lemma sift_key_frame:
  "h < n \<Longrightarrow> i < h \<or> n \<le> i \<Longrightarrow> sift_key k d n t h ! i = d ! i"
proof (induction k d n t h rule: sift_key_induct)
  case (step k d n temp index)
  show ?case
  proof (cases "index * 2 + 1 < n \<and> k (d ! max_child k d n index) > k temp")
    case True
    then have "sift_key k d n temp index ! i = d[index := d ! max_child k d n index] ! i"
      using step max_child_bounds[of index n k d] by (auto simp add: sift_key_rec)
    then show ?thesis using step.prems True by auto
  next
    case False
    then show ?thesis using step.prems by (auto simp add: sift_key_stop)
  qed
qed

lemma mset_sift_key:
  "h < n \<Longrightarrow> n \<le> length d \<Longrightarrow> mset (sift_key k d n t h) = mset (d[h := t])"
proof (induction k d n t h rule: sift_key_induct)
  case (step k d n temp index)
  let ?c = "max_child k d n index"
  show ?case
  proof (cases "index * 2 + 1 < n \<and> k (d ! ?c) > k temp")
    case True
    then have cb: "?c < n" "index < ?c" using max_child_bounds[of index n k d] by auto
    have "mset (sift_key k d n temp index) = mset (d[index := d ! ?c, ?c := temp])"
      using True step cb by (simp add: sift_key_rec)
    also have "d[index := d ! ?c, ?c := temp]
        = (d[index := temp])[?c := d[index := temp] ! index, index := d[index := temp] ! ?c]"
      using cb step.prems by (intro nth_equalityI) (auto simp: nth_list_update)
    also have "mset \<dots> = mset (d[index := temp])"
      using cb step.prems by (intro mset_swap) auto
    finally show ?thesis .
  next
    case False
    then show ?thesis by (simp add: sift_key_stop)
  qed
qed

lemma is_heap_sift_key:
  assumes "hole_inv k d lo n t h" "lo \<le> h" "h < n" "n \<le> length d"
  shows "is_heap k (sift_key k d n t h) lo n"
  using assms
proof (induction k d n t h rule: sift_key_induct)
  case (step k d n temp index)
  let ?c = "max_child k d n index"
  note inv = step.prems(1)[unfolded hole_inv_def]
  have inv1: "k (d ! c) \<le> k (d ! hparent c)"
    if "0 < c" "c < n" "lo \<le> hparent c" "hparent c \<noteq> index" for c
    using inv that by blast
  have fin: "is_heap k (d[index := temp]) lo n"
    if stop: "\<And>c. 0 < c \<Longrightarrow> c < n \<Longrightarrow> hparent c = index \<Longrightarrow> k (d ! c) \<le> k temp"
    unfolding is_heap_def
  proof (intro allI impI)
    fix c assume c: "0 < c \<and> c < n \<and> lo \<le> hparent c"
    have pl: "hparent c < c" using hparent_less[of c] c by blast
    consider "c = index" | "hparent c = index" | "c \<noteq> index" "hparent c \<noteq> index" by blast
    then show "k (d[index := temp] ! c) \<le> k (d[index := temp] ! hparent c)"
    proof cases
      case 1
      then show ?thesis using inv c pl step.prems by auto
    next
      case 2
      then show ?thesis using stop[of c] c pl step.prems by auto
    next
      case 3
      then show ?thesis using inv c by auto
    qed
  qed
  show ?case
  proof (cases "index * 2 + 1 < n \<and> k (d ! ?c) > k temp")
    case True
    then have cb: "?c < n" "index < ?c" "hparent ?c = index"
      using max_child_bounds[of index n k d] by auto
    have "hole_inv k (d[index := d ! ?c]) lo n temp ?c"
      unfolding hole_inv_def
    proof (intro conjI allI impI)
      fix c assume c: "0 < c \<and> c < n \<and> lo \<le> hparent c \<and> hparent c \<noteq> ?c"
      have pl: "hparent c < c" using hparent_less[of c] c by blast
      consider "c = index" | "hparent c = index" | "c \<noteq> index" "hparent c \<noteq> index" by blast
      then show "k (d[index := d ! ?c] ! c) \<le> k (d[index := d ! ?c] ! hparent c)"
      proof cases
        case 1
        then show ?thesis using inv c pl cb step.prems by auto
      next
        case 2
        then show ?thesis using max_child_max[of index n c k d] True c pl step.prems by auto
      next
        case 3
        then show ?thesis using inv c by auto
      qed
    next
      assume "0 < ?c \<and> lo \<le> hparent ?c"
      then show "k temp \<le> k (d[index := d ! ?c] ! hparent ?c)"
        using True cb step.prems by auto
    next
      fix c assume c: "0 < c \<and> c < n \<and> hparent c = ?c \<and> 0 < ?c \<and> lo \<le> hparent ?c"
      have pl: "hparent c < c" using hparent_less[of c] c by blast
      have "k (d ! c) \<le> k (d ! hparent c)"
        using c cb step.prems by (intro inv1) auto
      then have "k (d ! c) \<le> k (d ! ?c)" using c by simp
      then show "k (d[index := d ! ?c] ! c) \<le> k (d[index := d ! ?c] ! hparent ?c)"
        using cb c pl step.prems by auto
    qed
    then have "is_heap k (sift_key k (d[index := d ! ?c]) n temp ?c) lo n"
      using step.IH True cb step.prems by auto
    then show ?thesis using True by (simp add: sift_key_rec)
  next
    case False
    have "is_heap k (d[index := temp]) lo n"
    proof (rule fin)
      fix c assume c: "0 < c" "c < n" "hparent c = index"
      then have c0: "index * 2 + 1 < n" by (auto simp: hparent_child)
      then have "k (d ! c) \<le> k (d ! ?c)" using max_child_max c by blast
      then show "k (d ! c) \<le> k temp" using False c0 by auto
    qed
    then show ?thesis using False by (simp add: sift_key_stop)
  qed
qed

lemma drop_sift_key: "h < n \<Longrightarrow> drop n (sift_key k d n t h) = drop n d"
  by (intro nth_equalityI) (auto simp: sift_key_frame)

lemma mset_take_sift_key:
  assumes "h < n" "n \<le> length d"
  shows "mset (take n (sift_key k d n t h)) = mset (take n (d[h := t]))"
proof -
  let ?r = "sift_key k d n t h"
  have "mset (take n ?r) + mset (drop n ?r) = mset (take n (d[h := t])) + mset (drop n (d[h := t]))"
    using mset_sift_key[OF assms, of k t] by (metis append_take_drop_id mset_append)
  moreover have "drop n ?r = drop n (d[h := t])"
    using assms by (simp add: drop_sift_key)
  ultimately show ?thesis by simp
qed

lemma is_heap_root_max:
  assumes "is_heap k d 0 n" "i < n"
  shows "k (d ! i) \<le> k (d ! 0)"
  using assms(2)
proof (induction i rule: less_induct)
  case (less i)
  show ?case
  proof (cases "i = 0")
    case True
    then show ?thesis by simp
  next
    case False
    then have "hparent i < i" by (simp add: hparent_less)
    moreover have "k (d ! i) \<le> k (d ! hparent i)"
      using assms(1) False less.prems unfolding is_heap_def by auto
    ultimately show ?thesis using less.IH[of "hparent i"] less.prems by auto
  qed
qed

lemma in_set_take_nth: "x \<in> set (take n d) \<Longrightarrow> \<exists>i. i < n \<and> i < length d \<and> x = d ! i"
  by (auto simp: in_set_conv_nth)

lemma in_set_drop_nth: "x \<in> set (drop n d) \<Longrightarrow> \<exists>j. n \<le> j \<and> j < length d \<and> x = d ! j"
proof -
  assume "x \<in> set (drop n d)"
  then obtain i where "i < length d - n" "x = drop n d ! i"
    by (auto simp: in_set_conv_nth)
  then show ?thesis by (intro exI[of _ "n + i"]) auto
qed

lemma loop_key_correct:
  assumes "n \<le> length d" "parent \<le> n" "is_heap k d parent n" "sorted_from k d n"
  shows "sorted (map k (loop_key k d n parent)) \<and> mset (loop_key k d n parent) = mset d"
  using assms
proof (induction k d n parent rule: loop_key.induct)
  case (1 k d n parent)
  show ?case
  proof (cases "n > 1")
    case False
    have "loop_key k d n parent = d" using False by (subst loop_key.simps) simp
    moreover have "sorted (map k d)"
    proof -
      have "d = take n d @ drop n d" by simp
      then have "map k d = map k (take n d) @ map k (drop n d)" by (metis map_append)
      moreover have "sorted (map k (take n d) @ map k (drop n d))"
        unfolding sorted_append
      proof (intro conjI ballI)
        show "sorted (map k (take n d))" using False
          by (intro sorted01) simp
        show "sorted (map k (drop n d))" using "1.prems" by (simp add: sorted_from_def)
        fix x y assume "x \<in> set (map k (take n d))" "y \<in> set (map k (drop n d))"
        then obtain a b where ab: "a \<in> set (take n d)" "x = k a" "b \<in> set (drop n d)" "y = k b"
          by auto
        from ab(1) obtain i where i: "i < n" "i < length d" "a = d ! i"
          by (auto dest: in_set_take_nth)
        from ab(3) obtain j where j: "n \<le> j" "j < length d" "b = d ! j"
          by (auto dest: in_set_drop_nth)
        have "k (d ! i) \<le> k (d ! j)"
          using "1.prems"(4) i j unfolding sorted_from_def by auto
        then show "x \<le> y" using ab i j by simp
      qed
      ultimately show ?thesis by simp
    qed
    ultimately show ?thesis by simp
  next
    case True
    show ?thesis
    proof (cases "parent \<noteq> 0")
      case p: True
      let ?p = "parent - 1"
      let ?r = "sift_key k d n (d ! ?p) ?p"
      have pn: "?p < n" using p "1.prems" by auto
      have eq: "loop_key k d n parent = loop_key k ?r n ?p"
        using True p by (subst loop_key.simps) simp
      have hi: "hole_inv k d ?p n (d ! ?p) ?p"
        unfolding hole_inv_def
      proof (intro conjI allI impI)
        fix c assume c: "0 < c \<and> c < n \<and> ?p \<le> hparent c \<and> hparent c \<noteq> ?p"
        then have "parent \<le> hparent c" by auto
        then show "k (d ! c) \<le> k (d ! hparent c)" using c "1.prems"(3) unfolding is_heap_def by auto
      next
        assume "0 < ?p \<and> ?p \<le> hparent ?p"
        then show "k (d ! ?p) \<le> k (d ! hparent ?p)" using hparent_less[of ?p] by auto
      next
        fix c assume "0 < c \<and> c < n \<and> hparent c = ?p \<and> 0 < ?p \<and> ?p \<le> hparent ?p"
        then show "k (d ! c) \<le> k (d ! hparent ?p)" using hparent_less[of ?p] by auto
      qed
      have heap: "is_heap k ?r ?p n"
        using hi pn "1.prems" by (intro is_heap_sift_key) auto
      have ms: "mset ?r = mset d" using pn "1.prems" by (simp add: mset_sift_key)
      have mt: "mset (take n ?r) = mset (take n d)"
        using pn "1.prems" mset_take_sift_key[of ?p n d k "d ! ?p"] by simp
      have sf: "sorted_from k ?r n"
        unfolding sorted_from_def
      proof (intro conjI allI impI)
        show "sorted (map k (drop n ?r))" using pn "1.prems" by (simp add: drop_sift_key sorted_from_def)
        fix i j assume ij: "i < n \<and> n \<le> j \<and> j < length ?r"
        then have "?r ! i \<in> set (take n ?r)" using "1.prems" by (auto simp: in_set_conv_nth)
        then have "?r ! i \<in> set (take n d)" using mt by (metis set_mset_mset)
        then obtain i' where "i' < n" "?r ! i = d ! i'" by (auto dest: in_set_take_nth)
        moreover have "?r ! j = d ! j" using ij pn by (simp add: sift_key_frame)
        ultimately show "k (?r ! i) \<le> k (?r ! j)"
          using "1.prems"(4) ij unfolding sorted_from_def by auto
      qed
      have "sorted (map k (loop_key k ?r n ?p)) \<and> mset (loop_key k ?r n ?p) = mset ?r"
        using True p heap sf pn "1.prems" by (intro "1.IH"(1)) auto
      then show ?thesis using eq ms by simp
    next
      case p: False
      let ?n = "n - 1"
      let ?d1 = "d[?n := d ! 0]"
      let ?r = "sift_key k ?d1 ?n (d ! ?n) 0"
      have n0: "0 < ?n" "?n < n" "?n < length d" "0 < length d" using True "1.prems" by auto
      have eq: "loop_key k d n parent = loop_key k ?r ?n 0"
        using True p by (subst loop_key.simps) simp
      have h0: "is_heap k d 0 n" using p "1.prems" by simp
      have hi: "hole_inv k ?d1 0 ?n (d ! ?n) 0"
        unfolding hole_inv_def
      proof (intro conjI allI impI)
        fix c assume c: "0 < c \<and> c < ?n \<and> 0 \<le> hparent c \<and> hparent c \<noteq> 0"
        then have "hparent c < ?n" using hparent_less[of c] by auto
        then show "k (?d1 ! c) \<le> k (?d1 ! hparent c)"
          using c h0 unfolding is_heap_def by auto
      qed auto
      have heap: "is_heap k ?r 0 ?n"
        using hi n0 by (intro is_heap_sift_key) auto
      have "mset ?r = mset (?d1[0 := d ! ?n])" using n0 by (simp add: mset_sift_key)
      also have "\<dots> = mset d" using n0 by (intro mset_swap) auto
      finally have ms: "mset ?r = mset d" .
      have mt: "mset (take ?n ?r) = mset (take ?n (?d1[0 := d ! ?n]))"
        using n0 by (intro mset_take_sift_key) auto
      have rj: "?r ! j = ?d1 ! j" if "?n \<le> j" for j
        using that n0 by (simp add: sift_key_frame)
      have pre: "\<exists>i'. i' < n \<and> ?r ! i = d ! i'" if "i < ?n" for i
      proof -
        have "?r ! i \<in> set (take ?n ?r)" using that n0 by (auto simp: in_set_conv_nth)
        then have "?r ! i \<in> set (take ?n (?d1[0 := d ! ?n]))" using mt by (metis set_mset_mset)
        then obtain i' where i': "i' < ?n" "?r ! i = ?d1[0 := d ! ?n] ! i'"
          by (auto dest: in_set_take_nth)
        show ?thesis
        proof (cases "i' = 0")
          case True
          then show ?thesis using i' n0 by (intro exI[of _ ?n]) auto
        next
          case False
          then show ?thesis using i' n0 by (intro exI[of _ i']) auto
        qed
      qed
      have sf: "sorted_from k ?r ?n"
        unfolding sorted_from_def
      proof (intro conjI allI impI)
        have "drop ?n ?r = drop ?n ?d1" using n0 by (simp add: drop_sift_key)
        also have "\<dots> = d ! 0 # drop n d"
          using n0 True by (intro nth_equalityI) (auto simp: nth_Cons nth_list_update split: nat.splits)
        finally have dr: "drop ?n ?r = d ! 0 # drop n d" .
        have "\<forall>x \<in> set (drop n d). k (d ! 0) \<le> k x"
          using "1.prems"(4) True unfolding sorted_from_def by (auto dest!: in_set_drop_nth)
        then show "sorted (map k (drop ?n ?r))"
          using dr "1.prems"(4) by (auto simp: sorted_from_def)
      next
        fix i j assume ij: "i < ?n \<and> ?n \<le> j \<and> j < length ?r"
        then obtain i' where i': "i' < n" "?r ! i = d ! i'" using pre by blast
        show "k (?r ! i) \<le> k (?r ! j)"
        proof (cases "j = ?n")
          case True
          then have "?r ! j = d ! 0" using rj[of j] n0 by simp
          then show ?thesis using i' is_heap_root_max[OF h0, of i'] by simp
        next
          case False
          then have "?r ! j = d ! j" "n \<le> j" using rj[of j] ij by auto
          then show ?thesis using i' ij "1.prems"(4) unfolding sorted_from_def by auto
        qed
      qed
      have "sorted (map k (loop_key k ?r ?n 0)) \<and> mset (loop_key k ?r ?n 0) = mset ?r"
        using True p heap sf n0 "1.prems" by (intro "1.IH"(2)) auto
      then show ?thesis using eq ms by simp
    qed
  qed
qed

lemma is_heap_initial: "is_heap k d (n div 2) n"
  unfolding is_heap_def
proof (intro allI impI)
  fix c assume c: "0 < c \<and> c < n \<and> n div 2 \<le> hparent c"
  then have "n div 2 \<le> (c - 1) div 2" by (simp add: hparent_def)
  then have False using c by arith
  then show "k (d ! c) \<le> k (d ! hparent c)" ..
qed

lemma loop_key_sorts:
  "sorted (map k (loop_key k d (length d) (length d div 2)))
   \<and> mset (loop_key k d (length d) (length d div 2)) = mset d"
  by (intro loop_key_correct) (auto simp: is_heap_initial sorted_from_def)

lemma sift_down_key: "sift_down d n t h = sift_key (\<lambda>x. x) d n t h"
proof (induction "\<lambda>x::'a. x" d n t h rule: sift_key_induct)
  case (step d n temp index)
  show ?case
  proof (cases "index * 2 + 1 < n \<and> d ! max_child (\<lambda>x. x) d n index > temp")
    case True
    then have "sift_down d n temp index
        = sift_down (d[index := d ! max_child (\<lambda>x. x) d n index]) n temp (max_child (\<lambda>x. x) d n index)"
      by (subst sift_down.simps) (auto simp: Let_def max_child_def)
    then show ?thesis using True step by (simp add: sift_key_rec)
  next
    case False
    then have "sift_down d n temp index = d[index := temp]"
      by (subst sift_down.simps) (auto simp: Let_def max_child_def)
    then show ?thesis using False by (simp add: sift_key_stop)
  qed
qed

lemma Heap_loop_key: "Heap_loop d n parent = loop_key (\<lambda>x. x) d n parent"
proof (induction "\<lambda>x::'a. x" d n parent rule: loop_key.induct)
  case (1 d n parent)
  show ?case
    using 1 by (subst Heap_loop.simps, subst loop_key.simps) (simp add: Let_def sift_down_key)
qed

lemma sorted_Heap: "sorted (Heap d)"
  using loop_key_sorts[of "\<lambda>x. x" d] by (simp add: Heap_def Heap_loop_key)

lemma mset_Heap: "mset (Heap d) = mset d"
  using loop_key_sorts[of "\<lambda>x. x" d] by (simp add: Heap_def Heap_loop_key)

lemma sift_down2_key:
  "length d2 = length d1 \<Longrightarrow> n \<le> length d1 \<Longrightarrow> h < n \<Longrightarrow>
   sift_down2 d1 d2 n t1 t2 h
     = (map fst (sift_key fst (zip d1 d2) n (t1, t2) h), map snd (sift_key fst (zip d1 d2) n (t1, t2) h))"
proof (induction "n - h" arbitrary: d1 d2 h rule: less_induct)
  case less
  note step = less
  define index where "index = h"
  note step = less[folded index_def]
  let ?c = "max_child fst (zip d1 d2) n index"
  let ?c1 = "max_child (\<lambda>x. x) d1 n index"
  have cc: "?c = ?c1" using less.prems by (auto simp: max_child_def index_def)
  show ?case
  proof (cases "index * 2 + 1 < n \<and> d1 ! ?c1 > t1")
    case True
    then have cb: "?c1 < n" "index < ?c1" using max_child_bounds[of index n "\<lambda>x. x" d1] by auto
    have "sift_down2 d1 d2 n t1 t2 index
        = sift_down2 (d1[index := d1 ! ?c1]) (d2[index := d2 ! ?c1]) n t1 t2 ?c1"
      using True by (subst sift_down2.simps) (auto simp: Let_def max_child_def)
    moreover have "zip (d1[index := d1 ! ?c1]) (d2[index := d2 ! ?c1])
        = (zip d1 d2)[index := zip d1 d2 ! ?c]"
      using cb less.prems cc by (simp add: zip_update)
    moreover have rec: "index * 2 + 1 < n" "fst (zip d1 d2 ! ?c) > fst (t1, t2)"
      using True cb less.prems cc by auto
    moreover have "n - ?c1 < n - index" using cb by auto
    ultimately show ?thesis
      using less.hyps[where h = ?c1 and ?d1.0 = "d1[index := d1 ! ?c1]" and ?d2.0 = "d2[index := d2 ! ?c1]"] less.prems cb cc
        sift_key_rec[OF rec]
      by (simp add: index_def)
  next
    case False
    then have "sift_down2 d1 d2 n t1 t2 index = (d1[index := t1], d2[index := t2])"
      by (subst sift_down2.simps) (auto simp: Let_def max_child_def)
    moreover have "\<not> (index * 2 + 1 < n \<and> fst (zip d1 d2 ! ?c) > fst (t1, t2))"
      using False less.prems cc max_child_bounds[of index n "\<lambda>x. x" d1] by auto
    then have "sift_key fst (zip d1 d2) n (t1, t2) index = (zip d1 d2)[index := (t1, t2)]"
      by (rule sift_key_stop)
    ultimately show ?thesis using less.prems by (simp add: zip_update[symmetric] index_def)
  qed
qed

lemma HeapSimultaneous_loop_key:
  "length d2 = length d1 \<Longrightarrow> n \<le> length d1 \<Longrightarrow> parent \<le> n \<Longrightarrow>
   HeapSimultaneous_loop d1 d2 n parent
     = (map fst (loop_key fst (zip d1 d2) n parent), map snd (loop_key fst (zip d1 d2) n parent))"
proof (induction "n + parent" arbitrary: d1 d2 n parent rule: less_induct)
  case less
  show ?case
  proof (cases "n > 1")
    case False
    then have "HeapSimultaneous_loop d1 d2 n parent = (d1, d2)"
      by (subst HeapSimultaneous_loop.simps) simp
    moreover have "loop_key fst (zip d1 d2) n parent = zip d1 d2"
      using False by (subst loop_key.simps) simp
    ultimately show ?thesis using less.prems by simp
  next
    case True
    show ?thesis
    proof (cases "parent \<noteq> 0")
      case p: True
      let ?p = "parent - 1"
      let ?z = "sift_key fst (zip d1 d2) n (d1 ! ?p, d2 ! ?p) ?p"
      have pn: "?p < n" "?p < length d1" using p less.prems by auto
      have s: "sift_down2 d1 d2 n (d1 ! ?p) (d2 ! ?p) ?p = (map fst ?z, map snd ?z)"
        using less.prems pn by (intro sift_down2_key) auto
      have "HeapSimultaneous_loop d1 d2 n parent = HeapSimultaneous_loop (map fst ?z) (map snd ?z) n ?p"
        using True p s by (subst HeapSimultaneous_loop.simps) (simp add: Let_def)
      also have "\<dots> = (map fst (loop_key fst ?z n ?p), map snd (loop_key fst ?z n ?p))"
        using less.hyps[where n = n and parent = ?p and ?d1.0 = "map fst ?z" and ?d2.0 = "map snd ?z"]
          less.prems p pn by (simp add: zip_map_fst_snd)
      also have "loop_key fst ?z n ?p = loop_key fst (zip d1 d2) n parent"
        using True p pn less.prems by (subst (2) loop_key.simps) simp
      finally show ?thesis .
    next
      case p: False
      let ?n = "n - 1"
      let ?z = "sift_key fst ((zip d1 d2)[?n := zip d1 d2 ! 0]) ?n (d1 ! ?n, d2 ! ?n) 0"
      have n0: "0 < ?n" "?n < n" "?n < length d1" "0 < length d1" using True less.prems by auto
      have zz: "zip (d1[?n := d1 ! 0]) (d2[?n := d2 ! 0]) = (zip d1 d2)[?n := zip d1 d2 ! 0]"
        using n0 less.prems by (simp add: zip_update)
      have s: "sift_down2 (d1[?n := d1 ! 0]) (d2[?n := d2 ! 0]) ?n (d1 ! ?n) (d2 ! ?n) 0
          = (map fst ?z, map snd ?z)"
        using less.prems n0 sift_down2_key[of "d2[?n := d2 ! 0]" "d1[?n := d1 ! 0]" ?n 0 "d1 ! ?n" "d2 ! ?n"]
        unfolding zz[symmetric] by simp
      have "HeapSimultaneous_loop d1 d2 n parent = HeapSimultaneous_loop (map fst ?z) (map snd ?z) ?n 0"
        using True p s by (subst HeapSimultaneous_loop.simps) (simp add: Let_def)
      also have "\<dots> = (map fst (loop_key fst ?z ?n 0), map snd (loop_key fst ?z ?n 0))"
        using less.hyps[where n = ?n and parent = 0 and ?d1.0 = "map fst ?z" and ?d2.0 = "map snd ?z"]
          less.prems p n0 by (simp add: zip_map_fst_snd)
      also have "loop_key fst ?z ?n 0 = loop_key fst (zip d1 d2) n parent"
        using True p n0 less.prems by (subst (2) loop_key.simps) simp
      finally show ?thesis .
    qed
  qed
qed

lemma mset_eq_index_list:
  "mset ys = mset xs \<Longrightarrow> \<exists>p. mset p = mset [0..<length xs] \<and> ys = map ((!) xs) p"
proof (induction ys arbitrary: xs)
  case Nil
  then show ?case by simp
next
  case (Cons y ys)
  from Cons.prems have "set (y # ys) = set xs" by (rule mset_eq_setD)
  then have "y \<in> set xs" by auto
  then obtain i where i: "i < length xs" "xs ! i = y" by (auto simp: in_set_conv_nth)
  define xs' where "xs' = take i xs @ drop (Suc i) xs"
  define \<sigma> where "\<sigma> = (\<lambda>j. if j < i then j else Suc j)"
  have "take i xs @ y # drop (Suc i) xs = xs" using i id_take_nth_drop[of i xs, symmetric] by simp
  moreover have "mset (take i xs @ y # drop (Suc i) xs) = add_mset y (mset xs')"
    by (simp add: xs'_def)
  ultimately have "mset xs = add_mset y (mset xs')" by (simp only:)
  then have "mset ys = mset xs'" using Cons.prems by simp
  then obtain p where p: "mset p = mset [0..<length xs']" "ys = map ((!) xs') p"
    using Cons.IH by blast
  have len: "length xs = Suc (length xs')" using i by (auto simp: xs'_def)
  have nth: "xs' ! j = xs ! \<sigma> j" if "j < length xs'" for j
    using that i by (auto simp: xs'_def \<sigma>_def nth_append min_def)
  have "set p = set [0..<length xs']" using p(1) by (rule mset_eq_setD)
  then have "set p = {0..<length xs'}" by simp
  then have "map ((!) xs') p = map ((!) xs \<circ> \<sigma>) p" using nth by (intro map_cong) auto
  then have ys: "y # ys = map ((!) xs) (i # map \<sigma> p)" using p i by simp
  have "map \<sigma> [0..<length xs'] = [0..<i] @ [Suc i..<length xs]"
  proof -
    have "i \<le> length xs'" using i len by simp
    then obtain m where m: "length xs' = i + m" using le_Suc_ex by blast
    have "[0..<length xs'] = [0..<i] @ [i..<length xs']"
      unfolding m by (rule upt_add_eq_append) simp
    moreover have "map \<sigma> [0..<i] = [0..<i]" by (intro map_idI) (auto simp: \<sigma>_def)
    moreover have "map \<sigma> [i..<length xs'] = map Suc [i..<length xs']"
      by (intro map_cong) (auto simp: \<sigma>_def)
    ultimately show ?thesis using len by (simp add: map_Suc_upt)
  qed
  then have "mset (map \<sigma> [0..<length xs']) = mset ([0..<i] @ [Suc i..<length xs])"
    by (simp only:)
  moreover have "mset (map \<sigma> p) = mset (map \<sigma> [0..<length xs'])"
    by (simp only: mset_map p(1))
  ultimately have ms: "mset (map \<sigma> p) = mset ([0..<i] @ [Suc i..<length xs])"
    by (simp only:)
  have "[0..<length xs] = [0..<i] @ i # [Suc i..<length xs]"
  proof -
    obtain m where m: "length xs = i + m" using i le_Suc_ex less_imp_le_nat by blast
    have "[0..<length xs] = [0..<i] @ [i..<length xs]"
      unfolding m by (rule upt_add_eq_append) simp
    moreover have "[i..<length xs] = i # [Suc i..<length xs]"
      using i by (intro upt_conv_Cons) simp
    ultimately show ?thesis by (simp only:)
  qed
  then have "mset [0..<length xs] = add_mset i (mset ([0..<i] @ [Suc i..<length xs]))"
    by (simp only: mset_append mset.simps) simp
  then have "mset (i # map \<sigma> p) = mset [0..<length xs]"
    using ms by (simp only: mset.simps)
  then have "mset (i # map \<sigma> p) = mset [0..<length xs] \<and> y # ys = map ((!) xs) (i # map \<sigma> p)"
    using ys by (rule conjI)
  then show ?case by (rule exI)
qed

lemma HeapSimultaneous_key:
  assumes "length d2 = length d1"
  shows "HeapSimultaneous d1 d2
     = (map fst (loop_key fst (zip d1 d2) (length d1) (length d1 div 2)),
        map snd (loop_key fst (zip d1 d2) (length d1) (length d1 div 2)))"
  unfolding HeapSimultaneous_def using assms by (intro HeapSimultaneous_loop_key) auto

lemma HeapSimultaneous_permutation:
  assumes "length d2 = length d1"
  shows "\<exists>p. mset p = mset [0..<length d1]
           \<and> HeapSimultaneous d1 d2 = (map ((!) d1) p, map ((!) d2) p)
           \<and> sorted (map ((!) d1) p)"
proof -
  let ?z = "zip d1 d2"
  let ?r = "loop_key fst ?z (length d1) (length d1 div 2)"
  have len: "length ?z = length d1" using assms by simp
  have r: "sorted (map fst ?r)" "mset ?r = mset ?z"
    using loop_key_sorts[of fst ?z] by (simp_all only: len)
  obtain p where p: "mset p = mset [0..<length ?z]" "?r = map ((!) ?z) p"
    using mset_eq_index_list[OF r(2)] by blast
  have "set p = set [0..<length ?z]" using p(1) by (rule mset_eq_setD)
  then have sp: "\<forall>i \<in> set p. i < length d1" using len by simp
  have f: "map fst ?r = map ((!) d1) p"
    unfolding p(2) map_map using sp assms by (intro map_cong) auto
  have g: "map snd ?r = map ((!) d2) p"
    unfolding p(2) map_map using sp assms by (intro map_cong) auto
  have "mset p = mset [0..<length d1]" using p(1) len by (simp only:)
  moreover have "HeapSimultaneous d1 d2 = (map ((!) d1) p, map ((!) d2) p)"
    using HeapSimultaneous_key[OF assms] f g by (simp only:)
  moreover have "sorted (map ((!) d1) p)" using r(1) f by (simp only:)
  ultimately show ?thesis by blast
qed

lemma Heap_example: "Heap [3, 1, 2 :: nat] = [1, 2, 3]"
  by code_simp

lemma HeapSimultaneous_example: "HeapSimultaneous [3, 1, 2 :: nat] ''abc'' = ([1, 2, 3], ''bca'')"
  by code_simp

text \<open>
  Claim C9. \<^verbatim>\<open>Sort::Heap\<close> leaves the range in non-decreasing order and the result is
  a permutation of the input (the same multiset of elements). \<^verbatim>\<open>Sort::HeapSimultaneous\<close>,
  on two ranges of the same length, sorts the first and applies one and the same
  permutation \<open>p\<close> of the positions to both: position \<open>j\<close> of each result holds what
  position \<open>p ! j\<close> of the corresponding input held, so the pairing is kept.
\<close>

theorem C9_heap_sort:
  "sorted (Heap d1) \<and> mset (Heap d1) = mset d1
   \<and> (length d2 = length d1 \<longrightarrow>
        (\<exists>p. mset p = mset [0..<length d1]
           \<and> HeapSimultaneous d1 d2 = (map ((!) d1) p, map ((!) d2) p)
           \<and> sorted (map ((!) d1) p)))"
  using sorted_Heap[of d1] mset_Heap[of d1] HeapSimultaneous_permutation[of d2 d1] by blast

theorem C9_heap_sort_witness:
  "sorted (Heap [3, 1, 2 :: nat]) \<and> mset (Heap [3, 1, 2 :: nat]) = mset [3, 1, 2]
   \<and> length ''abc'' = length [3, 1, 2 :: nat]
   \<and> (\<exists>p. mset p = mset [0..<length [3, 1, 2 :: nat]]
           \<and> HeapSimultaneous [3, 1, 2 :: nat] ''abc'' = (map ((!) [3, 1, 2]) p, map ((!) ''abc'') p)
           \<and> sorted (map ((!) [3, 1, 2 :: nat]) p))"
  using C9_heap_sort[of "[3, 1, 2 :: nat]" "''abc''"] by simp

section \<open>\<^verbatim>\<open>gc_normalize_image\<close>\<close>

lemma fold_min2_Fin: "fold min2 (map Fin ys) (Fin a) = Fin (fold min ys a)"
  by (induction ys arbitrary: a) (auto simp: min2_def min_def)

lemma fold_max2_Fin: "fold max2 (map Fin ys) (Fin a) = Fin (fold max ys a)"
  by (induction ys arbitrary: a) (auto simp: max2_def max_def)

lemma matlab_min_Fin: "xs \<noteq> [] \<Longrightarrow> matlab_min (map Fin xs) = Fin (Min (set xs))"
  using Min.set_eq_fold[of "hd xs" "tl xs"]
  by (cases xs) (simp_all add: matlab_min_def fold_min2_Fin)

lemma matlab_max_Fin: "xs \<noteq> [] \<Longrightarrow> matlab_max (map Fin xs) = Fin (Max (set xs))"
  using Max.set_eq_fold[of "hd xs" "tl xs"]
  by (cases xs) (simp_all add: matlab_max_def fold_max2_Fin)

lemma normalize_finite:
  assumes ne: "xs \<noteq> []"
  shows "gc_normalize_image rnd T True (map Fin xs)
     = Inr (map (\<lambda>v. fdivide rnd T (fl rnd T (v - Min (set xs))) (fl rnd T (Max (set xs) - Min (set xs)))) xs)"
  using ne by (simp add: gc_normalize_image_def matlab_min_Fin matlab_max_Fin Let_def comp_def)

lemma normalize_cell:
  assumes mono: "mono rnd" and r0: "rnd 0 = 0" and r1: "rnd 1 = 1"
    and T: "1 < T"
    and ab: "a \<le> v" "v \<le> b" and ovf: "b - a < T" and dnz: "rnd (b - a) \<noteq> 0"
  shows "fdivide rnd T (fl rnd T (v - a)) (fl rnd T (b - a)) = Fin (rnd (rnd (v - a) / rnd (b - a)))
      \<and> 0 \<le> rnd (rnd (v - a) / rnd (b - a)) \<and> rnd (rnd (v - a) / rnd (b - a)) \<le> 1
      \<and> (v = a \<longrightarrow> rnd (rnd (v - a) / rnd (b - a)) = 0)
      \<and> (v = b \<longrightarrow> rnd (rnd (v - a) / rnd (b - a)) = 1)"
proof -
  let ?d = "rnd (b - a)"
  let ?n = "rnd (v - a)"
  have "rnd 0 \<le> ?d" by (rule monoD[OF mono]) (use ab in simp)
  then have dpos: "0 < ?d" using dnz r0 by simp
  have n0: "rnd 0 \<le> ?n" by (rule monoD[OF mono]) (use ab in simp)
  have nd: "?n \<le> ?d" by (rule monoD[OF mono]) (use ab in simp)
  have n: "0 \<le> ?n" using n0 r0 by simp
  have q0: "0 \<le> ?n / ?d" using n dpos by simp
  have q1: "?n / ?d \<le> 1" using nd dpos by simp
  have "rnd 0 \<le> rnd (?n / ?d)" by (rule monoD[OF mono]) (rule q0)
  then have c0: "0 \<le> rnd (?n / ?d)" using r0 by simp
  have "rnd (?n / ?d) \<le> rnd 1" by (rule monoD[OF mono]) (rule q1)
  then have c1: "rnd (?n / ?d) \<le> 1" using r1 by simp
  have f1: "fl rnd T (v - a) = Fin ?n" using ab ovf T unfolding fl_def by auto
  have f2: "fl rnd T (b - a) = Fin ?d" using ab ovf T unfolding fl_def by auto
  have f3: "fl rnd T (?n / ?d) = Fin (rnd (?n / ?d))" using q0 q1 T unfolding fl_def by auto
  have e: "fdivide rnd T (fl rnd T (v - a)) (fl rnd T (b - a)) = Fin (rnd (?n / ?d))"
    unfolding f1 f2 using dnz f3 by simp
  have m0: "v = a \<longrightarrow> rnd (?n / ?d) = 0" using r0 by simp
  have m1: "v = b \<longrightarrow> rnd (?n / ?d) = 1" using r1 dnz by simp
  show ?thesis using e c0 c1 m0 m1 by (intro conjI)
qed

lemma normalize_overflow:
  assumes "T \<le> 2 * x" and "0 < x" and "0 < T"
  shows "gc_normalize_image rnd T True [Fin (- x), Fin x] = Inr [Fin 0, NaN]"
  using assms
  by (simp add: gc_normalize_image_def matlab_min_def matlab_max_def min2_def max2_def fl_def Let_def)

text \<open>
  Claim C10, as amended. \<^verbatim>\<open>gc_normalize_image\<close> refuses an image that is not of a
  floating point class. The format's rounding \<open>rnd\<close> is monotone, keeps 0 and 1, and
  does not round the difference of two different numbers of the format to 0; the overflow
  bound is above 1. For an image of finite intensities of the format, two of them
  distinct, whose range \<open>max - min\<close> is below the overflow bound, the result is the
  finite values \<open>rnd (rnd (v - min) / rnd (max - min))\<close>, all in \<open>[0, 1]\<close>, with the
  minimum mapped to 0 and the maximum to 1. For a non-empty image of one finite intensity
  the divisor is 0 and no error is raised: every output value is \<open>0/0\<close>, \<^verbatim>\<open>NaN\<close>.
\<close>

theorem C10_normalize_image:
  assumes mono: "mono rnd" and r0: "rnd 0 = 0" and r1: "rnd 1 = 1"
    and diff: "\<forall>x y. rnd x = x \<and> rnd y = y \<and> x \<noteq> y \<longrightarrow> rnd (x - y) \<noteq> 0"
    and T: "1 < T"
  shows "(isfloat = False \<longrightarrow> gc_normalize_image rnd T isfloat img = Inl only_float)
   \<and> (isfloat \<and> (\<forall>v\<in>set xs. rnd v = v) \<and> (\<exists>x\<in>set xs. \<exists>y\<in>set xs. x \<noteq> y)
        \<and> Max (set xs) - Min (set xs) < T \<longrightarrow>
        (\<exists>out. gc_normalize_image rnd T isfloat (map Fin xs) = Inr (map Fin out)
           \<and> length out = length xs
           \<and> (\<forall>i<length xs.
                 out ! i = rnd (rnd (xs ! i - Min (set xs)) / rnd (Max (set xs) - Min (set xs)))
                 \<and> 0 \<le> out ! i \<and> out ! i \<le> 1
                 \<and> (xs ! i = Min (set xs) \<longrightarrow> out ! i = 0)
                 \<and> (xs ! i = Max (set xs) \<longrightarrow> out ! i = 1))))
   \<and> (isfloat \<and> xs \<noteq> [] \<and> (\<forall>x\<in>set xs. \<forall>y\<in>set xs. x = y) \<longrightarrow>
        gc_normalize_image rnd T isfloat (map Fin xs) = Inr (replicate (length xs) NaN))"
proof (intro conjI impI)
  assume "isfloat = False"
  then show "gc_normalize_image rnd T isfloat img = Inl only_float" by (simp add: gc_normalize_image_def)
next
  assume h: "isfloat \<and> (\<forall>v\<in>set xs. rnd v = v) \<and> (\<exists>x\<in>set xs. \<exists>y\<in>set xs. x \<noteq> y)
        \<and> Max (set xs) - Min (set xs) < T"
  then have ne: "xs \<noteq> []" and fl: isfloat by auto
  let ?a = "Min (set xs)" and ?b = "Max (set xs)"
  let ?d = "rnd (?b - ?a)"
  from h obtain x y where xy: "x \<in> set xs" "y \<in> set xs" "x \<noteq> y" by blast
  have "?a \<le> x" "?a \<le> y" "x \<le> ?b" "y \<le> ?b" using xy by simp_all
  then have lt: "?a < ?b" using xy(3) by linarith
  have ain: "?a \<in> set xs" and bin: "?b \<in> set xs" using ne by simp_all
  have rep: "rnd ?a = ?a" "rnd ?b = ?b" using h ain bin by blast+
  have "rnd ?b = ?b \<and> rnd ?a = ?a \<and> ?b \<noteq> ?a" using rep lt by simp
  then have dnz: "?d \<noteq> 0" using diff by blast
  have ovf: "?b - ?a < T" using h by simp
  let ?q = "\<lambda>v. rnd (rnd (v - ?a) / ?d)"
  have cell: "\<And>v. v \<in> set xs \<Longrightarrow>
      fdivide rnd T (fl rnd T (v - ?a)) (fl rnd T (?b - ?a)) = Fin (?q v)
      \<and> 0 \<le> ?q v \<and> ?q v \<le> 1 \<and> (v = ?a \<longrightarrow> ?q v = 0) \<and> (v = ?b \<longrightarrow> ?q v = 1)"
  proof -
    fix v assume v: "v \<in> set xs"
    have b: "?a \<le> v" "v \<le> ?b" using v by simp_all
    show "fdivide rnd T (fl rnd T (v - ?a)) (fl rnd T (?b - ?a)) = Fin (?q v)
      \<and> 0 \<le> ?q v \<and> ?q v \<le> 1 \<and> (v = ?a \<longrightarrow> ?q v = 0) \<and> (v = ?b \<longrightarrow> ?q v = 1)"
      by (rule normalize_cell[OF mono r0 r1 T b ovf dnz])
  qed
  let ?out = "map ?q xs"
  have "map (\<lambda>v. fdivide rnd T (fl rnd T (v - ?a)) (fl rnd T (?b - ?a))) xs = map (\<lambda>v. Fin (?q v)) xs"
    using cell by (intro map_cong) simp_all
  then have r: "gc_normalize_image rnd T isfloat (map Fin xs) = Inr (map Fin ?out)"
    using normalize_finite[OF ne, of rnd T] fl by (simp add: comp_def)
  have p: "\<forall>i<length xs.
                 ?out ! i = rnd (rnd (xs ! i - ?a) / ?d)
                 \<and> 0 \<le> ?out ! i \<and> ?out ! i \<le> 1
                 \<and> (xs ! i = ?a \<longrightarrow> ?out ! i = 0)
                 \<and> (xs ! i = ?b \<longrightarrow> ?out ! i = 1)"
  proof (intro allI impI)
    fix i assume i: "i < length xs"
    then have m: "xs ! i \<in> set xs" by simp
    show "?out ! i = rnd (rnd (xs ! i - ?a) / ?d)
                 \<and> 0 \<le> ?out ! i \<and> ?out ! i \<le> 1
                 \<and> (xs ! i = ?a \<longrightarrow> ?out ! i = 0)
                 \<and> (xs ! i = ?b \<longrightarrow> ?out ! i = 1)"
      using cell[OF m] i by simp
  qed
  show "\<exists>out. gc_normalize_image rnd T isfloat (map Fin xs) = Inr (map Fin out)
           \<and> length out = length xs
           \<and> (\<forall>i<length xs.
                 out ! i = rnd (rnd (xs ! i - Min (set xs)) / rnd (Max (set xs) - Min (set xs)))
                 \<and> 0 \<le> out ! i \<and> out ! i \<le> 1
                 \<and> (xs ! i = Min (set xs) \<longrightarrow> out ! i = 0)
                 \<and> (xs ! i = Max (set xs) \<longrightarrow> out ! i = 1))"
    using r p by (intro exI[of _ ?out]) simp
next
  assume h: "isfloat \<and> xs \<noteq> [] \<and> (\<forall>x\<in>set xs. \<forall>y\<in>set xs. x = y)"
  then have ne: "xs \<noteq> []" and fl: isfloat by simp_all
  have mn: "Min (set xs) \<in> set xs" and mx: "Max (set xs) \<in> set xs"
    using ne by simp_all
  have e: "\<And>v. v \<in> set xs \<Longrightarrow> v = Min (set xs)" using h mn by blast
  have e2: "Max (set xs) = Min (set xs)" using e mx by blast
  have z: "fl rnd T 0 = Fin 0" using T r0 by (simp add: fl_def)
  have "map (\<lambda>v. fdivide rnd T (fl rnd T (v - Min (set xs))) (fl rnd T (Max (set xs) - Min (set xs)))) xs
        = map (\<lambda>v. NaN) xs"
    using e by (intro map_cong) (simp_all add: e2 z)
  then show "gc_normalize_image rnd T isfloat (map Fin xs) = Inr (replicate (length xs) NaN)"
    using normalize_finite[OF ne, of rnd T] fl by (simp add: map_replicate_const)
qed

text \<open>
  The image \<open>[1, 3, 2]\<close> in a format that holds every number involved, with the overflow
  bound of \<^verbatim>\<open>double\<close>; the constant image \<open>[4, 4]\<close>; an image that is not of a
  floating point class.
\<close>

theorem C10_normalize_witness:
  "mono (\<lambda>x::real. x)
   \<and> Max (set [1, 3, 2 :: real]) - Min (set [1, 3, 2]) < 2 ^ 1024 - 2 ^ 970
   \<and> (\<exists>out. gc_normalize_image (\<lambda>x. x) (2 ^ 1024 - 2 ^ 970) True [Fin 1, Fin 3, Fin 2] = Inr (map Fin out)
       \<and> length out = 3 \<and> out ! 0 = 0 \<and> out ! 1 = 1 \<and> 0 \<le> out ! 2 \<and> out ! 2 \<le> 1)
   \<and> gc_normalize_image (\<lambda>x. x) (2 ^ 1024 - 2 ^ 970) True [Fin 4, Fin 4] = Inr [NaN, NaN]
   \<and> gc_normalize_image (\<lambda>x. x) (2 ^ 1024 - 2 ^ 970) False [Fin 1, Fin 3, Fin 2] = Inl only_float"
proof -
  let ?img = "[1, 3, 2 :: real]"
  let ?T = "2 ^ 1024 - 2 ^ 970 :: real"
  have m: "mono (\<lambda>x::real. x)" by (simp add: mono_def)
  have d: "\<forall>x y :: real. x = x \<and> y = y \<and> x \<noteq> y \<longrightarrow> x - y \<noteq> 0" by simp
  have pw: "(2::real) ^ 970 * 2 \<le> 2 ^ 1024"
  proof -
    have "(2::real) ^ 970 * 2 = 2 ^ 971" by simp
    also have "\<dots> \<le> 2 ^ 1024" by (rule power_increasing) simp_all
    finally show ?thesis .
  qed
  have big: "(3::real) \<le> 2 ^ 970"
  proof -
    have "(3::real) \<le> 2 ^ 2" by simp
    also have "\<dots> \<le> 2 ^ 970" by (rule power_increasing) simp_all
    finally show ?thesis .
  qed
  have T: "1 < ?T" "(2::real) < ?T" using pw big by linarith+
  note inst = C10_normalize_image[of "\<lambda>x. x" ?T, OF m refl refl d T(1)]
  note t = inst[of True _ ?img]
  note u = inst[of True _ "[4, 4]"]
  note v = inst[of False "[Fin 1, Fin 3, Fin 2]"]
  have a: "gc_normalize_image (\<lambda>x. x) ?T True [Fin 4, Fin 4] = Inr [NaN, NaN]"
    using u[THEN conjunct2, THEN conjunct2] by (simp add: numeral_2_eq_2)
  have b: "gc_normalize_image (\<lambda>x. x) ?T False [Fin 1, Fin 3, Fin 2] = Inl only_float"
    using v[THEN conjunct1] by simp
  have mn: "Min (set ?img) = 1" and mx: "Max (set ?img) = 3" by simp_all
  have rep: "\<forall>v\<in>set ?img. v = v" by simp
  have ov: "Max (set ?img) - Min (set ?img) < ?T" unfolding mn mx using T(2) by simp
  have h: "True \<and> (\<forall>v\<in>set ?img. v = v) \<and> (\<exists>x\<in>set ?img. \<exists>y\<in>set ?img. x \<noteq> y)
      \<and> Max (set ?img) - Min (set ?img) < ?T"
    using ov by (intro conjI TrueI rep bexI[of _ 1] bexI[of _ 3]) simp_all
  from t[THEN conjunct2, THEN conjunct1, THEN mp, OF h]
  obtain out where o: "gc_normalize_image (\<lambda>x. x) ?T True (map Fin ?img) = Inr (map Fin out)"
      "length out = length ?img"
      "\<forall>i<length ?img.
          out ! i = (?img ! i - Min (set ?img)) / (Max (set ?img) - Min (set ?img))
          \<and> 0 \<le> out ! i \<and> out ! i \<le> 1
          \<and> (?img ! i = Min (set ?img) \<longrightarrow> out ! i = 0)
          \<and> (?img ! i = Max (set ?img) \<longrightarrow> out ! i = 1)"
    by (elim exE conjE)
  have i0: "(0::nat) < length ?img" and i1: "(1::nat) < length ?img" and i2: "(2::nat) < length ?img"
    by simp_all
  have o0: "out ! 0 = 0" using o(3)[THEN spec, THEN mp, OF i0] unfolding mn mx by simp
  have o1: "out ! 1 = 1" using o(3)[THEN spec, THEN mp, OF i1] unfolding mn mx by simp
  have o2: "0 \<le> out ! 2 \<and> out ! 2 \<le> 1" using o(3)[THEN spec, THEN mp, OF i2] by (elim conjE) simp
  have l: "length out = 3" using o(2) by simp
  have ex: "\<exists>out. gc_normalize_image (\<lambda>x. x) ?T True [Fin 1, Fin 3, Fin 2] = Inr (map Fin out)
       \<and> length out = 3 \<and> out ! 0 = 0 \<and> out ! 1 = 1 \<and> 0 \<le> out ! 2 \<and> out ! 2 \<le> 1"
    using o(1) l o0 o1 o2 by (intro exI[of _ out]) simp
  show ?thesis using m ov ex a b by (intro conjI)
qed

text \<open>
  The claim as stated fails where \<open>max - min\<close> is not finite, and for the elements
  that are not. The \<^verbatim>\<open>double\<close> image \<open>[-2^1023, 2^1023]\<close> has two distinct finite
  intensities; \<open>max - min = 2^1024\<close> overflows to \<^verbatim>\<open>Inf\<close>, the maximum is
  mapped to \<^verbatim>\<open>Inf / Inf = NaN\<close>, not to 1. The same holds for the image \<open>[0, Inf]\<close>.
  In the image \<open>[0, 1, NaN]\<close> the \<^verbatim>\<open>NaN\<close> is skipped by \<^verbatim>\<open>min\<close> and \<^verbatim>\<open>max\<close>
  and stays \<^verbatim>\<open>NaN\<close> in the output, outside \<open>[0, 1]\<close>. For the constant image
  \<open>[Inf, Inf]\<close> the divisor \<open>max - min\<close> is \<^verbatim>\<open>NaN\<close>, not zero. Every finite
  number of these runs is a \<^verbatim>\<open>double\<close>, so no rounding takes place: \<open>rnd\<close> is the
  identity here (\<open>normalize_overflow\<close> gives the first run for every rounding).
\<close>

theorem C10_overflow_counterexample:
  "gc_normalize_image (\<lambda>x. x) (2 ^ 1024 - 2 ^ 970) True [Fin (- (2 ^ 1023)), Fin (2 ^ 1023)]
     = Inr [Fin 0, NaN]
   \<and> gc_normalize_image (\<lambda>x. x) (2 ^ 1024 - 2 ^ 970) True [Fin 0, PosInf] = Inr [Fin 0, NaN]
   \<and> gc_normalize_image (\<lambda>x. x) (2 ^ 1024 - 2 ^ 970) True [Fin 0, Fin 1, NaN]
     = Inr [Fin 0, Fin 1, NaN]
   \<and> fminus (\<lambda>x. x) (2 ^ 1024 - 2 ^ 970) (matlab_max [PosInf, PosInf]) (matlab_min [PosInf, PosInf])
     = NaN
   \<and> gc_normalize_image (\<lambda>x. x) (2 ^ 1024 - 2 ^ 970) True [PosInf, PosInf] = Inr [NaN, NaN]"
  by (simp add: gc_normalize_image_def matlab_min_def matlab_max_def min2_def max2_def fl_def Let_def)

end
